theory Spec2Isabelle
  imports Main "HOL-Library.AList"
begin

section \<open>Python values, dictionaries and errors\<close>

text \<open>
  The manifest generators \<^verbatim>\<open>scripts/generate_manifest_v2.py\<close> and
  \<^verbatim>\<open>scripts/generate_manifest_v2_approved.py\<close> build a JSON document out of
  nested Python literals. A Python value is a string, an integer, a boolean, a list or a
  dictionary; a dictionary is kept as its \<^verbatim>\<open>items()\<close> in insertion order, because
  the generators iterate over it and the order of the output depends on it. The keys of a
  Python dictionary are pairwise distinct.
\<close>

datatype pyval =
    PStr string
  | PInt int
  | PBool bool
  | PList "pyval list"
  | PDict "(string \<times> pyval) list"

type_synonym pydict = "(string \<times> pyval) list"

text \<open>
  Every failure of a run is a value. \<open>KeyError\<close>, \<open>TypeError\<close> and \<open>AttributeError\<close>
  are what the Python interpreter raises on a subscript or a method call that does not
  apply; \<open>DuplicateNameError\<close> and \<open>DanglingRedirectError\<close> are the two validation
  errors of the specification. \<open>InvalidReference\<close> is no Python exception: it is the
  answer of the heap model below to an address at which nothing is allocated.
\<close>

datatype error =
    KeyError string
  | TypeError
  | AttributeError
  | DuplicateNameError
  | DanglingRedirectError
  | InvalidReference

fun bind_err :: "error + 'a \<Rightarrow> ('a \<Rightarrow> error + 'b) \<Rightarrow> error + 'b" where
  "bind_err (Inl e) f = Inl e"
| "bind_err (Inr x) f = f x"

text \<open>\<^verbatim>\<open>d[k]\<close>: a missing key raises, and only a dictionary takes a string subscript.\<close>

fun getitem :: "pyval \<Rightarrow> string \<Rightarrow> error + pyval" where
  "getitem (PDict kvs) k = (case map_of kvs k of Some v \<Rightarrow> Inr v | None \<Rightarrow> Inl (KeyError k))"
| "getitem (PStr s) k = Inl TypeError"
| "getitem (PInt i) k = Inl TypeError"
| "getitem (PBool b) k = Inl TypeError"
| "getitem (PList xs) k = Inl TypeError"

text \<open>
  \<^verbatim>\<open>manifest["tools"].append(tool)\<close>: the list stored under \<^verbatim>\<open>"tools"\<close> is extended in
  place, which leaves the dictionary with the longer list under the same key. The method
  exists on lists only.
\<close>

fun list_append :: "pyval \<Rightarrow> pyval \<Rightarrow> error + pyval" where
  "list_append (PList xs) v = Inr (PList (xs @ [v]))"
| "list_append (PStr s) v = Inl AttributeError"
| "list_append (PInt i) v = Inl AttributeError"
| "list_append (PBool b) v = Inl AttributeError"
| "list_append (PDict kvs) v = Inl AttributeError"

fun store_item :: "pyval \<Rightarrow> string \<Rightarrow> pyval \<Rightarrow> error + pyval" where
  "store_item (PDict kvs) k v = Inr (PDict (AList.update k v kvs))"
| "store_item (PStr s) k v = Inl TypeError"
| "store_item (PInt i) k v = Inl TypeError"
| "store_item (PBool b) k v = Inl TypeError"
| "store_item (PList xs) k v = Inl TypeError"

definition tools_append :: "pyval \<Rightarrow> pyval \<Rightarrow> error + pyval" where
  "tools_append manifest tool =
     bind_err (getitem manifest ''tools'') (\<lambda>l.
     bind_err (list_append l tool) (\<lambda>l'.
     store_item manifest ''tools'' l'))"

section \<open>The built-in registries\<close>

text \<open>
  \<^verbatim>\<open>TOOLS\<close> and \<^verbatim>\<open>DEPRECATED_ALIASES\<close> of \<^verbatim>\<open>generate_manifest_v2.py\<close>, then those of
  \<^verbatim>\<open>generate_manifest_v2_approved.py\<close>, entry by entry in the order of the source.
\<close>


definition TOOLS_v2 :: pydict where
  "TOOLS_v2 = [
    (''user_get_profile'', PDict [
      (''category'', PStr ''User Profile & Goals''),
      (''description'', PStr ''Use when you need to retrieve the active user's diet preferences, allergies, current goals, or profile information. This is a read-only setup tool that provides context for meal planning and tracking.''),
      (''input_schema'', PDict [
        (''type'', PStr ''object''),
        (''properties'', PDict [
          (''user_id'', PDict [(''type'', PStr ''string''), (''description'', PStr ''Unique user identifier'')])]),
        (''required'', PList [PStr ''user_id''])])]),
    (''user_set_weight_goal'', PDict [
      (''category'', PStr ''User Profile & Goals''),
      (''description'', PStr ''Use when a user expresses a weight goal such as 'I want to lose 5 kg', 'gain muscle', or 'maintain my current weight'. This sets the active goal used by planning and tracking tools. Call this BEFORE creating meal plans.''),
      (''input_schema'', PDict [
        (''type'', PStr ''object''),
        (''properties'', PDict [
          (''user_id'', PDict [(''type'', PStr ''string''), (''description'', PStr ''Unique user identifier'')]),
          (''target_weight_kg'', PDict [(''type'', PStr ''number''), (''description'', PStr ''Target weight in kilograms'')]),
          (''goal_type'', PDict [
            (''type'', PStr ''string''),
            (''enum'', PList [PStr ''loss'', PStr ''gain'', PStr ''maintain'']),
            (''description'', PStr ''Type of weight goal'')]),
          (''target_date'', PDict [(''type'', PStr ''string''), (''description'', PStr ''Optional target date (ISO 8601)'')])]),
        (''required'', PList [PStr ''user_id'', PStr ''target_weight_kg'', PStr ''goal_type''])])]),
    (''user_update_diet_preferences'', PDict [
      (''category'', PStr ''User Profile & Goals''),
      (''description'', PStr ''Use when the user specifies diet restrictions or macro preferences such as 'I'm vegan', 'no dairy', 'high protein', or 'keto diet'. This updates their nutrition profile and affects future meal plan generation.''),
      (''input_schema'', PDict [
        (''type'', PStr ''object''),
        (''properties'', PDict [
          (''user_id'', PDict [(''type'', PStr ''string''), (''description'', PStr ''Unique user identifier'')]),
          (''diet_tags'', PDict [
            (''type'', PStr ''array''),
            (''items'', PDict [(''type'', PStr ''string'')]),
            (''description'', PStr ''Diet types (vegan, keto, etc.)'')]),
          (''allergies'', PDict [
            (''type'', PStr ''array''),
            (''items'', PDict [(''type'', PStr ''string'')]),
            (''description'', PStr ''Food allergies or exclusions'')])]),
        (''required'', PList [PStr ''user_id''])])]),
    (''user_get_goals'', PDict [
      (''category'', PStr ''User Profile & Goals''),
      (''description'', PStr ''Use when you need to retrieve the list of currently active user goals (weight, calories, macros). This is a read-only tool for checking what goals are set.''),
      (''input_schema'', PDict [
        (''type'', PStr ''object''),
        (''properties'', PDict [
          (''user_id'', PDict [(''type'', PStr ''string''), (''description'', PStr ''Unique user identifier'')])]),
        (''required'', PList [PStr ''user_id''])])]),
    (''user_reset_profile'', PDict [
      (''category'', PStr ''User Profile & Goals''),
      (''description'', PStr ''Use when the user says 'start over', 'reset everything', or 'clear my profile'. This resets all stored goals and diet preferences so the user can begin fresh.''),
      (''input_schema'', PDict [
        (''type'', PStr ''object''),
        (''properties'', PDict [
          (''user_id'', PDict [(''type'', PStr ''string''), (''description'', PStr ''Unique user identifier'')])]),
        (''required'', PList [PStr ''user_id''])])]),
    (''plan_create_meal_plan'', PDict [
      (''category'', PStr ''Meal Planning''),
      (''description'', PStr ''Use when a user asks for a daily or weekly meal plan such as 'Make me a 7-day plan', 'I need a meal plan for this week', or 'Create a diet plan for me'. This generates a complete plan aligned with the user's active goals. Call ONLY AFTER a goal has been set with user_set_weight_goal.''),
      (''input_schema'', PDict [
        (''type'', PStr ''object''),
        (''properties'', PDict [
          (''user_id'', PDict [(''type'', PStr ''string''), (''description'', PStr ''Unique user identifier'')]),
          (''duration_days'', PDict [
            (''type'', PStr ''integer''),
            (''default'', PInt 7),
            (''description'', PStr ''Number of days (1-30)'')]),
          (''calorie_target'', PDict [(''type'', PStr ''number''), (''description'', PStr ''Daily calorie target'')]),
          (''diet'', PDict [(''type'', PStr ''string''), (''description'', PStr ''Diet type (vegan, keto, etc.)'')]),
          (''meals_per_day'', PDict [
            (''type'', PStr ''integer''),
            (''default'', PInt 3),
            (''description'', PStr ''Number of meals per day'')]),
          (''allergies'', PDict [
            (''type'', PStr ''array''),
            (''items'', PDict [(''type'', PStr ''string'')]),
            (''description'', PStr ''Food allergies'')]),
          (''cuisine_preferences'', PDict [
            (''type'', PStr ''array''),
            (''items'', PDict [(''type'', PStr ''string'')]),
            (''description'', PStr ''Preferred cuisines'')])]),
        (''required'', PList [PStr ''user_id'', PStr ''calorie_target''])])]),
    (''plan_generate_from_leftovers'', PDict [
      (''category'', PStr ''Meal Planning''),
      (''description'', PStr ''Use when the user lists ingredients on hand and asks 'What can I make?', 'I have eggs and spinach', or 'Use up my leftovers'. This creates one or more meals from available ingredients using the nutrition database.''),
      (''input_schema'', PDict [
        (''type'', PStr ''object''),
        (''properties'', PDict [
          (''user_id'', PDict [(''type'', PStr ''string''), (''description'', PStr ''Unique user identifier'')]),
          (''ingredients'', PDict [
            (''type'', PStr ''array''),
            (''items'', PDict [(''type'', PStr ''string'')]),
            (''description'', PStr ''Available ingredients'')])]),
        (''required'', PList [PStr ''user_id'', PStr ''ingredients''])])]),
    (''plan_random_meal'', PDict [
      (''category'', PStr ''Meal Planning''),
      (''description'', PStr ''Use when the user asks for a quick meal suggestion such as 'Give me a healthy dinner idea', 'Suggest a breakfast', or 'Random meal for lunch'. This is a lightweight generator for single meal ideas.''),
      (''input_schema'', PDict [
        (''type'', PStr ''object''),
        (''properties'', PDict [
          (''user_id'', PDict [(''type'', PStr ''string''), (''description'', PStr ''Unique user identifier'')]),
          (''meal_type'', PDict [
            (''type'', PStr ''string''),
            (''enum'', PList [PStr ''breakfast'', PStr ''lunch'', PStr ''dinner'', PStr ''snack'']),
            (''description'', PStr ''Type of meal'')])]),
        (''required'', PList [PStr ''user_id'', PStr ''meal_type''])])]),
    (''plan_customize_meal_plan'', PDict [
      (''category'', PStr ''Meal Planning''),
      (''description'', PStr ''Use when the user wants to modify an existing plan with feedback such as 'Add more protein', 'Swap dinner 2 for something else', or 'Make it less spicy'. This is a mutation tool that edits active plans.''),
      (''input_schema'', PDict [
        (''type'', PStr ''object''),
        (''properties'', PDict [
          (''user_id'', PDict [(''type'', PStr ''string''), (''description'', PStr ''Unique user identifier'')]),
          (''plan_id'', PDict [(''type'', PStr ''string''), (''description'', PStr ''Plan identifier to customize'')]),
          (''instructions'', PDict [
            (''type'', PStr ''string''),
            (''description'', PStr ''Natural language modification instructions'')])]),
        (''required'', PList [PStr ''user_id'', PStr ''plan_id'', PStr ''instructions''])])]),
    (''plan_get_active_plan'', PDict [
      (''category'', PStr ''Meal Planning''),
      (''description'', PStr ''Use when you need to fetch the user's current active meal plan for review, reuse, or reference. This is a read-only tool that retrieves stored plans.''),
      (''input_schema'', PDict [
        (''type'', PStr ''object''),
        (''properties'', PDict [
          (''user_id'', PDict [(''type'', PStr ''string''), (''description'', PStr ''Unique user identifier'')]),
          (''plan_id'', PDict [(''type'', PStr ''string''), (''description'', PStr ''Optional specific plan ID'')])]),
        (''required'', PList [PStr ''user_id''])])]),
    (''nutrition_analyze_food'', PDict [
      (''category'', PStr ''Nutrition Analysis''),
      (''description'', PStr ''Use when the user lists foods or recipes and asks 'What's in this?', 'How many calories?', 'Analyze this smoothie', or 'Nutrition facts for...'. This returns detailed macros and micros per serving using the 1,000-food database.''),
      (''input_schema'', PDict [
        (''type'', PStr ''object''),
        (''properties'', PDict [
          (''ingredients'', PDict [
            (''type'', PStr ''array''),
            (''items'', PDict [(''type'', PStr ''string'')]),
            (''description'', PStr ''List of ingredients'')]),
          (''quantity'', PDict [(''type'', PStr ''number''), (''description'', PStr ''Serving quantity'')]),
          (''unit'', PDict [(''type'', PStr ''string''), (''description'', PStr ''Unit of measurement'')])]),
        (''required'', PList [PStr ''ingredients''])])]),
    (''nutrition_get_macros'', PDict [
      (''category'', PStr ''Nutrition Analysis''),
      (''description'', PStr ''Use when you need to summarize total macros from an existing plan or tracker entry. This aggregates calories, protein, carbs, and fat from multiple sources.''),
      (''input_schema'', PDict [
        (''type'', PStr ''object''),
        (''properties'', PDict [
          (''source_id'', PDict [(''type'', PStr ''string''), (''description'', PStr ''Plan ID or tracker ID'')]),
          (''source_type'', PDict [
            (''type'', PStr ''string''),
            (''enum'', PList [PStr ''plan'', PStr ''tracker'']),
            (''description'', PStr ''Type of source'')])]),
        (''required'', PList [PStr ''source_id'', PStr ''source_type''])])]),
    (''nutrition_compare_foods'', PDict [
      (''category'', PStr ''Nutrition Analysis''),
      (''description'', PStr ''Use when the user asks to compare two foods such as 'Chicken vs Tofu', 'Which has more protein?', or 'Compare brown rice and quinoa'. This returns nutritional differences side-by-side.''),
      (''input_schema'', PDict [
        (''type'', PStr ''object''),
        (''properties'', PDict [
          (''food_a'', PDict [(''type'', PStr ''string''), (''description'', PStr ''First food name'')]),
          (''food_b'', PDict [(''type'', PStr ''string''), (''description'', PStr ''Second food name'')])]),
        (''required'', PList [PStr ''food_a'', PStr ''food_b''])])]),
    (''nutrition_get_recommendations'', PDict [
      (''category'', PStr ''Nutrition Analysis''),
      (''description'', PStr ''Use when the user asks 'What foods are high in iron/protein/fiber?', 'Best sources of vitamin C?', or 'Foods rich in...'. This is a discovery tool that lists foods by nutrient content.''),
      (''input_schema'', PDict [
        (''type'', PStr ''object''),
        (''properties'', PDict [
          (''nutrient_name'', PDict [
            (''type'', PStr ''string''),
            (''description'', PStr ''Nutrient to search for (e.g., 'protein', 'iron', 'vitamin C')'')])]),
        (''required'', PList [PStr ''nutrient_name''])])]),
    (''tracker_log_meal'', PDict [
      (''category'', PStr ''Tracking & Progress''),
      (''description'', PStr ''Use when the user records a meal or snack manually such as 'I ate oatmeal for breakfast', 'Log my lunch', or 'I had a protein shake'. This creates a tracker entry for adherence monitoring.''),
      (''input_schema'', PDict [
        (''type'', PStr ''object''),
        (''properties'', PDict [
          (''user_id'', PDict [(''type'', PStr ''string''), (''description'', PStr ''Unique user identifier'')]),
          (''meal_name'', PDict [(''type'', PStr ''string''), (''description'', PStr ''Name of the meal'')]),
          (''ingredients'', PDict [
            (''type'', PStr ''array''),
            (''items'', PDict [(''type'', PStr ''string'')]),
            (''description'', PStr ''List of ingredients'')]),
          (''time'', PDict [(''type'', PStr ''string''), (''description'', PStr ''Time of meal (ISO 8601)'')]),
          (''calories'', PDict [(''type'', PStr ''number''), (''description'', PStr ''Optional manual calorie entry'')])]),
        (''required'', PList [PStr ''user_id'', PStr ''meal_name''])])]),
    (''tracker_log_weight'', PDict [
      (''category'', PStr ''Tracking & Progress''),
      (''description'', PStr ''Use when the user provides current weight such as 'I weigh 72 kg today', 'My weight is 160 lbs', or 'Log my weight'. This updates the weight trend used by the feedback loop.''),
      (''input_schema'', PDict [
        (''type'', PStr ''object''),
        (''properties'', PDict [
          (''user_id'', PDict [(''type'', PStr ''string''), (''description'', PStr ''Unique user identifier'')]),
          (''weight_kg'', PDict [(''type'', PStr ''number''), (''description'', PStr ''Weight in kilograms'')]),
          (''date'', PDict [(''type'', PStr ''string''), (''description'', PStr ''Date of measurement (ISO 8601)'')]),
          (''notes'', PDict [(''type'', PStr ''string''), (''description'', PStr ''Optional notes'')])]),
        (''required'', PList [PStr ''user_id'', PStr ''weight_kg''])])]),
    (''tracker_get_progress'', PDict [
      (''category'', PStr ''Tracking & Progress''),
      (''description'', PStr ''Use when you need to retrieve historical weight and macro trends for charts or summaries. This returns time-series data for visualization.''),
      (''input_schema'', PDict [
        (''type'', PStr ''object''),
        (''properties'', PDict [
          (''user_id'', PDict [(''type'', PStr ''string''), (''description'', PStr ''Unique user identifier'')]),
          (''timespan_days'', PDict [
            (''type'', PStr ''integer''),
            (''description'', PStr ''Number of days to retrieve (7, 30, 90)'')])]),
        (''required'', PList [PStr ''user_id'', PStr ''timespan_days''])])]),
    (''tracker_summary'', PDict [
      (''category'', PStr ''Tracking & Progress''),
      (''description'', PStr ''Use when the user asks 'How am I doing?', 'Show my progress', or 'Weekly summary'. This aggregates macros, adherence, and goal progress for a specified period.''),
      (''input_schema'', PDict [
        (''type'', PStr ''object''),
        (''properties'', PDict [
          (''user_id'', PDict [(''type'', PStr ''string''), (''description'', PStr ''Unique user identifier'')]),
          (''period'', PDict [
            (''type'', PStr ''string''),
            (''enum'', PList [PStr ''day'', PStr ''week'', PStr ''month'']),
            (''description'', PStr ''Summary period'')])]),
        (''required'', PList [PStr ''user_id'', PStr ''period''])])]),
    (''loop_evaluate_plan'', PDict [
      (''category'', PStr ''Feedback Loop''),
      (''description'', PStr ''Use when the user asks 'Did I follow the plan?', 'How well did I do?', or 'Evaluate my adherence'. This compares the active plan versus actual tracking data to measure compliance.''),
      (''input_schema'', PDict [
        (''type'', PStr ''object''),
        (''properties'', PDict [
          (''user_id'', PDict [(''type'', PStr ''string''), (''description'', PStr ''Unique user identifier'')]),
          (''plan_id'', PDict [(''type'', PStr ''string''), (''description'', PStr ''Plan identifier to evaluate'')]),
          (''tracker_range'', PDict [(''type'', PStr ''string''), (''description'', PStr ''Date range for tracker data'')])]),
        (''required'', PList [PStr ''user_id'', PStr ''plan_id''])])]),
    (''loop_adjust_calories'', PDict [
      (''category'', PStr ''Feedback Loop''),
      (''description'', PStr ''Use when the user says 'Adjust my meals', 'I didn't lose enough weight', or 'Increase my calories'. This modifies the calorie target or macros for future plans based on results.''),
      (''input_schema'', PDict [
        (''type'', PStr ''object''),
        (''properties'', PDict [
          (''user_id'', PDict [(''type'', PStr ''string''), (''description'', PStr ''Unique user identifier'')]),
          (''adjustment_factor'', PDict [
            (''type'', PStr ''number''),
            (''description'', PStr ''Multiplier for adjustment (0.9 = -10%, 1.1 = +10%)'')]),
          (''new_target'', PDict [
            (''type'', PStr ''number''),
            (''description'', PStr ''Optional explicit new calorie target'')])]),
        (''required'', PList [PStr ''user_id''])])]),
    (''loop_generate_feedback_report'', PDict [
      (''category'', PStr ''Feedback Loop''),
      (''description'', PStr ''Use when you need to create a summarized AI feedback report for the user such as 'You hit 85% consistency this week'. This generates human-readable narrative feedback.''),
      (''input_schema'', PDict [
        (''type'', PStr ''object''),
        (''properties'', PDict [
          (''user_id'', PDict [(''type'', PStr ''string''), (''description'', PStr ''Unique user identifier'')]),
          (''period'', PDict [(''type'', PStr ''string''), (''description'', PStr ''Period to summarize (week, month)'')])]),
        (''required'', PList [PStr ''user_id'', PStr ''period''])])]),
    (''loop_predict_outcome'', PDict [
      (''category'', PStr ''Feedback Loop''),
      (''description'', PStr ''Use when the user asks 'What will I weigh in 2 weeks?', 'Predict my progress', or 'When will I reach my goal?'. This forecasts future progress based on current trend.''),
      (''input_schema'', PDict [
        (''type'', PStr ''object''),
        (''properties'', PDict [
          (''user_id'', PDict [(''type'', PStr ''string''), (''description'', PStr ''Unique user identifier'')]),
          (''days_ahead'', PDict [(''type'', PStr ''integer''), (''description'', PStr ''Number of days to forecast'')])]),
        (''required'', PList [PStr ''user_id'', PStr ''days_ahead''])])]),
    (''loop_reset_cycle'', PDict [
      (''category'', PStr ''Feedback Loop''),
      (''description'', PStr ''Use when starting a new evaluation cycle. This resets weekly loop data and begins a fresh feedback period.''),
      (''input_schema'', PDict [
        (''type'', PStr ''object''),
        (''properties'', PDict [
          (''user_id'', PDict [(''type'', PStr ''string''), (''description'', PStr ''Unique user identifier'')])]),
        (''required'', PList [PStr ''user_id''])])]),
    (''delivery_search_restaurants'', PDict [
      (''category'', PStr ''Delivery & Integrations''),
      (''description'', PStr ''Use when the user asks for nearby delivery options matching their diet plan such as 'Find vegan restaurants', 'Delivery near me', or 'Where can I order keto food?'. This uses MealMe / DoorDash API.''),
      (''input_schema'', PDict [
        (''type'', PStr ''object''),
        (''properties'', PDict [
          (''location'', PDict [(''type'', PStr ''string''), (''description'', PStr ''Address or coordinates'')]),
          (''diet_tags'', PDict [
            (''type'', PStr ''array''),
            (''items'', PDict [(''type'', PStr ''string'')]),
            (''description'', PStr ''Diet filters (vegan, keto, etc.)'')])]),
        (''required'', PList [PStr ''location''])])]),
    (''delivery_get_menu'', PDict [
      (''category'', PStr ''Delivery & Integrations''),
      (''description'', PStr ''Use to fetch the menu for a given restaurant ID. This is a supporting data helper tool.''),
      (''input_schema'', PDict [
        (''type'', PStr ''object''),
        (''properties'', PDict [
          (''restaurant_id'', PDict [(''type'', PStr ''string''), (''description'', PStr ''Restaurant identifier from search'')])]),
        (''required'', PList [PStr ''restaurant_id''])])]),
    (''delivery_place_order'', PDict [
      (''category'', PStr ''Delivery & Integrations''),
      (''description'', PStr ''Use when the user says 'Order my lunch', 'Place this order', or 'Checkout'. This places a food order through partner APIs (Premium feature).''),
      (''input_schema'', PDict [
        (''type'', PStr ''object''),
        (''properties'', PDict [
          (''user_id'', PDict [(''type'', PStr ''string''), (''description'', PStr ''Unique user identifier'')]),
          (''restaurant_id'', PDict [(''type'', PStr ''string''), (''description'', PStr ''Restaurant identifier'')]),
          (''menu_item_id'', PDict [(''type'', PStr ''string''), (''description'', PStr ''Menu item to order'')])]),
        (''required'', PList [PStr ''user_id'', PStr ''restaurant_id'', PStr ''menu_item_id''])])]),
    (''delivery_track_order'', PDict [
      (''category'', PStr ''Delivery & Integrations''),
      (''description'', PStr ''Use to check delivery status for a previously placed order. This is an optional B2C tool.''),
      (''input_schema'', PDict [
        (''type'', PStr ''object''),
        (''properties'', PDict [
          (''order_id'', PDict [(''type'', PStr ''string''), (''description'', PStr ''Order identifier from place_order'')])]),
        (''required'', PList [PStr ''order_id''])])]),
    (''sys_get_help'', PDict [
      (''category'', PStr ''System & Support''),
      (''description'', PStr ''Use when the user asks 'What can you do?', 'List all tools', or 'Help me understand your features'. This provides a developer-facing tool list with usage examples.''),
      (''input_schema'', PDict [
        (''type'', PStr ''object''),
        (''properties'', PDict [])])]),
    (''sys_healthcheck'', PDict [
      (''category'', PStr ''System & Support''),
      (''description'', PStr ''Use for monitoring or debugging. Returns system status, active manifest version, and database checksum.''),
      (''input_schema'', PDict [
        (''type'', PStr ''object''),
        (''properties'', PDict [])])]),
    (''sys_debug_tool_choice_log'', PDict [
      (''category'', PStr ''System & Support''),
      (''description'', PStr ''Use to log tool-selection context for QA and routing accuracy analysis. This is a dev-only tool that tracks which tool was chosen and why.''),
      (''input_schema'', PDict [
        (''type'', PStr ''object''),
        (''properties'', PDict [
          (''input'', PDict [(''type'', PStr ''string''), (''description'', PStr ''User's original query'')]),
          (''chosen_tool'', PDict [(''type'', PStr ''string''), (''description'', PStr ''Tool that was selected'')]),
          (''confidence'', PDict [(''type'', PStr ''number''), (''description'', PStr ''Confidence score (0-1)'')])]),
        (''required'', PList [PStr ''input'', PStr ''chosen_tool''])])])]"

definition DEPRECATED_ALIASES_v2 :: pydict where
  "DEPRECATED_ALIASES_v2 = [
    (''tracker_set_goals'', PDict [
      (''redirect_to'', PStr ''user_set_weight_goal''),
      (''description'', PStr ''[DEPRECATED] Alias for user_set_weight_goal. Use only if legacy code still calls this name. Will be removed in v2.1.0.''),
      (''category'', PStr ''Deprecated'')]),
    (''tracker_quick_add_calories'', PDict [
      (''redirect_to'', PStr ''tracker_log_meal''),
      (''description'', PStr ''[DEPRECATED] Alias for tracker_log_meal. Use only if legacy code still calls this name. Will be removed in v2.1.0.''),
      (''category'', PStr ''Deprecated'')]),
    (''get_weight_prefs'', PDict [
      (''redirect_to'', PStr ''user_get_profile''),
      (''description'', PStr ''[DEPRECATED] Alias for user_get_profile. Use only if legacy code still calls this name. Will be removed in v2.1.0.''),
      (''category'', PStr ''Deprecated'')]),
    (''update_weight_prefs'', PDict [
      (''redirect_to'', PStr ''user_update_diet_preferences''),
      (''description'', PStr ''[DEPRECATED] Alias for user_update_diet_preferences. Use only if legacy code still calls this name. Will be removed in v2.1.0.''),
      (''category'', PStr ''Deprecated'')]),
    (''generate_week_plan'', PDict [
      (''redirect_to'', PStr ''plan_create_meal_plan''),
      (''description'', PStr ''[DEPRECATED] Alias for plan_create_meal_plan. Use only if legacy code still calls this name. Will be removed in v2.1.0.''),
      (''category'', PStr ''Deprecated'')]),
    (''recipes_creative_recipe'', PDict [
      (''redirect_to'', PStr ''plan_generate_from_leftovers''),
      (''description'', PStr ''[DEPRECATED] Alias for plan_generate_from_leftovers. Use only if legacy code still calls this name. Will be removed in v2.1.0.''),
      (''category'', PStr ''Deprecated'')]),
    (''log_meal_plan'', PDict [
      (''redirect_to'', PStr ''plan_get_active_plan''),
      (''description'', PStr ''[DEPRECATED] Alias for plan_get_active_plan. Use only if legacy code still calls this name. Will be removed in v2.1.0.''),
      (''category'', PStr ''Deprecated'')]),
    (''nutrition_analyze'', PDict [
      (''redirect_to'', PStr ''nutrition_analyze_food''),
      (''description'', PStr ''[DEPRECATED] Alias for nutrition_analyze_food. Use only if legacy code still calls this name. Will be removed in v2.1.0.''),
      (''category'', PStr ''Deprecated'')]),
    (''normalize_ingredients'', PDict [
      (''redirect_to'', PStr ''nutrition_get_macros''),
      (''description'', PStr ''[DEPRECATED] Alias for nutrition_get_macros. Use only if legacy code still calls this name. Will be removed in v2.1.0.''),
      (''category'', PStr ''Deprecated'')]),
    (''tracker_log_food'', PDict [
      (''redirect_to'', PStr ''tracker_log_meal''),
      (''description'', PStr ''[DEPRECATED] Alias for tracker_log_meal. Use only if legacy code still calls this name. Will be removed in v2.1.0.''),
      (''category'', PStr ''Deprecated'')]),
    (''log_weight'', PDict [
      (''redirect_to'', PStr ''tracker_log_weight''),
      (''description'', PStr ''[DEPRECATED] Alias for tracker_log_weight. Use only if legacy code still calls this name. Will be removed in v2.1.0.''),
      (''category'', PStr ''Deprecated'')]),
    (''weekly_trend'', PDict [
      (''redirect_to'', PStr ''tracker_get_progress''),
      (''description'', PStr ''[DEPRECATED] Alias for tracker_get_progress. Use only if legacy code still calls this name. Will be removed in v2.1.0.''),
      (''category'', PStr ''Deprecated'')]),
    (''tracker_get_daily_summary'', PDict [
      (''redirect_to'', PStr ''tracker_summary''),
      (''description'', PStr ''[DEPRECATED] Alias for tracker_summary. Use only if legacy code still calls this name. Will be removed in v2.1.0.''),
      (''category'', PStr ''Deprecated'')]),
    (''evaluate_plan_outcome'', PDict [
      (''redirect_to'', PStr ''loop_evaluate_plan''),
      (''description'', PStr ''[DEPRECATED] Alias for loop_evaluate_plan. Use only if legacy code still calls this name. Will be removed in v2.1.0.''),
      (''category'', PStr ''Deprecated'')]),
    (''push_plan_feedback'', PDict [
      (''redirect_to'', PStr ''loop_adjust_calories''),
      (''description'', PStr ''[DEPRECATED] Alias for loop_adjust_calories. Use only if legacy code still calls this name. Will be removed in v2.1.0.''),
      (''category'', PStr ''Deprecated'')]),
    (''mealme_search'', PDict [
      (''redirect_to'', PStr ''delivery_search_restaurants''),
      (''description'', PStr ''[DEPRECATED] Alias for delivery_search_restaurants. Use only if legacy code still calls this name. Will be removed in v2.1.0.''),
      (''category'', PStr ''Deprecated'')]),
    (''get_delivery_recommendations'', PDict [
      (''redirect_to'', PStr ''delivery_get_menu''),
      (''description'', PStr ''[DEPRECATED] Alias for delivery_get_menu. Use only if legacy code still calls this name. Will be removed in v2.1.0.''),
      (''category'', PStr ''Deprecated'')]),
    (''mealme_order_plan'', PDict [
      (''redirect_to'', PStr ''delivery_place_order''),
      (''description'', PStr ''[DEPRECATED] Alias for delivery_place_order. Use only if legacy code still calls this name. Will be removed in v2.1.0.''),
      (''category'', PStr ''Deprecated'')])]"

definition TOOLS_approved :: pydict where
  "TOOLS_approved = [
    (''user_get_profile'', PDict [
      (''category'', PStr ''User Profile & Goals''),
      (''description'', PStr ''Use when you need to retrieve the active user's diet preferences, allergies, current goals, or profile information. This is a read-only setup tool that provides context for meal planning and tracking.''),
      (''input_schema'', PDict [
        (''type'', PStr ''object''),
        (''properties'', PDict [
          (''user_id'', PDict [(''type'', PStr ''string''), (''description'', PStr ''Unique user identifier'')])]),
        (''required'', PList [PStr ''user_id''])])]),
    (''user_set_weight_goal'', PDict [
      (''category'', PStr ''User Profile & Goals''),
      (''description'', PStr ''Use when a user expresses a weight goal such as 'I want to lose 5 kg', 'gain muscle', or 'maintain my current weight'. This sets the active goal used by planning and tracking tools. Call this BEFORE creating meal plans.''),
      (''input_schema'', PDict [
        (''type'', PStr ''object''),
        (''properties'', PDict [
          (''user_id'', PDict [(''type'', PStr ''string''), (''description'', PStr ''Unique user identifier'')]),
          (''target_weight_kg'', PDict [(''type'', PStr ''number''), (''description'', PStr ''Target weight in kilograms'')]),
          (''goal_type'', PDict [
            (''type'', PStr ''string''),
            (''enum'', PList [PStr ''loss'', PStr ''gain'', PStr ''maintain'']),
            (''description'', PStr ''Type of weight goal'')]),
          (''target_date'', PDict [(''type'', PStr ''string''), (''description'', PStr ''Optional target date (ISO 8601)'')])]),
        (''required'', PList [PStr ''user_id'', PStr ''target_weight_kg'', PStr ''goal_type''])])]),
    (''user_update_diet_preferences'', PDict [
      (''category'', PStr ''User Profile & Goals''),
      (''description'', PStr ''Use when the user specifies diet restrictions or macro preferences such as 'I'm vegan', 'no dairy', 'high protein', or 'keto diet'. This updates their nutrition profile and affects future meal plan generation.''),
      (''input_schema'', PDict [
        (''type'', PStr ''object''),
        (''properties'', PDict [
          (''user_id'', PDict [(''type'', PStr ''string''), (''description'', PStr ''Unique user identifier'')]),
          (''diet_tags'', PDict [
            (''type'', PStr ''array''),
            (''items'', PDict [(''type'', PStr ''string'')]),
            (''description'', PStr ''Diet types (vegan, keto, etc.)'')]),
          (''allergies'', PDict [
            (''type'', PStr ''array''),
            (''items'', PDict [(''type'', PStr ''string'')]),
            (''description'', PStr ''Food allergies or exclusions'')])]),
        (''required'', PList [PStr ''user_id''])])]),
    (''plan_create_meal_plan'', PDict [
      (''category'', PStr ''Meal Planning''),
      (''description'', PStr ''Use when a user asks for a daily or weekly meal plan such as 'Make me a 7-day plan', 'I need a meal plan for this week', or 'Create a diet plan for me'. This generates a complete plan aligned with the user's active goals. Use only after user_set_weight_goal or when an explicit calorie target is provided.''),
      (''input_schema'', PDict [
        (''type'', PStr ''object''),
        (''properties'', PDict [
          (''user_id'', PDict [(''type'', PStr ''string''), (''description'', PStr ''Unique user identifier'')]),
          (''duration_days'', PDict [
            (''type'', PStr ''integer''),
            (''default'', PInt 7),
            (''description'', PStr ''Number of days (1-30)'')]),
          (''calorie_target'', PDict [(''type'', PStr ''number''), (''description'', PStr ''Daily calorie target'')]),
          (''diet'', PDict [(''type'', PStr ''string''), (''description'', PStr ''Diet type (vegan, keto, etc.)'')]),
          (''meals_per_day'', PDict [
            (''type'', PStr ''integer''),
            (''default'', PInt 3),
            (''description'', PStr ''Number of meals per day'')]),
          (''allergies'', PDict [
            (''type'', PStr ''array''),
            (''items'', PDict [(''type'', PStr ''string'')]),
            (''description'', PStr ''Food allergies'')]),
          (''cuisine_preferences'', PDict [
            (''type'', PStr ''array''),
            (''items'', PDict [(''type'', PStr ''string'')]),
            (''description'', PStr ''Preferred cuisines'')])]),
        (''required'', PList [PStr ''user_id'', PStr ''calorie_target''])])]),
    (''plan_generate_from_leftovers'', PDict [
      (''category'', PStr ''Meal Planning''),
      (''description'', PStr ''Use when the user lists ingredients on hand and asks 'What can I make?', 'I have eggs and spinach', or 'Use up my leftovers'. This creates one or more meals from available ingredients using the nutrition database.''),
      (''input_schema'', PDict [
        (''type'', PStr ''object''),
        (''properties'', PDict [
          (''user_id'', PDict [(''type'', PStr ''string''), (''description'', PStr ''Unique user identifier'')]),
          (''ingredients'', PDict [
            (''type'', PStr ''array''),
            (''items'', PDict [(''type'', PStr ''string'')]),
            (''description'', PStr ''Available ingredients'')])]),
        (''required'', PList [PStr ''user_id'', PStr ''ingredients''])])]),
    (''plan_random_meal'', PDict [
      (''category'', PStr ''Meal Planning''),
      (''description'', PStr ''Use when the user asks for a quick meal suggestion such as 'Give me a healthy dinner idea', 'Suggest a breakfast', or 'Random meal for lunch'. This is a lightweight generator for single meal ideas.''),
      (''input_schema'', PDict [
        (''type'', PStr ''object''),
        (''properties'', PDict [
          (''user_id'', PDict [(''type'', PStr ''string''), (''description'', PStr ''Unique user identifier'')]),
          (''meal_type'', PDict [
            (''type'', PStr ''string''),
            (''enum'', PList [PStr ''breakfast'', PStr ''lunch'', PStr ''dinner'', PStr ''snack'']),
            (''description'', PStr ''Type of meal'')])]),
        (''required'', PList [PStr ''user_id'', PStr ''meal_type''])])]),
    (''plan_get_active_plan'', PDict [
      (''category'', PStr ''Meal Planning''),
      (''description'', PStr ''Use when you need to fetch the user's current active meal plan for review, reuse, or reference. This is a read-only tool that retrieves stored plans.''),
      (''input_schema'', PDict [
        (''type'', PStr ''object''),
        (''properties'', PDict [
          (''user_id'', PDict [(''type'', PStr ''string''), (''description'', PStr ''Unique user identifier'')]),
          (''plan_id'', PDict [(''type'', PStr ''string''), (''description'', PStr ''Optional specific plan ID'')])]),
        (''required'', PList [PStr ''user_id''])])]),
    (''nutrition_analyze_food'', PDict [
      (''category'', PStr ''Nutrition Analysis''),
      (''description'', PStr ''Use when the user lists foods or recipes and asks 'What's in this?', 'How many calories?', 'Analyze this smoothie', or 'Nutrition facts for...'. This returns detailed macros and micros per serving using the 1,000-food database.''),
      (''input_schema'', PDict [
        (''type'', PStr ''object''),
        (''properties'', PDict [
          (''ingredients'', PDict [
            (''type'', PStr ''array''),
            (''items'', PDict [(''type'', PStr ''string'')]),
            (''description'', PStr ''List of ingredients'')]),
          (''quantity'', PDict [(''type'', PStr ''number''), (''description'', PStr ''Serving quantity'')]),
          (''unit'', PDict [(''type'', PStr ''string''), (''description'', PStr ''Unit of measurement'')])]),
        (''required'', PList [PStr ''ingredients''])])]),
    (''nutrition_get_macros'', PDict [
      (''category'', PStr ''Nutrition Analysis''),
      (''description'', PStr ''Use when you need to summarize total macros from an existing plan or tracker entry. This aggregates calories, protein, carbs, and fat from multiple sources.''),
      (''input_schema'', PDict [
        (''type'', PStr ''object''),
        (''properties'', PDict [
          (''source_id'', PDict [(''type'', PStr ''string''), (''description'', PStr ''Plan ID or tracker ID'')]),
          (''source_type'', PDict [
            (''type'', PStr ''string''),
            (''enum'', PList [PStr ''plan'', PStr ''tracker'']),
            (''description'', PStr ''Type of source'')])]),
        (''required'', PList [PStr ''source_id'', PStr ''source_type''])])]),
    (''nutrition_compare_foods'', PDict [
      (''category'', PStr ''Nutrition Analysis''),
      (''description'', PStr ''Use when the user asks to compare two foods such as 'Chicken vs Tofu', 'Which has more protein?', or 'Compare brown rice and quinoa'. This returns nutritional differences side-by-side.''),
      (''input_schema'', PDict [
        (''type'', PStr ''object''),
        (''properties'', PDict [
          (''food_a'', PDict [(''type'', PStr ''string''), (''description'', PStr ''First food name'')]),
          (''food_b'', PDict [(''type'', PStr ''string''), (''description'', PStr ''Second food name'')])]),
        (''required'', PList [PStr ''food_a'', PStr ''food_b''])])]),
    (''nutrition_get_recommendations'', PDict [
      (''category'', PStr ''Nutrition Analysis''),
      (''description'', PStr ''Use when the user asks 'What foods are high in iron/protein/fiber?', 'Best sources of vitamin C?', or 'Foods rich in...'. This is a discovery tool that lists foods by nutrient content.''),
      (''input_schema'', PDict [
        (''type'', PStr ''object''),
        (''properties'', PDict [
          (''nutrient_name'', PDict [
            (''type'', PStr ''string''),
            (''description'', PStr ''Nutrient to search for (e.g., 'protein', 'iron', 'vitamin C')'')])]),
        (''required'', PList [PStr ''nutrient_name''])])]),
    (''tracker_log_meal'', PDict [
      (''category'', PStr ''Tracking & Progress''),
      (''description'', PStr ''Use when the user records a meal or snack manually such as 'I ate oatmeal for breakfast', 'Log my lunch', or 'I had a protein shake'. This creates a tracker entry for adherence monitoring.''),
      (''input_schema'', PDict [
        (''type'', PStr ''object''),
        (''properties'', PDict [
          (''user_id'', PDict [(''type'', PStr ''string''), (''description'', PStr ''Unique user identifier'')]),
          (''meal_name'', PDict [(''type'', PStr ''string''), (''description'', PStr ''Name of the meal'')]),
          (''ingredients'', PDict [
            (''type'', PStr ''array''),
            (''items'', PDict [(''type'', PStr ''string'')]),
            (''description'', PStr ''List of ingredients'')]),
          (''time'', PDict [(''type'', PStr ''string''), (''description'', PStr ''Time of meal (ISO 8601)'')]),
          (''calories'', PDict [(''type'', PStr ''number''), (''description'', PStr ''Optional manual calorie entry'')])]),
        (''required'', PList [PStr ''user_id'', PStr ''meal_name''])])]),
    (''tracker_log_weight'', PDict [
      (''category'', PStr ''Tracking & Progress''),
      (''description'', PStr ''Use when the user provides current weight such as 'I weigh 72 kg today', 'My weight is 160 lbs', or 'Log my weight'. This updates the weight trend used by the feedback loop.''),
      (''input_schema'', PDict [
        (''type'', PStr ''object''),
        (''properties'', PDict [
          (''user_id'', PDict [(''type'', PStr ''string''), (''description'', PStr ''Unique user identifier'')]),
          (''weight_kg'', PDict [(''type'', PStr ''number''), (''description'', PStr ''Weight in kilograms'')]),
          (''date'', PDict [(''type'', PStr ''string''), (''description'', PStr ''Date of measurement (ISO 8601)'')]),
          (''notes'', PDict [(''type'', PStr ''string''), (''description'', PStr ''Optional notes'')])]),
        (''required'', PList [PStr ''user_id'', PStr ''weight_kg''])])]),
    (''tracker_get_progress'', PDict [
      (''category'', PStr ''Tracking & Progress''),
      (''description'', PStr ''Use when you need to retrieve historical weight and macro trends for charts or summaries. This returns time-series data for visualization.''),
      (''input_schema'', PDict [
        (''type'', PStr ''object''),
        (''properties'', PDict [
          (''user_id'', PDict [(''type'', PStr ''string''), (''description'', PStr ''Unique user identifier'')]),
          (''timespan_days'', PDict [
            (''type'', PStr ''integer''),
            (''description'', PStr ''Number of days to retrieve (7, 30, 90)'')])]),
        (''required'', PList [PStr ''user_id'', PStr ''timespan_days''])])]),
    (''tracker_summary'', PDict [
      (''category'', PStr ''Tracking & Progress''),
      (''description'', PStr ''Use when the user asks 'How am I doing?', 'Show my progress', or 'Weekly summary'. This aggregates macros, adherence, and goal progress for a specified period. Prefer tracker_summary for 'How am I doing?'; use loop_evaluate_plan only when the user mentions comparing plan vs actuals.''),
      (''input_schema'', PDict [
        (''type'', PStr ''object''),
        (''properties'', PDict [
          (''user_id'', PDict [(''type'', PStr ''string''), (''description'', PStr ''Unique user identifier'')]),
          (''period'', PDict [
            (''type'', PStr ''string''),
            (''enum'', PList [PStr ''day'', PStr ''week'', PStr ''month'']),
            (''description'', PStr ''Summary period'')])]),
        (''required'', PList [PStr ''user_id'', PStr ''period''])])]),
    (''loop_evaluate_plan'', PDict [
      (''category'', PStr ''Feedback Loop''),
      (''description'', PStr ''Use when the user asks 'Did I follow the plan?', 'How well did I do?', or 'Evaluate my adherence'. This compares the active plan versus actual tracking data to measure compliance. Use only when the user mentions comparing plan vs actuals.''),
      (''input_schema'', PDict [
        (''type'', PStr ''object''),
        (''properties'', PDict [
          (''user_id'', PDict [(''type'', PStr ''string''), (''description'', PStr ''Unique user identifier'')]),
          (''plan_id'', PDict [(''type'', PStr ''string''), (''description'', PStr ''Plan identifier to evaluate'')]),
          (''tracker_range'', PDict [(''type'', PStr ''string''), (''description'', PStr ''Date range for tracker data'')])]),
        (''required'', PList [PStr ''user_id'', PStr ''plan_id''])])]),
    (''loop_adjust_calories'', PDict [
      (''category'', PStr ''Feedback Loop''),
      (''description'', PStr ''Use when the user says 'Adjust my meals', 'I didn't lose enough weight', or 'Increase my calories'. This modifies the calorie target or macros for future plans based on results. Use after loop_evaluate_plan or when the user explicitly asks to change targets.''),
      (''input_schema'', PDict [
        (''type'', PStr ''object''),
        (''properties'', PDict [
          (''user_id'', PDict [(''type'', PStr ''string''), (''description'', PStr ''Unique user identifier'')]),
          (''adjustment_factor'', PDict [
            (''type'', PStr ''number''),
            (''description'', PStr ''Multiplier for adjustment (0.9 = -10%, 1.1 = +10%)'')]),
          (''new_target'', PDict [
            (''type'', PStr ''number''),
            (''description'', PStr ''Optional explicit new calorie target'')])]),
        (''required'', PList [PStr ''user_id''])])]),
    (''loop_predict_outcome'', PDict [
      (''category'', PStr ''Feedback Loop''),
      (''description'', PStr ''Use when the user asks 'What will I weigh in 2 weeks?', 'Predict my progress', or 'When will I reach my goal?'. This forecasts future progress based on current trend.''),
      (''input_schema'', PDict [
        (''type'', PStr ''object''),
        (''properties'', PDict [
          (''user_id'', PDict [(''type'', PStr ''string''), (''description'', PStr ''Unique user identifier'')]),
          (''days_ahead'', PDict [(''type'', PStr ''integer''), (''description'', PStr ''Number of days to forecast'')])]),
        (''required'', PList [PStr ''user_id'', PStr ''days_ahead''])])]),
    (''delivery_search_restaurants'', PDict [
      (''category'', PStr ''Delivery & Integrations''),
      (''description'', PStr ''Use when the user asks for nearby delivery options matching their diet plan such as 'Find vegan restaurants', 'Delivery near me', or 'Where can I order keto food?'. This uses MealMe / DoorDash API.''),
      (''input_schema'', PDict [
        (''type'', PStr ''object''),
        (''properties'', PDict [
          (''location'', PDict [(''type'', PStr ''string''), (''description'', PStr ''Address or coordinates'')]),
          (''diet_tags'', PDict [
            (''type'', PStr ''array''),
            (''items'', PDict [(''type'', PStr ''string'')]),
            (''description'', PStr ''Diet filters (vegan, keto, etc.)'')])]),
        (''required'', PList [PStr ''location''])])]),
    (''delivery_get_menu'', PDict [
      (''category'', PStr ''Delivery & Integrations''),
      (''description'', PStr ''Supporting tool. Only call when another tool's output requests a menu fetch. Use to fetch the menu for a given restaurant ID.''),
      (''input_schema'', PDict [
        (''type'', PStr ''object''),
        (''properties'', PDict [
          (''restaurant_id'', PDict [(''type'', PStr ''string''), (''description'', PStr ''Restaurant identifier from search'')])]),
        (''required'', PList [PStr ''restaurant_id''])])]),
    (''delivery_place_order'', PDict [
      (''category'', PStr ''Delivery & Integrations''),
      (''description'', PStr ''Use when the user says 'Order my lunch', 'Place this order', or 'Checkout'. This places a food order through partner APIs (Premium feature).''),
      (''input_schema'', PDict [
        (''type'', PStr ''object''),
        (''properties'', PDict [
          (''user_id'', PDict [(''type'', PStr ''string''), (''description'', PStr ''Unique user identifier'')]),
          (''restaurant_id'', PDict [(''type'', PStr ''string''), (''description'', PStr ''Restaurant identifier'')]),
          (''menu_item_id'', PDict [(''type'', PStr ''string''), (''description'', PStr ''Menu item to order'')])]),
        (''required'', PList [PStr ''user_id'', PStr ''restaurant_id'', PStr ''menu_item_id''])])]),
    (''sys_get_help'', PDict [
      (''category'', PStr ''System & Support''),
      (''description'', PStr ''Developer-only; do not call in normal user flows. Use when the user asks 'What can you do?', 'List all tools', or 'Help me understand your features'. This provides a developer-facing tool list with usage examples.''),
      (''input_schema'', PDict [
        (''type'', PStr ''object''),
        (''properties'', PDict [])])]),
    (''sys_healthcheck'', PDict [
      (''category'', PStr ''System & Support''),
      (''description'', PStr ''Developer-only; do not call in normal user flows. Use for monitoring or debugging. Returns system status, active manifest version, and database checksum.''),
      (''input_schema'', PDict [
        (''type'', PStr ''object''),
        (''properties'', PDict [])])]),
    (''sys_debug_tool_choice_log'', PDict [
      (''category'', PStr ''System & Support''),
      (''description'', PStr ''Developer-only; do not call in normal user flows. Use to log tool-selection context for QA and routing accuracy analysis. This is a dev-only tool that tracks which tool was chosen and why.''),
      (''input_schema'', PDict [
        (''type'', PStr ''object''),
        (''properties'', PDict [
          (''input'', PDict [(''type'', PStr ''string''), (''description'', PStr ''User's original query'')]),
          (''chosen_tool'', PDict [(''type'', PStr ''string''), (''description'', PStr ''Tool that was selected'')]),
          (''confidence'', PDict [(''type'', PStr ''number''), (''description'', PStr ''Confidence score (0-1)'')])]),
        (''required'', PList [PStr ''input'', PStr ''chosen_tool''])])])]"

definition DEPRECATED_ALIASES_approved :: pydict where
  "DEPRECATED_ALIASES_approved = [
    (''set_weight_goal'', PDict [
      (''redirect_to'', PStr ''user_set_weight_goal''),
      (''description'', PStr ''[DEPRECATED] Alias for user_set_weight_goal. Use only if legacy code still calls this name. Will be removed in v2.1.0.''),
      (''category'', PStr ''Deprecated'')]),
    (''tracker_set_goals'', PDict [
      (''redirect_to'', PStr ''user_set_weight_goal''),
      (''description'', PStr ''[DEPRECATED] Alias for user_set_weight_goal. Use only if legacy code still calls this name. Will be removed in v2.1.0.''),
      (''category'', PStr ''Deprecated'')]),
    (''get_user_profile'', PDict [
      (''redirect_to'', PStr ''user_get_profile''),
      (''description'', PStr ''[DEPRECATED] Alias for user_get_profile. Use only if legacy code still calls this name. Will be removed in v2.1.0.''),
      (''category'', PStr ''Deprecated'')]),
    (''update_diet_preferences'', PDict [
      (''redirect_to'', PStr ''user_update_diet_preferences''),
      (''description'', PStr ''[DEPRECATED] Alias for user_update_diet_preferences. Use only if legacy code still calls this name. Will be removed in v2.1.0.''),
      (''category'', PStr ''Deprecated'')]),
    (''create_meal_plan'', PDict [
      (''redirect_to'', PStr ''plan_create_meal_plan''),
      (''description'', PStr ''[DEPRECATED] Alias for plan_create_meal_plan. Use only if legacy code still calls this name. Will be removed in v2.1.0.''),
      (''category'', PStr ''Deprecated'')]),
    (''generate_recipes'', PDict [
      (''redirect_to'', PStr ''plan_generate_from_leftovers''),
      (''description'', PStr ''[DEPRECATED] Alias for plan_generate_from_leftovers. Use only if legacy code still calls this name. Will be removed in v2.1.0.''),
      (''category'', PStr ''Deprecated'')]),
    (''random_meal'', PDict [
      (''redirect_to'', PStr ''plan_random_meal''),
      (''description'', PStr ''[DEPRECATED] Alias for plan_random_meal. Use only if legacy code still calls this name. Will be removed in v2.1.0.''),
      (''category'', PStr ''Deprecated'')]),
    (''nutrition_analyze'', PDict [
      (''redirect_to'', PStr ''nutrition_analyze_food''),
      (''description'', PStr ''[DEPRECATED] Alias for nutrition_analyze_food. Use only if legacy code still calls this name. Will be removed in v2.1.0.''),
      (''category'', PStr ''Deprecated'')]),
    (''get_weight_history'', PDict [
      (''redirect_to'', PStr ''tracker_get_progress''),
      (''description'', PStr ''[DEPRECATED] Alias for tracker_get_progress. Use only if legacy code still calls this name. Will be removed in v2.1.0.''),
      (''category'', PStr ''Deprecated'')]),
    (''get_weight_trend'', PDict [
      (''redirect_to'', PStr ''tracker_get_progress''),
      (''description'', PStr ''[DEPRECATED] Alias for tracker_get_progress. Use only if legacy code still calls this name. Will be removed in v2.1.0.''),
      (''category'', PStr ''Deprecated'')]),
    (''order_meal_delivery'', PDict [
      (''redirect_to'', PStr ''delivery_place_order''),
      (''description'', PStr ''[DEPRECATED] Alias for delivery_place_order. Use only if legacy code still calls this name. Will be removed in v2.1.0.''),
      (''category'', PStr ''Deprecated'')]),
    (''mealme_search'', PDict [
      (''redirect_to'', PStr ''delivery_search_restaurants''),
      (''description'', PStr ''[DEPRECATED] Alias for delivery_search_restaurants. Use only if legacy code still calls this name. Will be removed in v2.1.0.''),
      (''category'', PStr ''Deprecated'')])]"


section \<open>The generators\<close>

text \<open>
  The first loop of \<^verbatim>\<open>generate_manifest\<close>, over \<^verbatim>\<open>TOOLS.items()\<close>: each round builds
  the dictionary \<^verbatim>\<open>tool\<close> and appends it. The dictionary display is evaluated left to
  right, so the first missing key is the one reported.
\<close>

definition active_tool :: "string \<Rightarrow> pyval \<Rightarrow> error + pyval" where
  "active_tool name spec =
     bind_err (getitem spec ''category'') (\<lambda>c.
     bind_err (getitem spec ''description'') (\<lambda>d.
     bind_err (getitem spec ''input_schema'') (\<lambda>s.
     Inr (PDict [
       (''name'', PStr name),
       (''category'', c),
       (''description'', d),
       (''input_schema'', s)]))))"

fun add_active_tools :: "pydict \<Rightarrow> pyval \<Rightarrow> error + pyval" where
  "add_active_tools [] manifest = Inr manifest"
| "add_active_tools ((name, spec) # rest) manifest =
     bind_err (active_tool name spec) (\<lambda>tool.
     bind_err (tools_append manifest tool) (\<lambda>manifest'.
     add_active_tools rest manifest'))"

text \<open>The second loop, over \<^verbatim>\<open>DEPRECATED_ALIASES.items()\<close>.\<close>

definition alias_tool :: "string \<Rightarrow> pyval \<Rightarrow> error + pyval" where
  "alias_tool name spec =
     bind_err (getitem spec ''category'') (\<lambda>c.
     bind_err (getitem spec ''description'') (\<lambda>d.
     bind_err (getitem spec ''redirect_to'') (\<lambda>r.
     Inr (PDict [
       (''name'', PStr name),
       (''category'', c),
       (''description'', d),
       (''redirect_to'', r),
       (''deprecated'', PBool True),
       (''input_schema'', PDict [(''type'', PStr ''object''), (''properties'', PDict [])])]))))"

fun add_deprecated_aliases :: "pydict \<Rightarrow> pyval \<Rightarrow> error + pyval" where
  "add_deprecated_aliases [] manifest = Inr manifest"
| "add_deprecated_aliases ((name, spec) # rest) manifest =
     bind_err (alias_tool name spec) (\<lambda>tool.
     bind_err (tools_append manifest tool) (\<lambda>manifest'.
     add_deprecated_aliases rest manifest'))"

text \<open>
  The document \<^verbatim>\<open>generate_manifest\<close> starts from, in \<^verbatim>\<open>generate_manifest_v2.py\<close> and in
  \<^verbatim>\<open>generate_manifest_v2_approved.py\<close>.
\<close>

definition manifest_v2 :: pyval where
  "manifest_v2 = PDict [
    (''name'', PStr ''TheLoopGPT.ai''),
    (''description'', PStr ''A comprehensive AI-powered nutrition and wellness platform with adaptive feedback loops. TheLoopGPT.ai provides personalized meal planning, weight tracking, nutrition analysis, and delivery integration across 100+ languages and 25 countries.''),
    (''version'', PStr ''2.0.0''),
    (''schema_version'', PStr ''v1''),
    (''namespace'', PStr ''loopgpt''),
    (''contact_email'', PStr ''support@theloopgpt.ai''),
    (''api'', PDict [
      (''type'', PStr ''openai-mcp''),
      (''url'', PStr ''https://qmagnwxeijctkksqbcqz.supabase.co/functions/v1/mcp-server'')]),
    (''authentication'', PDict [(''type'', PStr ''none'')]),
    (''tools'', PList [])]"

definition manifest_approved :: pyval where
  "manifest_approved = PDict [
    (''name'', PStr ''TheLoopGPT.ai''),
    (''description'', PStr ''A comprehensive AI-powered nutrition and wellness platform with adaptive feedback loops. TheLoopGPT.ai provides personalized meal planning, weight tracking, nutrition analysis, and delivery integration across 100+ languages and 25 countries.''),
    (''version'', PStr ''2.0.0''),
    (''schema_version'', PStr ''v1''),
    (''namespace'', PStr ''loopgpt''),
    (''contact_email'', PStr ''support@theloopgpt.ai''),
    (''api'', PDict [
      (''type'', PStr ''openai-mcp''),
      (''url'', PStr ''https://qmagnwxeijctkksqbcqz.supabase.co/functions/v1/mcp-server'')]),
    (''authentication'', PDict [(''type'', PStr ''none'')]),
    (''tools'', PList [])]"

text \<open>
  \<^verbatim>\<open>generate_manifest\<close> of each script, with the two module-level registries it reads
  as parameters; the scripts call it on their built-in registries.
\<close>

definition generate_manifest_v2 :: "pydict \<Rightarrow> pydict \<Rightarrow> error + pyval" where
  "generate_manifest_v2 tools aliases =
     bind_err (add_active_tools tools manifest_v2) (add_deprecated_aliases aliases)"

definition generate_manifest_v2_approved :: "pydict \<Rightarrow> pydict \<Rightarrow> error + pyval" where
  "generate_manifest_v2_approved tools aliases =
     bind_err (add_active_tools tools manifest_approved) (add_deprecated_aliases aliases)"

definition main_v2 :: "error + pyval" where
  "main_v2 = generate_manifest_v2 TOOLS_v2 DEPRECATED_ALIASES_v2"

definition main_approved :: "error + pyval" where
  "main_approved = generate_manifest_v2_approved TOOLS_approved DEPRECATED_ALIASES_approved"


section \<open>Reading a document\<close>

text \<open>
  What a consumer reads off a result: \<^verbatim>\<open>generate_manifest()["tools"]\<close>, the name of an
  entry, and whether an entry is flagged as deprecated.
\<close>

definition manifest_tools :: "error + pyval \<Rightarrow> error + pyval" where
  "manifest_tools r = bind_err r (\<lambda>manifest. getitem manifest ''tools'')"

definition entry_name :: "pyval \<Rightarrow> string option" where
  "entry_name t = (case getitem t ''name'' of Inr (PStr n) \<Rightarrow> Some n | _ \<Rightarrow> None)"

definition is_deprecated :: "pyval \<Rightarrow> bool" where
  "is_deprecated t = (getitem t ''deprecated'' = Inr (PBool True))"

definition redirect_target :: "pyval \<Rightarrow> string option" where
  "redirect_target t = (case getitem t ''redirect_to'' of Inr (PStr r) \<Rightarrow> Some r | _ \<Rightarrow> None)"

text \<open>
  An input schema is well-formed when every name of its \<^verbatim>\<open>required\<close> array is a key of
  its \<^verbatim>\<open>properties\<close> object; a schema without a \<^verbatim>\<open>required\<close> array requires nothing.
\<close>

definition required_in_properties :: "pyval \<Rightarrow> bool" where
  "required_in_properties schema =
     (case getitem schema ''properties'' of
        Inr (PDict props) \<Rightarrow>
          (case getitem schema ''required'' of
             Inr (PList rs) \<Rightarrow> list_all (\<lambda>r. r \<in> set (map (\<lambda>(k, v). PStr k) props)) rs
           | Inr _ \<Rightarrow> False
           | Inl _ \<Rightarrow> True)
      | _ \<Rightarrow> False)"

definition schema_ok :: "pyval \<Rightarrow> bool" where
  "schema_ok spec =
     (case getitem spec ''input_schema'' of Inr schema \<Rightarrow> required_in_properties schema | Inl _ \<Rightarrow> False)"

text \<open>Running a list of computations in order, stopping at the first error.\<close>

fun collect :: "(error + 'a) list \<Rightarrow> error + 'a list" where
  "collect [] = Inr []"
| "collect (x # xs) = bind_err x (\<lambda>y. bind_err (collect xs) (\<lambda>ys. Inr (y # ys)))"

text \<open>A document with the list under \<^verbatim>\<open>"tools"\<close> replaced.\<close>

fun with_tools :: "pyval \<Rightarrow> pyval list \<Rightarrow> pyval" where
  "with_tools (PDict kvs) ts = PDict (AList.update ''tools'' (PList ts) kvs)"
| "with_tools v ts = v"


section \<open>Small registries\<close>

text \<open>
  One active tool \<^verbatim>\<open>"a"\<close> with one alias \<^verbatim>\<open>"legacy_a"\<close> that redirects to it, and the two
  entries the generators emit for them.
\<close>

definition scenario_tools :: pydict where
  "scenario_tools = [
    (''a'', PDict [
      (''category'', PStr ''Examples''),
      (''description'', PStr ''An active tool''),
      (''input_schema'', PDict [
        (''type'', PStr ''object''),
        (''properties'', PDict [(''q'', PDict [(''type'', PStr ''string'')])]),
        (''required'', PList [PStr ''q''])])])]"

definition scenario_aliases :: pydict where
  "scenario_aliases = [
    (''legacy_a'', PDict [
      (''redirect_to'', PStr ''a''),
      (''description'', PStr ''Old name of a''),
      (''category'', PStr ''Deprecated'')])]"

definition scenario_entries :: "pyval list" where
  "scenario_entries = [
    PDict [
      (''name'', PStr ''a''),
      (''category'', PStr ''Examples''),
      (''description'', PStr ''An active tool''),
      (''input_schema'', PDict [
        (''type'', PStr ''object''),
        (''properties'', PDict [(''q'', PDict [(''type'', PStr ''string'')])]),
        (''required'', PList [PStr ''q''])])],
    PDict [
      (''name'', PStr ''legacy_a''),
      (''category'', PStr ''Deprecated''),
      (''description'', PStr ''Old name of a''),
      (''redirect_to'', PStr ''a''),
      (''deprecated'', PBool True),
      (''input_schema'', PDict [(''type'', PStr ''object''), (''properties'', PDict [])])]]"

text \<open>An alias that carries the name of the active tool.\<close>

definition collision_aliases :: pydict where
  "collision_aliases = [
    (''a'', PDict [
      (''redirect_to'', PStr ''a''),
      (''description'', PStr ''Same name as the tool''),
      (''category'', PStr ''Deprecated'')])]"

text \<open>An alias that redirects to a name no active tool has.\<close>

definition dangling_aliases :: pydict where
  "dangling_aliases = [
    (''x'', PDict [
      (''redirect_to'', PStr ''nonexistent''),
      (''description'', PStr ''Points nowhere''),
      (''category'', PStr ''Deprecated'')])]"

text \<open>An alias whose redirect target is the empty string.\<close>

definition blank_aliases :: pydict where
  "blank_aliases = [
    (''x'', PDict [
      (''redirect_to'', PStr []),
      (''description'', PStr ''No target''),
      (''category'', PStr ''Deprecated'')])]"

text \<open>
  Three active tools and two aliases, neither registry in alphabetical order, and the
  five entries the generators emit for them.
\<close>

definition ordered_tools :: pydict where
  "ordered_tools = [
    (''b_lookup'', PDict [
      (''category'', PStr ''Search''),
      (''description'', PStr ''Look something up''),
      (''input_schema'', PDict [
        (''type'', PStr ''object''),
        (''properties'', PDict [(''q'', PDict [(''type'', PStr ''string'')])]),
        (''required'', PList [PStr ''q''])])]),
    (''a_store'', PDict [
      (''category'', PStr ''Storage''),
      (''description'', PStr ''Store a value''),
      (''input_schema'', PDict [
        (''type'', PStr ''object''),
        (''properties'', PDict [
          (''key'', PDict [(''type'', PStr ''string'')]),
          (''value'', PDict [(''type'', PStr ''number'')])]),
        (''required'', PList [PStr ''key'', PStr ''value''])])]),
    (''c_status'', PDict [
      (''category'', PStr ''Search''),
      (''description'', PStr ''Report the status''),
      (''input_schema'', PDict [(''type'', PStr ''object''), (''properties'', PDict [])])])]"

definition ordered_aliases :: pydict where
  "ordered_aliases = [
    (''old_store'', PDict [
      (''redirect_to'', PStr ''a_store''),
      (''description'', PStr ''Old name of a_store''),
      (''category'', PStr ''Deprecated'')]),
    (''find'', PDict [
      (''redirect_to'', PStr ''b_lookup''),
      (''description'', PStr ''Old name of b_lookup''),
      (''category'', PStr ''Deprecated'')])]"

definition ordered_entries :: "pyval list" where
  "ordered_entries = [
    PDict [
      (''name'', PStr ''b_lookup''),
      (''category'', PStr ''Search''),
      (''description'', PStr ''Look something up''),
      (''input_schema'', PDict [
        (''type'', PStr ''object''),
        (''properties'', PDict [(''q'', PDict [(''type'', PStr ''string'')])]),
        (''required'', PList [PStr ''q''])])],
    PDict [
      (''name'', PStr ''a_store''),
      (''category'', PStr ''Storage''),
      (''description'', PStr ''Store a value''),
      (''input_schema'', PDict [
        (''type'', PStr ''object''),
        (''properties'', PDict [
          (''key'', PDict [(''type'', PStr ''string'')]),
          (''value'', PDict [(''type'', PStr ''number'')])]),
        (''required'', PList [PStr ''key'', PStr ''value''])])],
    PDict [
      (''name'', PStr ''c_status''),
      (''category'', PStr ''Search''),
      (''description'', PStr ''Report the status''),
      (''input_schema'', PDict [(''type'', PStr ''object''), (''properties'', PDict [])])],
    PDict [
      (''name'', PStr ''old_store''),
      (''category'', PStr ''Deprecated''),
      (''description'', PStr ''Old name of a_store''),
      (''redirect_to'', PStr ''a_store''),
      (''deprecated'', PBool True),
      (''input_schema'', PDict [(''type'', PStr ''object''), (''properties'', PDict [])])],
    PDict [
      (''name'', PStr ''find''),
      (''category'', PStr ''Deprecated''),
      (''description'', PStr ''Old name of b_lookup''),
      (''redirect_to'', PStr ''b_lookup''),
      (''deprecated'', PBool True),
      (''input_schema'', PDict [(''type'', PStr ''object''), (''properties'', PDict [])])]]"

text \<open>Two aliases for the three tools above, the second under the name of one of the tools.\<close>

definition clashing_aliases :: pydict where
  "clashing_aliases = [
    (''find'', PDict [
      (''redirect_to'', PStr ''b_lookup''),
      (''description'', PStr ''Old name of b_lookup''),
      (''category'', PStr ''Deprecated'')]),
    (''a_store'', PDict [
      (''redirect_to'', PStr ''a_store''),
      (''description'', PStr ''Same name as the tool''),
      (''category'', PStr ''Deprecated'')])]"


section \<open>The generators on the heap\<close>

text \<open>
  Python values are objects with an identity: a variable, a list and a dictionary hold
  references, \<^verbatim>\<open>spec["input_schema"]\<close> puts the registry's own schema object into the
  new entry, and \<^verbatim>\<open>manifest["tools"].append(tool)\<close> changes a list object in place. The
  heap is the list of the objects allocated so far, a reference is an index into it, and
  allocation appends. The keys of a dictionary are kept by value, strings being immutable.
\<close>

type_synonym ref = nat

datatype obj =
    OStr string
  | OInt int
  | OBool bool
  | OList "ref list"
  | ODict "(string \<times> ref) list"

type_synonym heap = "obj list"

definition obj_at :: "heap \<Rightarrow> ref \<Rightarrow> obj option" where
  "obj_at h r = (if r < length h then Some (h ! r) else None)"

definition alloc :: "obj \<Rightarrow> heap \<Rightarrow> ref \<times> heap" where
  "alloc ob h = (length h, h @ [ob])"

text \<open>
  A literal is evaluated inside out and left to right: the parts of a display are built
  before the list or dictionary that holds them.
\<close>

fun store :: "pyval \<Rightarrow> heap \<Rightarrow> ref \<times> heap"
  and store_list :: "pyval list \<Rightarrow> heap \<Rightarrow> ref list \<times> heap"
  and store_items :: "(string \<times> pyval) list \<Rightarrow> heap \<Rightarrow> (string \<times> ref) list \<times> heap" where
  "store (PStr s) h = alloc (OStr s) h"
| "store (PInt i) h = alloc (OInt i) h"
| "store (PBool b) h = alloc (OBool b) h"
| "store (PList vs) h = (case store_list vs h of (rs, h') \<Rightarrow> alloc (OList rs) h')"
| "store (PDict kvs) h = (case store_items kvs h of (rkvs, h') \<Rightarrow> alloc (ODict rkvs) h')"
| "store_list [] h = ([], h)"
| "store_list (v # vs) h =
     (case store v h of (r, h1) \<Rightarrow> case store_list vs h1 of (rs, h2) \<Rightarrow> (r # rs, h2))"
| "store_items [] h = ([], h)"
| "store_items ((k, v) # kvs) h =
     (case store v h of (r, h1) \<Rightarrow> case store_items kvs h1 of (rkvs, h2) \<Rightarrow> ((k, r) # rkvs, h2))"

text \<open>
  The value an object stands for, read through the references. \<open>repr_on S h r v\<close> holds
  when the object at \<open>r\<close> stands for \<open>v\<close> and reading it visits addresses of \<open>S\<close> only.
\<close>

fun repr_on :: "ref set \<Rightarrow> heap \<Rightarrow> ref \<Rightarrow> pyval \<Rightarrow> bool"
  and repr_list :: "ref set \<Rightarrow> heap \<Rightarrow> ref list \<Rightarrow> pyval list \<Rightarrow> bool"
  and repr_items :: "ref set \<Rightarrow> heap \<Rightarrow> (string \<times> ref) list \<Rightarrow> (string \<times> pyval) list \<Rightarrow> bool" where
  "repr_on S h r (PStr s) = (r \<in> S \<and> obj_at h r = Some (OStr s))"
| "repr_on S h r (PInt i) = (r \<in> S \<and> obj_at h r = Some (OInt i))"
| "repr_on S h r (PBool b) = (r \<in> S \<and> obj_at h r = Some (OBool b))"
| "repr_on S h r (PList vs) =
     (r \<in> S \<and> (case obj_at h r of Some (OList rs) \<Rightarrow> repr_list S h rs vs | _ \<Rightarrow> False))"
| "repr_on S h r (PDict kvs) =
     (r \<in> S \<and> (case obj_at h r of Some (ODict rkvs) \<Rightarrow> repr_items S h rkvs kvs | _ \<Rightarrow> False))"
| "repr_list S h rs [] = (rs = [])"
| "repr_list S h rs (v # vs) =
     (case rs of [] \<Rightarrow> False | r # rs' \<Rightarrow> repr_on S h r v \<and> repr_list S h rs' vs)"
| "repr_items S h rkvs [] = (rkvs = [])"
| "repr_items S h rkvs ((k, v) # kvs) =
     (case rkvs of [] \<Rightarrow> False
      | (k', r) # rkvs' \<Rightarrow> k' = k \<and> repr_on S h r v \<and> repr_items S h rkvs' kvs)"

definition repr :: "heap \<Rightarrow> ref \<Rightarrow> pyval \<Rightarrow> bool" where
  "repr h r v = repr_on UNIV h r v"

text \<open>
  Values laid out one after the other: each is read inside its own block of addresses,
  which ends at its reference, and the next block starts right after.
\<close>

fun laid_out :: "heap \<Rightarrow> ref \<Rightarrow> ref list \<Rightarrow> pyval list \<Rightarrow> bool" where
  "laid_out h lo [] [] = True"
| "laid_out h lo (r # rs) (v # vs) = (lo \<le> r \<and> repr_on {lo..r} h r v \<and> laid_out h (Suc r) rs vs)"
| "laid_out h lo [] (v # vs) = False"
| "laid_out h lo (r # rs) [] = False"

text \<open>
  \<open>agree X h h'\<close>: the heap \<open>h'\<close> still has every object of \<open>h\<close>, unchanged, except
  possibly at the addresses of \<open>X\<close>.
\<close>

definition agree :: "ref set \<Rightarrow> heap \<Rightarrow> heap \<Rightarrow> bool" where
  "agree X h h' = (length h \<le> length h' \<and> (\<forall>a. a < length h \<longrightarrow> a \<notin> X \<longrightarrow> obj_at h' a = obj_at h a))"

text \<open>\<^verbatim>\<open>d[k]\<close>, \<^verbatim>\<open>d.items()\<close> and \<^verbatim>\<open>manifest["tools"].append(tool)\<close> on references.\<close>

definition h_getitem :: "heap \<Rightarrow> ref \<Rightarrow> string \<Rightarrow> error + ref" where
  "h_getitem h r k =
     (case obj_at h r of
        None \<Rightarrow> Inl InvalidReference
      | Some (ODict kvs) \<Rightarrow> (case map_of kvs k of Some v \<Rightarrow> Inr v | None \<Rightarrow> Inl (KeyError k))
      | Some _ \<Rightarrow> Inl TypeError)"

definition h_items :: "heap \<Rightarrow> ref \<Rightarrow> error + (string \<times> ref) list" where
  "h_items h r =
     (case obj_at h r of
        None \<Rightarrow> Inl InvalidReference
      | Some (ODict kvs) \<Rightarrow> Inr kvs
      | Some _ \<Rightarrow> Inl AttributeError)"

definition h_tools_append :: "ref \<Rightarrow> ref \<Rightarrow> heap \<Rightarrow> (error + unit) \<times> heap" where
  "h_tools_append manifest tool h =
     (case h_getitem h manifest ''tools'' of
        Inl e \<Rightarrow> (Inl e, h)
      | Inr l \<Rightarrow>
          (case obj_at h l of
             None \<Rightarrow> (Inl InvalidReference, h)
           | Some (OList rs) \<Rightarrow> (Inr (), h[l := OList (rs @ [tool])])
           | Some _ \<Rightarrow> (Inl AttributeError, h)))"

text \<open>
  The dictionary \<^verbatim>\<open>tool\<close> of the first loop: the three fields are the registry's own
  objects, the dictionary is new. The name gets a string object of its own where the
  interpreter shares the key's; strings cannot be changed, so no value read from the heap
  tells the two apart.
\<close>

definition h_active_tool :: "string \<Rightarrow> ref \<Rightarrow> heap \<Rightarrow> (error + ref) \<times> heap" where
  "h_active_tool name spec h =
     (case h_getitem h spec ''category'' of Inl e \<Rightarrow> (Inl e, h) | Inr c \<Rightarrow>
      case h_getitem h spec ''description'' of Inl e \<Rightarrow> (Inl e, h) | Inr d \<Rightarrow>
      case h_getitem h spec ''input_schema'' of Inl e \<Rightarrow> (Inl e, h) | Inr s \<Rightarrow>
      case alloc (OStr name) h of (n, h1) \<Rightarrow>
      case alloc (ODict [
          (''name'', n),
          (''category'', c),
          (''description'', d),
          (''input_schema'', s)]) h1 of (tool, h2) \<Rightarrow>
      (Inr tool, h2))"

fun h_add_active_tools :: "(string \<times> ref) list \<Rightarrow> ref \<Rightarrow> heap \<Rightarrow> (error + unit) \<times> heap" where
  "h_add_active_tools [] manifest h = (Inr (), h)"
| "h_add_active_tools ((name, spec) # rest) manifest h =
     (case h_active_tool name spec h of
        (Inl e, h1) \<Rightarrow> (Inl e, h1)
      | (Inr tool, h1) \<Rightarrow>
          (case h_tools_append manifest tool h1 of
             (Inl e, h2) \<Rightarrow> (Inl e, h2)
           | (Inr u, h2) \<Rightarrow> h_add_active_tools rest manifest h2))"

text \<open>The dictionary \<^verbatim>\<open>tool\<close> of the second loop, with its new flag and its new empty schema.\<close>

definition h_alias_tool :: "string \<Rightarrow> ref \<Rightarrow> heap \<Rightarrow> (error + ref) \<times> heap" where
  "h_alias_tool name spec h =
     (case h_getitem h spec ''category'' of Inl e \<Rightarrow> (Inl e, h) | Inr c \<Rightarrow>
      case h_getitem h spec ''description'' of Inl e \<Rightarrow> (Inl e, h) | Inr d \<Rightarrow>
      case h_getitem h spec ''redirect_to'' of Inl e \<Rightarrow> (Inl e, h) | Inr r \<Rightarrow>
      case alloc (OStr name) h of (n, h1) \<Rightarrow>
      case alloc (OBool True) h1 of (b, h2) \<Rightarrow>
      case store (PDict [(''type'', PStr ''object''), (''properties'', PDict [])]) h2 of (s, h3) \<Rightarrow>
      case alloc (ODict [
          (''name'', n),
          (''category'', c),
          (''description'', d),
          (''redirect_to'', r),
          (''deprecated'', b),
          (''input_schema'', s)]) h3 of (tool, h4) \<Rightarrow>
      (Inr tool, h4))"

fun h_add_deprecated_aliases :: "(string \<times> ref) list \<Rightarrow> ref \<Rightarrow> heap \<Rightarrow> (error + unit) \<times> heap" where
  "h_add_deprecated_aliases [] manifest h = (Inr (), h)"
| "h_add_deprecated_aliases ((name, spec) # rest) manifest h =
     (case h_alias_tool name spec h of
        (Inl e, h1) \<Rightarrow> (Inl e, h1)
      | (Inr tool, h1) \<Rightarrow>
          (case h_tools_append manifest tool h1 of
             (Inl e, h2) \<Rightarrow> (Inl e, h2)
           | (Inr u, h2) \<Rightarrow> h_add_deprecated_aliases rest manifest h2))"

text \<open>The shape the two loops share: build an entry, append it, go on.\<close>

fun h_loop :: "(string \<Rightarrow> ref \<Rightarrow> heap \<Rightarrow> (error + ref) \<times> heap) \<Rightarrow>
    (string \<times> ref) list \<Rightarrow> ref \<Rightarrow> heap \<Rightarrow> (error + unit) \<times> heap" where
  "h_loop build [] manifest h = (Inr (), h)"
| "h_loop build ((name, spec) # rest) manifest h =
     (case build name spec h of
        (Inl e, h1) \<Rightarrow> (Inl e, h1)
      | (Inr tool, h1) \<Rightarrow>
          (case h_tools_append manifest tool h1 of
             (Inl e, h2) \<Rightarrow> (Inl e, h2)
           | (Inr u, h2) \<Rightarrow> h_loop build rest manifest h2))"

text \<open>
  \<^verbatim>\<open>generate_manifest\<close> on the heap. The two registries are the objects the module-level
  names \<^verbatim>\<open>TOOLS\<close> and \<^verbatim>\<open>DEPRECATED_ALIASES\<close> refer to; \<open>literal\<close> is the document the
  function starts from. It returns the reference of the document.
\<close>

definition h_generate_manifest :: "pyval \<Rightarrow> ref \<Rightarrow> ref \<Rightarrow> heap \<Rightarrow> (error + ref) \<times> heap" where
  "h_generate_manifest literal tools aliases h =
     (case store literal h of (manifest, h1) \<Rightarrow>
      case h_items h1 tools of Inl e \<Rightarrow> (Inl e, h1) | Inr tool_items \<Rightarrow>
      case h_add_active_tools tool_items manifest h1 of (Inl e, h2) \<Rightarrow> (Inl e, h2) | (Inr u, h2) \<Rightarrow>
      case h_items h2 aliases of Inl e \<Rightarrow> (Inl e, h2) | Inr alias_items \<Rightarrow>
      case h_add_deprecated_aliases alias_items manifest h2 of (Inl e, h3) \<Rightarrow> (Inl e, h3) | (Inr u, h3) \<Rightarrow>
      (Inr manifest, h3))"

definition h_generate_manifest_v2 :: "ref \<Rightarrow> ref \<Rightarrow> heap \<Rightarrow> (error + ref) \<times> heap" where
  "h_generate_manifest_v2 = h_generate_manifest manifest_v2"

definition h_generate_manifest_v2_approved :: "ref \<Rightarrow> ref \<Rightarrow> heap \<Rightarrow> (error + ref) \<times> heap" where
  "h_generate_manifest_v2_approved = h_generate_manifest manifest_approved"

text \<open>A heap that holds the two small registries and nothing else.\<close>

definition scenario_tools_ref :: ref where
  "scenario_tools_ref = fst (store (PDict scenario_tools) [])"

definition scenario_aliases_ref :: ref where
  "scenario_aliases_ref = fst (store (PDict scenario_aliases) (snd (store (PDict scenario_tools) [])))"

definition scenario_heap :: heap where
  "scenario_heap = snd (store (PDict scenario_aliases) (snd (store (PDict scenario_tools) [])))"

text \<open>The first run on that heap, and a second run on the heap the first one leaves.\<close>

definition scenario_first_run :: "(error + ref) \<times> heap" where
  "scenario_first_run = h_generate_manifest_v2 scenario_tools_ref scenario_aliases_ref scenario_heap"

definition scenario_second_run :: "(error + ref) \<times> heap" where
  "scenario_second_run =
     h_generate_manifest_v2 scenario_tools_ref scenario_aliases_ref (snd scenario_first_run)"


section \<open>The loops as one pass over each registry\<close>

lemma bind_err_assoc: "bind_err (bind_err x f) g = bind_err x (\<lambda>y. bind_err (f y) g)"
  by (cases x) simp_all

lemma bind_err_Inr_iff: "bind_err x f = Inr z \<longleftrightarrow> (\<exists>y. x = Inr y \<and> f y = Inr z)"
  by (cases x) simp_all

lemma collect_Inr_iff: "collect xs = Inr ys \<longleftrightarrow> xs = map Inr ys"
proof (induction xs arbitrary: ys)
  case Nil
  show ?case by auto
next
  case (Cons x xs)
  show ?case
    by (cases ys) (auto simp: bind_err_Inr_iff Cons.IH)
qed

lemma collect_never:
  "list_all (\<lambda>x. x \<noteq> Inl e) xs \<Longrightarrow> collect xs \<noteq> Inl e"
proof (induction xs)
  case Nil
  show ?case by simp
next
  case (Cons x xs)
  then show ?case
    by (cases x; cases "collect xs") auto
qed

lemma tools_append_dict:
  "map_of kvs ''tools'' = Some (PList ts) \<Longrightarrow>
   tools_append (PDict kvs) t = Inr (PDict (AList.update ''tools'' (PList (ts @ [t])) kvs))"
  by (simp add: tools_append_def)

lemma add_active_tools_eq:
  "map_of kvs ''tools'' = Some (PList ts) \<Longrightarrow>
   add_active_tools T (PDict kvs) =
     bind_err (collect (map (\<lambda>(n, s). active_tool n s) T))
       (\<lambda>es. Inr (with_tools (PDict kvs) (ts @ es)))"
proof (induction T arbitrary: kvs ts)
  case Nil
  then show ?case by (simp add: update_triv)
next
  case (Cons p T)
  obtain n s where p: "p = (n, s)" by (cases p)
  show ?case
  proof (cases "active_tool n s")
    case (Inl e)
    then show ?thesis by (simp add: p)
  next
    case (Inr t)
    have "map_of (AList.update ''tools'' (PList (ts @ [t])) kvs) ''tools'' = Some (PList (ts @ [t]))"
      by (simp add: update_conv')
    from Cons.IH [OF this] show ?thesis
      using Cons.prems Inr by (simp add: p tools_append_dict bind_err_assoc)
  qed
qed

lemma add_deprecated_aliases_eq:
  "map_of kvs ''tools'' = Some (PList ts) \<Longrightarrow>
   add_deprecated_aliases A (PDict kvs) =
     bind_err (collect (map (\<lambda>(n, s). alias_tool n s) A))
       (\<lambda>fs. Inr (with_tools (PDict kvs) (ts @ fs)))"
proof (induction A arbitrary: kvs ts)
  case Nil
  then show ?case by (simp add: update_triv)
next
  case (Cons p A)
  obtain n s where p: "p = (n, s)" by (cases p)
  show ?case
  proof (cases "alias_tool n s")
    case (Inl e)
    then show ?thesis by (simp add: p)
  next
    case (Inr t)
    have "map_of (AList.update ''tools'' (PList (ts @ [t])) kvs) ''tools'' = Some (PList (ts @ [t]))"
      by (simp add: update_conv')
    from Cons.IH [OF this] show ?thesis
      using Cons.prems Inr by (simp add: p tools_append_dict bind_err_assoc)
  qed
qed

lemma compile_eq:
  assumes "map_of kvs ''tools'' = Some (PList [])"
  shows "bind_err (add_active_tools T (PDict kvs)) (add_deprecated_aliases A) =
     bind_err (collect (map (\<lambda>(n, s). active_tool n s) T)) (\<lambda>es.
     bind_err (collect (map (\<lambda>(n, s). alias_tool n s) A)) (\<lambda>fs.
     Inr (with_tools (PDict kvs) (es @ fs))))"
proof (cases "collect (map (\<lambda>(n, s). active_tool n s) T)")
  case (Inl e)
  then show ?thesis by (simp add: add_active_tools_eq [OF assms])
next
  case (Inr es)
  have "map_of (AList.update ''tools'' (PList es) kvs) ''tools'' = Some (PList es)"
    by (simp add: update_conv')
  from add_deprecated_aliases_eq [OF this, of A] show ?thesis
    using Inr by (simp add: add_active_tools_eq [OF assms] bind_err_assoc)
qed

lemma generate_manifest_v2_eq:
  "generate_manifest_v2 T A =
     bind_err (collect (map (\<lambda>(n, s). active_tool n s) T)) (\<lambda>es.
     bind_err (collect (map (\<lambda>(n, s). alias_tool n s) A)) (\<lambda>fs.
     Inr (with_tools manifest_v2 (es @ fs))))"
  unfolding generate_manifest_v2_def manifest_v2_def
  by (rule compile_eq) simp

lemma generate_manifest_v2_approved_eq:
  "generate_manifest_v2_approved T A =
     bind_err (collect (map (\<lambda>(n, s). active_tool n s) T)) (\<lambda>es.
     bind_err (collect (map (\<lambda>(n, s). alias_tool n s) A)) (\<lambda>fs.
     Inr (with_tools manifest_approved (es @ fs))))"
  unfolding generate_manifest_v2_approved_def manifest_approved_def
  by (rule compile_eq) simp

lemma tools_of_with_tools_v2: "getitem (with_tools manifest_v2 ts) ''tools'' = Inr (PList ts)"
  by (simp add: manifest_v2_def)

lemma tools_of_with_tools_approved: "getitem (with_tools manifest_approved ts) ''tools'' = Inr (PList ts)"
  by (simp add: manifest_approved_def)

lemma generate_manifest_InrD:
  assumes "generate_manifest_v2 T A = Inr doc \<or> generate_manifest_v2_approved T A = Inr doc"
  shows "\<exists>es fs. map (\<lambda>(n, s). active_tool n s) T = map Inr es \<and>
                 map (\<lambda>(n, s). alias_tool n s) A = map Inr fs \<and>
                 getitem doc ''tools'' = Inr (PList (es @ fs))"
  using assms
  by (auto simp: generate_manifest_v2_eq generate_manifest_v2_approved_eq bind_err_Inr_iff
      collect_Inr_iff tools_of_with_tools_v2 tools_of_with_tools_approved)

section \<open>What an emitted entry holds\<close>

lemma map_eq_map_iff_list_all2:
  "map f xs = map g ys \<longleftrightarrow> list_all2 (\<lambda>x y. f x = g y) xs ys"
proof (induction xs arbitrary: ys)
  case Nil
  show ?case by auto
next
  case (Cons x xs)
  show ?case by (cases ys) (simp_all add: Cons.IH)
qed

lemma active_tool_InrD:
  assumes "active_tool n s = Inr t"
  shows "entry_name t = Some n" and "\<not> is_deprecated t"
    and "getitem t ''deprecated'' = Inl (KeyError ''deprecated'')"
    and "getitem t ''input_schema'' = getitem s ''input_schema''"
    and "\<not> isl (getitem t ''input_schema'')"
proof -
  from assms obtain c d sch where
    "getitem s ''category'' = Inr c" "getitem s ''description'' = Inr d"
    and sch: "getitem s ''input_schema'' = Inr sch"
    and t: "t = PDict [(''name'', PStr n), (''category'', c), (''description'', d), (''input_schema'', sch)]"
    unfolding active_tool_def bind_err_Inr_iff by blast
  show "entry_name t = Some n" by (simp add: t entry_name_def)
  show "\<not> is_deprecated t" by (simp add: t is_deprecated_def)
  show "getitem t ''deprecated'' = Inl (KeyError ''deprecated'')" by (simp add: t)
  show "getitem t ''input_schema'' = getitem s ''input_schema''" by (simp add: t sch)
  show "\<not> isl (getitem t ''input_schema'')" by (simp add: t)
qed

lemma alias_tool_InrD:
  assumes "alias_tool n s = Inr t"
  shows "entry_name t = Some n" and "is_deprecated t"
    and "getitem t ''deprecated'' = Inr (PBool True)"
    and "getitem t ''redirect_to'' = getitem s ''redirect_to''"
    and "\<not> isl (getitem t ''redirect_to'')"
    and "getitem t ''input_schema'' = Inr (PDict [(''type'', PStr ''object''), (''properties'', PDict [])])"
proof -
  from assms obtain c d r where
    "getitem s ''category'' = Inr c" "getitem s ''description'' = Inr d"
    and r: "getitem s ''redirect_to'' = Inr r"
    and t: "t = PDict [(''name'', PStr n), (''category'', c), (''description'', d),
          (''redirect_to'', r), (''deprecated'', PBool True),
          (''input_schema'', PDict [(''type'', PStr ''object''), (''properties'', PDict [])])]"
    unfolding alias_tool_def bind_err_Inr_iff by blast
  show "entry_name t = Some n" by (simp add: t entry_name_def)
  show "is_deprecated t" by (simp add: t is_deprecated_def)
  show "getitem t ''deprecated'' = Inr (PBool True)" by (simp add: t)
  show "getitem t ''redirect_to'' = getitem s ''redirect_to''" by (simp add: t r)
  show "\<not> isl (getitem t ''redirect_to'')" by (simp add: t)
  show "getitem t ''input_schema'' = Inr (PDict [(''type'', PStr ''object''), (''properties'', PDict [])])"
    by (simp add: t)
qed

lemma active_entries_shape:
  assumes "map (\<lambda>(n, s). active_tool n s) T = map Inr es"
  shows "length es = length T"
    and "map entry_name es = map (\<lambda>(n, s). Some n) T"
    and "map is_deprecated es = replicate (length T) False"
proof -
  from assms have rel: "list_all2 (\<lambda>p t. (case p of (n, s) \<Rightarrow> active_tool n s) = Inr t) T es"
    by (simp add: map_eq_map_iff_list_all2)
  from rel show "length es = length T"
    by (simp add: list_all2_lengthD)
  from rel show "map entry_name es = map (\<lambda>(n, s). Some n) T"
    by (induction T es rule: list_all2_induct) (auto dest: active_tool_InrD(1))
  from rel show "map is_deprecated es = replicate (length T) False"
    by (induction T es rule: list_all2_induct) (auto dest: active_tool_InrD(2))
qed

lemma alias_entries_shape:
  assumes "map (\<lambda>(n, s). alias_tool n s) A = map Inr fs"
  shows "length fs = length A"
    and "map entry_name fs = map (\<lambda>(n, s). Some n) A"
    and "map is_deprecated fs = replicate (length A) True"
proof -
  from assms have rel: "list_all2 (\<lambda>p t. (case p of (n, s) \<Rightarrow> alias_tool n s) = Inr t) A fs"
    by (simp add: map_eq_map_iff_list_all2)
  from rel show "length fs = length A"
    by (simp add: list_all2_lengthD)
  from rel show "map entry_name fs = map (\<lambda>(n, s). Some n) A"
    by (induction A fs rule: list_all2_induct) (auto dest: alias_tool_InrD(1))
  from rel show "map is_deprecated fs = replicate (length A) True"
    by (induction A fs rule: list_all2_induct) (auto dest: alias_tool_InrD(2))
qed


section \<open>Failures and success\<close>

lemma getitem_never [simp]:
  "getitem v k \<noteq> Inl DuplicateNameError" "getitem v k \<noteq> Inl DanglingRedirectError"
  by (cases v; simp split: option.split)+

lemma bind_err_Inl_iff: "bind_err x f = Inl e \<longleftrightarrow> x = Inl e \<or> (\<exists>y. x = Inr y \<and> f y = Inl e)"
  by (cases x) simp_all

lemma active_tool_never:
  "active_tool n s \<noteq> Inl DuplicateNameError" "active_tool n s \<noteq> Inl DanglingRedirectError"
  by (simp_all add: active_tool_def bind_err_Inl_iff)

lemma alias_tool_never:
  "alias_tool n s \<noteq> Inl DuplicateNameError" "alias_tool n s \<noteq> Inl DanglingRedirectError"
  by (simp_all add: alias_tool_def bind_err_Inl_iff)

lemma collect_map_never:
  assumes "\<And>x. f x \<noteq> Inl e"
  shows "collect (map f xs) \<noteq> Inl e"
  by (rule collect_never) (simp add: list_all_iff assms)

lemma generate_manifest_never:
  assumes "e = DuplicateNameError \<or> e = DanglingRedirectError"
  shows "generate_manifest_v2 T A \<noteq> Inl e" and "generate_manifest_v2_approved T A \<noteq> Inl e"
proof -
  have a: "collect (map (\<lambda>(n, s). active_tool n s) T) \<noteq> Inl e"
    using assms by (intro collect_map_never) (auto simp: active_tool_never)
  have b: "collect (map (\<lambda>(n, s). alias_tool n s) A) \<noteq> Inl e"
    using assms by (intro collect_map_never) (auto simp: alias_tool_never)
  from a b show "generate_manifest_v2 T A \<noteq> Inl e"
    by (simp add: generate_manifest_v2_eq bind_err_Inl_iff)
  from a b show "generate_manifest_v2_approved T A \<noteq> Inl e"
    by (simp add: generate_manifest_v2_approved_eq bind_err_Inl_iff)
qed

lemma all_Inr_map:
  "list_all (\<lambda>x. \<not> isl (f x)) xs \<Longrightarrow> map f xs = map Inr (map (\<lambda>x. projr (f x)) xs)"
  by (induction xs) simp_all

lemma generate_manifest_succeeds:
  assumes "list_all (\<lambda>(n, s). \<not> isl (active_tool n s)) T"
    and "list_all (\<lambda>(n, s). \<not> isl (alias_tool n s)) A"
  shows "\<exists>es fs. map (\<lambda>(n, s). active_tool n s) T = map Inr es \<and>
           map (\<lambda>(n, s). alias_tool n s) A = map Inr fs \<and>
           generate_manifest_v2 T A = Inr (with_tools manifest_v2 (es @ fs)) \<and>
           generate_manifest_v2_approved T A = Inr (with_tools manifest_approved (es @ fs))"
proof -
  let ?es = "map (\<lambda>p. projr ((\<lambda>(n, s). active_tool n s) p)) T"
  let ?fs = "map (\<lambda>p. projr ((\<lambda>(n, s). alias_tool n s) p)) A"
  from assms(1) have "list_all (\<lambda>p. \<not> isl ((\<lambda>(n, s). active_tool n s) p)) T"
    by (simp add: split_def)
  then have es: "map (\<lambda>(n, s). active_tool n s) T = map Inr ?es"
    by (rule all_Inr_map)
  from assms(2) have "list_all (\<lambda>p. \<not> isl ((\<lambda>(n, s). alias_tool n s) p)) A"
    by (simp add: split_def)
  then have fs: "map (\<lambda>(n, s). alias_tool n s) A = map Inr ?fs"
    by (rule all_Inr_map)
  have ces: "collect (map (\<lambda>(n, s). active_tool n s) T) = Inr ?es"
    unfolding collect_Inr_iff by (rule es)
  have cfs: "collect (map (\<lambda>(n, s). alias_tool n s) A) = Inr ?fs"
    unfolding collect_Inr_iff by (rule fs)
  have "generate_manifest_v2 T A = Inr (with_tools manifest_v2 (?es @ ?fs))"
    unfolding generate_manifest_v2_eq ces cfs by simp
  moreover have "generate_manifest_v2_approved T A = Inr (with_tools manifest_approved (?es @ ?fs))"
    unfolding generate_manifest_v2_approved_eq ces cfs by simp
  ultimately show ?thesis using es fs by blast
qed

lemma scenario_run:
  "generate_manifest_v2 scenario_tools scenario_aliases = Inr (with_tools manifest_v2 scenario_entries)"
  "generate_manifest_v2_approved scenario_tools scenario_aliases = Inr (with_tools manifest_approved scenario_entries)"
  by (simp_all add: generate_manifest_v2_eq generate_manifest_v2_approved_eq scenario_tools_def
      scenario_aliases_def scenario_entries_def active_tool_def alias_tool_def)


lemma alias_redirects:
  assumes "map (\<lambda>(n, s). alias_tool n s) A = map Inr fs"
  shows "map (\<lambda>t. getitem t ''redirect_to'') fs = map (\<lambda>(n, s). getitem s ''redirect_to'') A"
    and "map redirect_target fs = map (\<lambda>(n, s). redirect_target s) A"
proof -
  from assms have rel: "list_all2 (\<lambda>p t. (case p of (n, s) \<Rightarrow> alias_tool n s) = Inr t) A fs"
    by (simp add: map_eq_map_iff_list_all2)
  from rel show "map (\<lambda>t. getitem t ''redirect_to'') fs = map (\<lambda>(n, s). getitem s ''redirect_to'') A"
    by (induction A fs rule: list_all2_induct) (auto dest: alias_tool_InrD(4))
  have "redirect_target t = redirect_target s" if "alias_tool n s = Inr t" for n s t
    using alias_tool_InrD(4) [OF that] by (simp add: redirect_target_def)
  with rel show "map redirect_target fs = map (\<lambda>(n, s). redirect_target s) A"
    by (induction A fs rule: list_all2_induct) auto
qed


lemma count_list_distinct: "distinct xs \<Longrightarrow> x \<in> set xs \<Longrightarrow> count_list xs x = 1"
  by (induction xs) auto

lemma distinct_entry_names:
  assumes "map entry_name es = map (\<lambda>(n, s). Some n) T" and "distinct (map fst T)"
  shows "distinct (map entry_name es)"
proof -
  have "map (\<lambda>(n, s). Some n) T = map Some (map fst T)"
    by (simp add: split_def)
  with assms show ?thesis
    by (simp add: distinct_map del: map_map)
qed

section \<open>The small registries compiled\<close>

lemma collision_run:
  "generate_manifest_v2 scenario_tools collision_aliases =
     Inr (with_tools manifest_v2 [hd scenario_entries, PDict [
      (''name'', PStr ''a''),
      (''category'', PStr ''Deprecated''),
      (''description'', PStr ''Same name as the tool''),
      (''redirect_to'', PStr ''a''),
      (''deprecated'', PBool True),
      (''input_schema'', PDict [(''type'', PStr ''object''), (''properties'', PDict [])])]])"
  "generate_manifest_v2_approved scenario_tools collision_aliases =
     Inr (with_tools manifest_approved [hd scenario_entries, PDict [
      (''name'', PStr ''a''),
      (''category'', PStr ''Deprecated''),
      (''description'', PStr ''Same name as the tool''),
      (''redirect_to'', PStr ''a''),
      (''deprecated'', PBool True),
      (''input_schema'', PDict [(''type'', PStr ''object''), (''properties'', PDict [])])]])"
  by (simp_all add: generate_manifest_v2_eq generate_manifest_v2_approved_eq scenario_tools_def
      collision_aliases_def scenario_entries_def active_tool_def alias_tool_def)

lemma scenario_fields:
  "list_all (\<lambda>(n, s). \<not> isl (active_tool n s)) scenario_tools"
  "list_all (\<lambda>(n, s). \<not> isl (alias_tool n s)) scenario_aliases"
  "list_all (\<lambda>(n, s). \<not> isl (alias_tool n s)) collision_aliases"
  "list_all (\<lambda>(n, s). \<not> isl (alias_tool n s)) dangling_aliases"
  "list_all (\<lambda>(n, s). \<not> isl (alias_tool n s)) blank_aliases"
  by (simp_all add: scenario_tools_def scenario_aliases_def collision_aliases_def
      dangling_aliases_def blank_aliases_def active_tool_def alias_tool_def)


lemma dangling_run:
  "generate_manifest_v2 scenario_tools dangling_aliases =
     Inr (with_tools manifest_v2 [hd scenario_entries, PDict [
      (''name'', PStr ''x''),
      (''category'', PStr ''Deprecated''),
      (''description'', PStr ''Points nowhere''),
      (''redirect_to'', PStr ''nonexistent''),
      (''deprecated'', PBool True),
      (''input_schema'', PDict [(''type'', PStr ''object''), (''properties'', PDict [])])]])"
  "generate_manifest_v2_approved scenario_tools dangling_aliases =
     Inr (with_tools manifest_approved [hd scenario_entries, PDict [
      (''name'', PStr ''x''),
      (''category'', PStr ''Deprecated''),
      (''description'', PStr ''Points nowhere''),
      (''redirect_to'', PStr ''nonexistent''),
      (''deprecated'', PBool True),
      (''input_schema'', PDict [(''type'', PStr ''object''), (''properties'', PDict [])])]])"
  by (simp_all add: generate_manifest_v2_eq generate_manifest_v2_approved_eq scenario_tools_def
      dangling_aliases_def scenario_entries_def active_tool_def alias_tool_def)

lemma blank_run:
  "generate_manifest_v2 scenario_tools blank_aliases =
     Inr (with_tools manifest_v2 [hd scenario_entries, PDict [
      (''name'', PStr ''x''),
      (''category'', PStr ''Deprecated''),
      (''description'', PStr ''No target''),
      (''redirect_to'', PStr []),
      (''deprecated'', PBool True),
      (''input_schema'', PDict [(''type'', PStr ''object''), (''properties'', PDict [])])]])"
  "generate_manifest_v2_approved scenario_tools blank_aliases =
     Inr (with_tools manifest_approved [hd scenario_entries, PDict [
      (''name'', PStr ''x''),
      (''category'', PStr ''Deprecated''),
      (''description'', PStr ''No target''),
      (''redirect_to'', PStr []),
      (''deprecated'', PBool True),
      (''input_schema'', PDict [(''type'', PStr ''object''), (''properties'', PDict [])])]])"
  by (simp_all add: generate_manifest_v2_eq generate_manifest_v2_approved_eq scenario_tools_def
      blank_aliases_def scenario_entries_def active_tool_def alias_tool_def)


lemma ordered_run:
  "generate_manifest_v2 ordered_tools ordered_aliases =
     Inr (with_tools manifest_v2 ordered_entries)"
  "generate_manifest_v2_approved ordered_tools ordered_aliases =
     Inr (with_tools manifest_approved ordered_entries)"
  by (simp_all add: generate_manifest_v2_eq generate_manifest_v2_approved_eq ordered_tools_def
      ordered_aliases_def ordered_entries_def active_tool_def alias_tool_def)

lemma clashing_fields:
  "list_all (\<lambda>(n, s). \<not> isl (active_tool n s)) ordered_tools"
  "list_all (\<lambda>(n, s). \<not> isl (alias_tool n s)) clashing_aliases"
  by (simp_all add: ordered_tools_def clashing_aliases_def active_tool_def alias_tool_def)

section \<open>The built-in registries compiled\<close>

lemma keys_TOOLS_v2:
  "map fst TOOLS_v2 = [
    ''user_get_profile'',
    ''user_set_weight_goal'',
    ''user_update_diet_preferences'',
    ''user_get_goals'',
    ''user_reset_profile'',
    ''plan_create_meal_plan'',
    ''plan_generate_from_leftovers'',
    ''plan_random_meal'',
    ''plan_customize_meal_plan'',
    ''plan_get_active_plan'',
    ''nutrition_analyze_food'',
    ''nutrition_get_macros'',
    ''nutrition_compare_foods'',
    ''nutrition_get_recommendations'',
    ''tracker_log_meal'',
    ''tracker_log_weight'',
    ''tracker_get_progress'',
    ''tracker_summary'',
    ''loop_evaluate_plan'',
    ''loop_adjust_calories'',
    ''loop_generate_feedback_report'',
    ''loop_predict_outcome'',
    ''loop_reset_cycle'',
    ''delivery_search_restaurants'',
    ''delivery_get_menu'',
    ''delivery_place_order'',
    ''delivery_track_order'',
    ''sys_get_help'',
    ''sys_healthcheck'',
    ''sys_debug_tool_choice_log'']"
  by (simp add: TOOLS_v2_def)

lemma keys_DEPRECATED_ALIASES_v2:
  "map fst DEPRECATED_ALIASES_v2 = [
    ''tracker_set_goals'',
    ''tracker_quick_add_calories'',
    ''get_weight_prefs'',
    ''update_weight_prefs'',
    ''generate_week_plan'',
    ''recipes_creative_recipe'',
    ''log_meal_plan'',
    ''nutrition_analyze'',
    ''normalize_ingredients'',
    ''tracker_log_food'',
    ''log_weight'',
    ''weekly_trend'',
    ''tracker_get_daily_summary'',
    ''evaluate_plan_outcome'',
    ''push_plan_feedback'',
    ''mealme_search'',
    ''get_delivery_recommendations'',
    ''mealme_order_plan'']"
  by (simp add: DEPRECATED_ALIASES_v2_def)

lemma keys_TOOLS_approved:
  "map fst TOOLS_approved = [
    ''user_get_profile'',
    ''user_set_weight_goal'',
    ''user_update_diet_preferences'',
    ''plan_create_meal_plan'',
    ''plan_generate_from_leftovers'',
    ''plan_random_meal'',
    ''plan_get_active_plan'',
    ''nutrition_analyze_food'',
    ''nutrition_get_macros'',
    ''nutrition_compare_foods'',
    ''nutrition_get_recommendations'',
    ''tracker_log_meal'',
    ''tracker_log_weight'',
    ''tracker_get_progress'',
    ''tracker_summary'',
    ''loop_evaluate_plan'',
    ''loop_adjust_calories'',
    ''loop_predict_outcome'',
    ''delivery_search_restaurants'',
    ''delivery_get_menu'',
    ''delivery_place_order'',
    ''sys_get_help'',
    ''sys_healthcheck'',
    ''sys_debug_tool_choice_log'']"
  by (simp add: TOOLS_approved_def)

lemma keys_DEPRECATED_ALIASES_approved:
  "map fst DEPRECATED_ALIASES_approved = [
    ''set_weight_goal'',
    ''tracker_set_goals'',
    ''get_user_profile'',
    ''update_diet_preferences'',
    ''create_meal_plan'',
    ''generate_recipes'',
    ''random_meal'',
    ''nutrition_analyze'',
    ''get_weight_history'',
    ''get_weight_trend'',
    ''order_meal_delivery'',
    ''mealme_search'']"
  by (simp add: DEPRECATED_ALIASES_approved_def)

lemma fields_TOOLS_v2: "list_all (\<lambda>(n, s). \<not> isl (active_tool n s)) TOOLS_v2"
  by (simp add: TOOLS_v2_def active_tool_def)

lemma fields_DEPRECATED_ALIASES_v2:
  "list_all (\<lambda>(n, s). \<not> isl (alias_tool n s)) DEPRECATED_ALIASES_v2"
  by (simp add: DEPRECATED_ALIASES_v2_def alias_tool_def)

lemma fields_TOOLS_approved: "list_all (\<lambda>(n, s). \<not> isl (active_tool n s)) TOOLS_approved"
  by (simp add: TOOLS_approved_def active_tool_def)

lemma fields_DEPRECATED_ALIASES_approved:
  "list_all (\<lambda>(n, s). \<not> isl (alias_tool n s)) DEPRECATED_ALIASES_approved"
  by (simp add: DEPRECATED_ALIASES_approved_def alias_tool_def)

lemma distinct_keys_v2: "distinct (map fst TOOLS_v2 @ map fst DEPRECATED_ALIASES_v2)"
  unfolding keys_TOOLS_v2 keys_DEPRECATED_ALIASES_v2 by simp

lemma distinct_keys_approved: "distinct (map fst TOOLS_approved @ map fst DEPRECATED_ALIASES_approved)"
  unfolding keys_TOOLS_approved keys_DEPRECATED_ALIASES_approved by simp

lemma redirects_v2:
  "list_all (\<lambda>r. case r of Some n \<Rightarrow> n \<in> set (map fst TOOLS_v2) | None \<Rightarrow> False)
     (map (\<lambda>(n, s). redirect_target s) DEPRECATED_ALIASES_v2)"
  unfolding keys_TOOLS_v2 by (simp add: DEPRECATED_ALIASES_v2_def redirect_target_def)

lemma redirects_approved:
  "list_all (\<lambda>r. case r of Some n \<Rightarrow> n \<in> set (map fst TOOLS_approved) | None \<Rightarrow> False)
     (map (\<lambda>(n, s). redirect_target s) DEPRECATED_ALIASES_approved)"
  unfolding keys_TOOLS_approved by (simp add: DEPRECATED_ALIASES_approved_def redirect_target_def)

lemma main_runs:
  obtains es fs where
    "map (\<lambda>(n, s). active_tool n s) TOOLS_v2 = map Inr es"
    "map (\<lambda>(n, s). alias_tool n s) DEPRECATED_ALIASES_v2 = map Inr fs"
    "main_v2 = Inr (with_tools manifest_v2 (es @ fs))"
  using generate_manifest_succeeds [OF fields_TOOLS_v2 fields_DEPRECATED_ALIASES_v2]
  unfolding main_v2_def by blast

lemma main_approved_runs:
  obtains es fs where
    "map (\<lambda>(n, s). active_tool n s) TOOLS_approved = map Inr es"
    "map (\<lambda>(n, s). alias_tool n s) DEPRECATED_ALIASES_approved = map Inr fs"
    "main_approved = Inr (with_tools manifest_approved (es @ fs))"
  using generate_manifest_succeeds [OF fields_TOOLS_approved fields_DEPRECATED_ALIASES_approved]
  unfolding main_approved_def by blast

lemma entry_names_of_run:
  assumes "map (\<lambda>(n, s). active_tool n s) T = map Inr es"
    and "map (\<lambda>(n, s). alias_tool n s) A = map Inr fs"
  shows "map entry_name (es @ fs) = map Some (map fst T @ map fst A)"
  using active_entries_shape(2) [OF assms(1)] alias_entries_shape(2) [OF assms(2)]
  by (simp add: split_def)


lemma filter_by_flags:
  "map P xs = replicate (length xs) False \<Longrightarrow> filter P xs = [] \<and> filter (\<lambda>x. \<not> P x) xs = xs"
  "map P xs = replicate (length xs) True \<Longrightarrow> filter P xs = xs \<and> filter (\<lambda>x. \<not> P x) xs = []"
  by (induction xs) auto

lemma redirects_of_run:
  assumes es: "map (\<lambda>(n, s). active_tool n s) T = map Inr es"
    and fs: "map (\<lambda>(n, s). alias_tool n s) A = map Inr fs"
    and ok: "list_all (\<lambda>r. case r of Some n \<Rightarrow> n \<in> set (map fst T) | None \<Rightarrow> False)
     (map (\<lambda>(n, s). redirect_target s) A)"
  shows "list_all (\<lambda>t. case redirect_target t of
             Some r \<Rightarrow> Some r \<in> set (map entry_name (filter (\<lambda>a. \<not> is_deprecated a) (es @ fs)))
           | None \<Rightarrow> False) (filter is_deprecated (es @ fs))"
proof -
  have fe: "filter is_deprecated es = [] \<and> filter (\<lambda>x. \<not> is_deprecated x) es = es"
    using active_entries_shape(1,3) [OF es] by (intro filter_by_flags(1)) simp
  have ff: "filter is_deprecated fs = fs \<and> filter (\<lambda>x. \<not> is_deprecated x) fs = []"
    using alias_entries_shape(1,3) [OF fs] by (intro filter_by_flags(2)) simp
  have names: "map entry_name es = map Some (map fst T)"
    using active_entries_shape(2) [OF es] by (simp add: split_def)
  have active: "filter (\<lambda>a. \<not> is_deprecated a) (es @ fs) = es"
    and aliases: "filter is_deprecated (es @ fs) = fs"
    by (simp_all add: fe ff)
  have "list_all (\<lambda>r. case r of Some n \<Rightarrow> Some n \<in> set (map entry_name es) | None \<Rightarrow> False)
     (map redirect_target fs)"
    unfolding alias_redirects(2) [OF fs] names
    using ok by (rule list.pred_mono_strong) (auto split: option.splits)
  then show ?thesis
    unfolding active aliases by (simp add: list.pred_map comp_def)
qed


lemma with_tools_manifest_v2:
  "with_tools manifest_v2 ts = PDict [
    (''name'', PStr ''TheLoopGPT.ai''),
    (''description'', PStr ''A comprehensive AI-powered nutrition and wellness platform with adaptive feedback loops. TheLoopGPT.ai provides personalized meal planning, weight tracking, nutrition analysis, and delivery integration across 100+ languages and 25 countries.''),
    (''version'', PStr ''2.0.0''),
    (''schema_version'', PStr ''v1''),
    (''namespace'', PStr ''loopgpt''),
    (''contact_email'', PStr ''support@theloopgpt.ai''),
    (''api'', PDict [
      (''type'', PStr ''openai-mcp''),
      (''url'', PStr ''https://qmagnwxeijctkksqbcqz.supabase.co/functions/v1/mcp-server'')]),
    (''authentication'', PDict [(''type'', PStr ''none'')]),
    (''tools'', PList ts)]"
  by (simp add: manifest_v2_def)

lemma with_tools_manifest_approved:
  "with_tools manifest_approved ts = PDict [
    (''name'', PStr ''TheLoopGPT.ai''),
    (''description'', PStr ''A comprehensive AI-powered nutrition and wellness platform with adaptive feedback loops. TheLoopGPT.ai provides personalized meal planning, weight tracking, nutrition analysis, and delivery integration across 100+ languages and 25 countries.''),
    (''version'', PStr ''2.0.0''),
    (''schema_version'', PStr ''v1''),
    (''namespace'', PStr ''loopgpt''),
    (''contact_email'', PStr ''support@theloopgpt.ai''),
    (''api'', PDict [
      (''type'', PStr ''openai-mcp''),
      (''url'', PStr ''https://qmagnwxeijctkksqbcqz.supabase.co/functions/v1/mcp-server'')]),
    (''authentication'', PDict [(''type'', PStr ''none'')]),
    (''tools'', PList ts)]"
  by (simp add: manifest_approved_def)


section \<open>Heaps: frames and representation\<close>

lemma obj_at_SomeD: "obj_at h r = Some ob \<Longrightarrow> r < length h"
  by (simp add: obj_at_def split: if_splits)

lemma obj_at_append: "r < length h \<Longrightarrow> obj_at (h @ ext) r = obj_at h r"
  by (simp add: obj_at_def nth_append)

lemma obj_at_new: "obj_at (h @ [ob]) (length h) = Some ob"
  by (simp add: obj_at_def)

lemma obj_at_update:
  "obj_at (h[t := ob]) r = (if r = t \<and> t < length h then Some ob else obj_at h r)"
  by (simp add: obj_at_def)

lemma agree_refl: "agree X h h"
  by (simp add: agree_def)

lemma agree_trans: "agree X h h1 \<Longrightarrow> agree X h1 h2 \<Longrightarrow> agree X h h2"
  by (simp add: agree_def)

lemma agree_append: "agree X h (h @ ext)"
  by (simp add: agree_def obj_at_append)

lemma agree_update: "t \<in> X \<Longrightarrow> agree X h (h[t := ob])"
  by (auto simp: agree_def obj_at_update)

lemma agree_mono: "agree X h h' \<Longrightarrow> X \<subseteq> Y \<Longrightarrow> agree Y h h'"
  by (auto simp: agree_def)

lemma agree_length: "agree X h h' \<Longrightarrow> length h \<le> length h'"
  by (simp add: agree_def)

lemma agree_obj_at: "agree X h h' \<Longrightarrow> obj_at h a = Some ob \<Longrightarrow> a \<notin> X \<Longrightarrow> obj_at h' a = Some ob"
  by (auto simp: agree_def dest: obj_at_SomeD)

lemma transfer_obj:
  assumes "\<And>a. a \<in> S \<Longrightarrow> a < length h \<Longrightarrow> a \<in> S' \<and> obj_at h' a = obj_at h a"
    and "r \<in> S" and "obj_at h r = Some ob"
  shows "r \<in> S' \<and> obj_at h' r = Some ob"
proof -
  from assms(3) have "r < length h" by (rule obj_at_SomeD)
  from assms(1) [OF assms(2) this] assms(3) show ?thesis by simp
qed

lemma repr_transfer:
  assumes "\<And>a. a \<in> S \<Longrightarrow> a < length h \<Longrightarrow> a \<in> S' \<and> obj_at h' a = obj_at h a"
  shows "repr_on S h r v \<Longrightarrow> repr_on S' h' r v"
    and "repr_list S h rs vs \<Longrightarrow> repr_list S' h' rs vs"
    and "repr_items S h rkvs kvs \<Longrightarrow> repr_items S' h' rkvs kvs"
  using assms
proof (induction S h r v and S h rs vs and S h rkvs kvs rule: repr_on_repr_list_repr_items.induct)
  case (1 S h r s)
  from transfer_obj [OF "1.prems"(2)] "1.prems"(1) show ?case by simp
next
  case (2 S h r i)
  from transfer_obj [OF "2.prems"(2)] "2.prems"(1) show ?case by simp
next
  case (3 S h r b)
  from transfer_obj [OF "3.prems"(2)] "3.prems"(1) show ?case by simp
next
  case (4 S h r vs)
  from "4.prems"(1) obtain rs where
    r: "r \<in> S" "obj_at h r = Some (OList rs)" and rs: "repr_list S h rs vs"
    by (auto split: option.splits obj.splits)
  from transfer_obj [OF "4.prems"(2) r] have "r \<in> S'" "obj_at h' r = Some (OList rs)"
    by simp_all
  moreover from "4.IH" [OF r(2) refl rs "4.prems"(2)] have "repr_list S' h' rs vs" .
  ultimately show ?case by simp
next
  case (5 S h r kvs)
  from "5.prems"(1) obtain rkvs where
    r: "r \<in> S" "obj_at h r = Some (ODict rkvs)" and rs: "repr_items S h rkvs kvs"
    by (auto split: option.splits obj.splits)
  from transfer_obj [OF "5.prems"(2) r] have "r \<in> S'" "obj_at h' r = Some (ODict rkvs)"
    by simp_all
  moreover from "5.IH" [OF r(2) refl rs "5.prems"(2)] have "repr_items S' h' rkvs kvs" .
  ultimately show ?case by simp
next
  case (6 S h rs)
  then show ?case by simp
next
  case (7 S h rs v vs)
  then show ?case by (cases rs) auto
next
  case (8 S h rkvs)
  then show ?case by simp
next
  case (9 S h rkvs k v kvs)
  then show ?case by (cases rkvs) auto
qed

lemma repr_on_bound: "repr_on S h r v \<Longrightarrow> r \<in> S \<and> r < length h"
  by (cases v) (auto dest: obj_at_SomeD split: option.splits obj.splits)

lemma repr_agree:
  assumes "agree X h h'" and "S \<inter> X = {}" and "S \<subseteq> S'"
  shows "repr_on S h r v \<Longrightarrow> repr_on S' h' r v"
    and "repr_list S h rs vs \<Longrightarrow> repr_list S' h' rs vs"
    and "repr_items S h rkvs kvs \<Longrightarrow> repr_items S' h' rkvs kvs"
proof -
  have *: "a \<in> S' \<and> obj_at h' a = obj_at h a" if "a \<in> S" "a < length h" for a
    using that assms by (auto simp: agree_def)
  show "repr_on S h r v \<Longrightarrow> repr_on S' h' r v"
    by (rule repr_transfer(1) [OF *])
  show "repr_list S h rs vs \<Longrightarrow> repr_list S' h' rs vs"
    by (rule repr_transfer(2) [OF *])
  show "repr_items S h rkvs kvs \<Longrightarrow> repr_items S' h' rkvs kvs"
    by (rule repr_transfer(3) [OF *])
qed

lemma repr_items_iff:
  "repr_items S h rkvs kvs \<longleftrightarrow>
     map fst rkvs = map fst kvs \<and> repr_list S h (map snd rkvs) (map snd kvs)"
proof (induction kvs arbitrary: rkvs)
  case Nil
  show ?case by auto
next
  case (Cons p kvs)
  obtain k v where p: "p = (k, v)" by (cases p)
  show ?case by (cases rkvs) (auto simp: p Cons.IH)
qed

lemma laid_out_lower: "laid_out h lo rs vs \<Longrightarrow> r \<in> set rs \<Longrightarrow> lo \<le> r"
  by (induction h lo rs vs rule: laid_out.induct) auto

lemma laid_out_repr_list: "laid_out h lo rs vs \<Longrightarrow> repr_list {lo..<length h} h rs vs"
proof (induction h lo rs vs rule: laid_out.induct)
  case (2 h lo r rs v vs)
  from "2.prems" have lo: "lo \<le> r" and r: "repr_on {lo..r} h r v"
    and rest: "laid_out h (Suc r) rs vs"
    by simp_all
  from repr_on_bound [OF r] have b: "r < length h" by simp
  have "repr_on {lo..<length h} h r v"
    by (rule repr_transfer(1) [OF _ r]) (use b in simp)
  moreover have "repr_list {lo..<length h} h rs vs"
    by (rule repr_transfer(2) [OF _ "2.IH" [OF rest]]) (use lo in simp)
  ultimately show ?case by simp
qed simp_all

lemma store_layout:
  "store v h = (r, h') \<Longrightarrow>
     agree {} h h' \<and> length h' = Suc r \<and> length h \<le> r \<and> repr_on {length h..r} h' r v"
  "store_list vs h = (rs, h') \<Longrightarrow> agree {} h h' \<and> laid_out h' (length h) rs vs"
  "store_items kvs h = (rkvs, h') \<Longrightarrow>
     agree {} h h' \<and> map fst rkvs = map fst kvs \<and>
     laid_out h' (length h) (map snd rkvs) (map snd kvs)"
proof (induction v h and vs h and kvs h arbitrary: r h' and rs h' and rkvs h'
    rule: store_store_list_store_items.induct)
  case (1 s h)
  then show ?case by (auto simp: alloc_def agree_append obj_at_new)
next
  case (2 i h)
  then show ?case by (auto simp: alloc_def agree_append obj_at_new)
next
  case (3 b h)
  then show ?case by (auto simp: alloc_def agree_append obj_at_new)
next
  case (4 vs h)
  obtain rs h1 where s: "store_list vs h = (rs, h1)" by (cases "store_list vs h")
  from "4.IH" [OF s] have a: "agree {} h h1" and l: "laid_out h1 (length h) rs vs"
    by simp_all
  from "4.prems" s have r: "r = length h1" and h': "h' = h1 @ [OList rs]"
    by (simp_all add: alloc_def)
  have "repr_list {length h..length h1} h' rs vs"
    unfolding h'
    by (rule repr_agree(2) [OF agree_append [of "{}"] _ _ laid_out_repr_list [OF l]]) auto
  then have "repr_on {length h..r} h' r (PList vs)"
    using agree_length [OF a] by (simp add: r h' obj_at_new)
  moreover have "agree {} h h'"
    unfolding h' by (rule agree_trans [OF a agree_append])
  ultimately show ?case using agree_length [OF a] by (simp add: r h')
next
  case (5 kvs h)
  obtain rkvs h1 where s: "store_items kvs h = (rkvs, h1)" by (cases "store_items kvs h")
  from "5.IH" [OF s] have a: "agree {} h h1" and k: "map fst rkvs = map fst kvs"
    and l: "laid_out h1 (length h) (map snd rkvs) (map snd kvs)"
    by simp_all
  from "5.prems" s have r: "r = length h1" and h': "h' = h1 @ [ODict rkvs]"
    by (simp_all add: alloc_def)
  have "repr_list {length h..length h1} h' (map snd rkvs) (map snd kvs)"
    unfolding h'
    by (rule repr_agree(2) [OF agree_append [of "{}"] _ _ laid_out_repr_list [OF l]]) auto
  then have "repr_on {length h..r} h' r (PDict kvs)"
    using agree_length [OF a] k by (simp add: r h' obj_at_new repr_items_iff)
  moreover have "agree {} h h'"
    unfolding h' by (rule agree_trans [OF a agree_append])
  ultimately show ?case using agree_length [OF a] by (simp add: r h')
next
  case (6 h)
  then show ?case by (simp add: agree_refl)
next
  case (7 v vs h)
  obtain r1 h1 where s1: "store v h = (r1, h1)" by (cases "store v h")
  obtain rs2 h2 where s2: "store_list vs h1 = (rs2, h2)" by (cases "store_list vs h1")
  from "7.IH"(1) [OF s1] have a1: "agree {} h h1" and n1: "length h1 = Suc r1"
    and b1: "length h \<le> r1" and r1: "repr_on {length h..r1} h1 r1 v"
    by simp_all
  from "7.IH"(2) [OF s1 [symmetric] s2] have a2: "agree {} h1 h2"
    and l2: "laid_out h2 (length h1) rs2 vs"
    by simp_all
  from "7.prems" s1 s2 have rs: "rs = r1 # rs2" and h': "h' = h2" by simp_all
  from repr_agree(1) [OF a2 _ subset_refl r1] have "repr_on {length h..r1} h2 r1 v" by simp
  with l2 b1 n1 have "laid_out h' (length h) rs (v # vs)" by (simp add: rs h')
  with agree_trans [OF a1 a2] show ?case by (simp add: h')
next
  case (8 h)
  then show ?case by (simp add: agree_refl)
next
  case (9 k v kvs h)
  obtain r1 h1 where s1: "store v h = (r1, h1)" by (cases "store v h")
  obtain rs2 h2 where s2: "store_items kvs h1 = (rs2, h2)" by (cases "store_items kvs h1")
  from "9.IH"(1) [OF s1] have a1: "agree {} h h1" and n1: "length h1 = Suc r1"
    and b1: "length h \<le> r1" and r1: "repr_on {length h..r1} h1 r1 v"
    by simp_all
  from "9.IH"(2) [OF s1 [symmetric] s2] have a2: "agree {} h1 h2"
    and k2: "map fst rs2 = map fst kvs"
    and l2: "laid_out h2 (length h1) (map snd rs2) (map snd kvs)"
    by simp_all
  from "9.prems" s1 s2 have rs: "rkvs = (k, r1) # rs2" and h': "h' = h2" by simp_all
  from repr_agree(1) [OF a2 _ subset_refl r1] have "repr_on {length h..r1} h2 r1 v" by simp
  with l2 b1 n1 k2 have "map fst rkvs = map fst ((k, v) # kvs) \<and>
     laid_out h' (length h) (map snd rkvs) (map snd ((k, v) # kvs))" by (simp add: rs h')
  with agree_trans [OF a1 a2] show ?case by (simp add: h')
qed

section \<open>The heap operations follow the values\<close>

lemma map_of_repr_items:
  "repr_items S h rkvs kvs \<Longrightarrow>
     (case map_of kvs k of
        None \<Rightarrow> map_of rkvs k = None
      | Some x \<Rightarrow> (\<exists>rx. map_of rkvs k = Some rx \<and> repr_on S h rx x))"
proof (induction kvs arbitrary: rkvs)
  case Nil
  then show ?case by simp
next
  case (Cons p kvs)
  obtain k1 v1 where p: "p = (k1, v1)" by (cases p)
  from Cons.prems obtain r1 rkvs' where rkvs: "rkvs = (k1, r1) # rkvs'"
    and r1: "repr_on S h r1 v1" and rest: "repr_items S h rkvs' kvs"
    by (cases rkvs) (auto simp: p)
  show ?case
  proof (cases "k1 = k")
    case True
    with r1 show ?thesis by (simp add: p rkvs)
  next
    case False
    with Cons.IH [OF rest] show ?thesis by (auto simp: p rkvs split: option.splits)
  qed
qed

lemma getitem_refines:
  assumes "repr_on S h r v"
  shows "case getitem v k of
           Inl e \<Rightarrow> h_getitem h r k = Inl e
         | Inr x \<Rightarrow> (\<exists>rx. h_getitem h r k = Inr rx \<and> repr_on S h rx x)"
proof (cases v)
  case (PDict kvs)
  with assms obtain rkvs where ob: "obj_at h r = Some (ODict rkvs)"
    and items: "repr_items S h rkvs kvs"
    by (auto split: option.splits obj.splits)
  from map_of_repr_items [OF items, of k] show ?thesis
    by (auto simp: PDict h_getitem_def ob split: option.splits)
qed (use assms in \<open>auto simp: h_getitem_def split: option.splits obj.splits\<close>)

lemma getitem_refines_Inl:
  "repr_on S h r v \<Longrightarrow> getitem v k = Inl e \<Longrightarrow> h_getitem h r k = Inl e"
  using getitem_refines [of S h r v k] by simp

lemma getitem_refines_Inr:
  "repr_on S h r v \<Longrightarrow> getitem v k = Inr x \<Longrightarrow> \<exists>rx. h_getitem h r k = Inr rx \<and> repr_on S h rx x"
  using getitem_refines [of S h r v k] by simp

lemma h_active_tool_refines:
  assumes spec: "repr_on S h spec sv"
  shows "case active_tool name sv of
           Inl e \<Rightarrow> h_active_tool name spec h = (Inl e, h)
         | Inr tv \<Rightarrow> (\<exists>tool h'. h_active_tool name spec h = (Inr tool, h') \<and>
               agree {} h h' \<and> repr_on (S \<union> {length h..}) h' tool tv)"
proof (cases "getitem sv ''category''")
  case (Inl e)
  with getitem_refines_Inl [OF spec this] show ?thesis
    by (simp add: active_tool_def h_active_tool_def)
next
  case c: (Inr cv)
  from getitem_refines_Inr [OF spec c] obtain c where
    hc: "h_getitem h spec ''category'' = Inr c" and rc: "repr_on S h c cv" by blast
  show ?thesis
  proof (cases "getitem sv ''description''")
    case (Inl e)
    with getitem_refines_Inl [OF spec this] c hc show ?thesis
      by (simp add: active_tool_def h_active_tool_def)
  next
    case d: (Inr dv)
    from getitem_refines_Inr [OF spec d] obtain d where
      hd: "h_getitem h spec ''description'' = Inr d" and rd: "repr_on S h d dv" by blast
    show ?thesis
    proof (cases "getitem sv ''input_schema''")
      case (Inl e)
      with getitem_refines_Inl [OF spec this] c hc d hd show ?thesis
        by (simp add: active_tool_def h_active_tool_def)
    next
      case s: (Inr schv)
      from getitem_refines_Inr [OF spec s] obtain s where
        hs: "h_getitem h spec ''input_schema'' = Inr s" and rs: "repr_on S h s schv" by blast
      let ?n = "length h"
      let ?ext = "[OStr name, ODict [(''name'', ?n), (''category'', c),
          (''description'', d), (''input_schema'', s)]]"
      let ?h' = "h @ ?ext"
      let ?S' = "S \<union> {length h..}"
      have run: "h_active_tool name spec h = (Inr (Suc ?n), ?h')"
        by (simp add: h_active_tool_def hc hd hs alloc_def)
      have old: "repr_on ?S' ?h' r v" if "repr_on S h r v" for r v
        by (rule repr_agree(1) [OF agree_append [of "{}"] _ _ that]) auto
      have n: "obj_at ?h' ?n = Some (OStr name)"
        by (simp add: obj_at_def)
      have t: "obj_at ?h' (Suc ?n) = Some (ODict [(''name'', ?n), (''category'', c),
          (''description'', d), (''input_schema'', s)])"
        by (simp add: obj_at_def nth_append)
      have "repr_on ?S' ?h' (Suc ?n) (PDict [(''name'', PStr name), (''category'', cv),
          (''description'', dv), (''input_schema'', schv)])"
        using old [OF rc] old [OF rd] old [OF rs] n t by simp
      with run c d s agree_append [of "{}" h ?ext] show ?thesis
        by (simp add: active_tool_def)
    qed
  qed
qed

lemma h_alias_tool_refines:
  assumes spec: "repr_on S h spec sv"
  shows "case alias_tool name sv of
           Inl e \<Rightarrow> h_alias_tool name spec h = (Inl e, h)
         | Inr tv \<Rightarrow> (\<exists>tool h'. h_alias_tool name spec h = (Inr tool, h') \<and>
               agree {} h h' \<and> repr_on (S \<union> {length h..}) h' tool tv)"
proof (cases "getitem sv ''category''")
  case (Inl e)
  with getitem_refines_Inl [OF spec this] show ?thesis
    by (simp add: alias_tool_def h_alias_tool_def)
next
  case c: (Inr cv)
  from getitem_refines_Inr [OF spec c] obtain c where
    hc: "h_getitem h spec ''category'' = Inr c" and rc: "repr_on S h c cv" by blast
  show ?thesis
  proof (cases "getitem sv ''description''")
    case (Inl e)
    with getitem_refines_Inl [OF spec this] c hc show ?thesis
      by (simp add: alias_tool_def h_alias_tool_def)
  next
    case d: (Inr dv)
    from getitem_refines_Inr [OF spec d] obtain d where
      hd: "h_getitem h spec ''description'' = Inr d" and rd: "repr_on S h d dv" by blast
    show ?thesis
    proof (cases "getitem sv ''redirect_to''")
      case (Inl e)
      with getitem_refines_Inl [OF spec this] c hc d hd show ?thesis
        by (simp add: alias_tool_def h_alias_tool_def)
    next
      case r: (Inr rv)
      from getitem_refines_Inr [OF spec r] obtain r where
        hr: "h_getitem h spec ''redirect_to'' = Inr r" and rr: "repr_on S h r rv" by blast
      let ?n = "length h"
      let ?h2 = "h @ [OStr name, OBool True]"
      let ?lit = "PDict [(''type'', PStr ''object''), (''properties'', PDict [])]"
      obtain s h3 where st: "store ?lit ?h2 = (s, h3)" by (cases "store ?lit ?h2")
      from store_layout(1) [OF st] have a3: "agree {} ?h2 h3" and n3: "length h3 = Suc s"
        and b3: "length ?h2 \<le> s" and r3: "repr_on {length ?h2..s} h3 s ?lit"
        by simp_all
      let ?tool = "ODict [(''name'', ?n), (''category'', c), (''description'', d),
          (''redirect_to'', r), (''deprecated'', Suc ?n), (''input_schema'', s)]"
      let ?h' = "h3 @ [?tool]"
      let ?S' = "S \<union> {length h..}"
      have run: "h_alias_tool name spec h = (Inr (length h3), ?h')"
        by (simp add: h_alias_tool_def hc hd hr alloc_def st del: store.simps)
      have a': "agree {} h ?h'"
        by (rule agree_trans [OF agree_append agree_trans [OF a3 agree_append]])
      have a2': "agree {} ?h2 ?h'"
        by (rule agree_trans [OF a3 agree_append])
      have old: "repr_on ?S' ?h' x v" if "repr_on S h x v" for x v
        by (rule repr_agree(1) [OF a' _ _ that]) auto
      have "obj_at ?h2 ?n = Some (OStr name)" "obj_at ?h2 (Suc ?n) = Some (OBool True)"
        by (simp_all add: obj_at_def nth_append)
      then have n: "obj_at ?h' ?n = Some (OStr name)" and b: "obj_at ?h' (Suc ?n) = Some (OBool True)"
        by (simp_all add: agree_obj_at [OF a2'])
      have sch: "repr_on ?S' ?h' s ?lit"
        by (rule repr_agree(1) [OF agree_append [of "{}"] _ _ r3]) auto
      have t: "obj_at ?h' (length h3) = Some ?tool"
        by (simp add: obj_at_def)
      have "length h \<le> length h3"
        using n3 b3 by simp
      then have "repr_on ?S' ?h' (length h3) (PDict [(''name'', PStr name), (''category'', cv),
          (''description'', dv), (''redirect_to'', rv), (''deprecated'', PBool True),
          (''input_schema'', ?lit)])"
        using old [OF rc] old [OF rd] old [OF rr] n b t sch
        by (simp del: repr_on.simps(5) add: repr_on.simps(5) [of _ _ "length h3"])
      with run c d r a' show ?thesis
        by (simp add: alias_tool_def)
    qed
  qed
qed

lemma h_add_active_tools_loop: "h_add_active_tools items m h = h_loop h_active_tool items m h"
  by (induction items m h rule: h_add_active_tools.induct)
    (simp_all split: prod.splits sum.splits)

lemma h_add_deprecated_aliases_loop:
  "h_add_deprecated_aliases items m h = h_loop h_alias_tool items m h"
  by (induction items m h rule: h_add_deprecated_aliases.induct)
    (simp_all split: prod.splits sum.splits)

lemma h_getitem_dict: "h_getitem h r k = Inr x \<Longrightarrow> \<exists>kvs. obj_at h r = Some (ODict kvs)"
  by (auto simp: h_getitem_def split: option.splits obj.splits)

lemma h_getitem_agree:
  assumes "agree X h h'" and "h_getitem h r k = Inr x" and "r \<notin> X"
  shows "h_getitem h' r k = Inr x"
proof -
  from h_getitem_dict [OF assms(2)] obtain kvs where ob: "obj_at h r = Some (ODict kvs)" ..
  from agree_obj_at [OF assms(1) ob assms(3)] ob assms(2) show ?thesis
    by (simp add: h_getitem_def)
qed

lemma h_tools_append_list:
  assumes "h_getitem h m ''tools'' = Inr t" and "obj_at h t = Some (OList ds)"
  shows "h_tools_append m tool h = (Inr (), h[t := OList (ds @ [tool])])"
  using assms by (simp add: h_tools_append_def)

lemma repr_list_append:
  "repr_list S h rs vs \<Longrightarrow> repr_list S h rs' vs' \<Longrightarrow> repr_list S h (rs @ rs') (vs @ vs')"
proof (induction vs arbitrary: rs)
  case Nil
  then show ?case by simp
next
  case (Cons v vs)
  then show ?case by (cases rs) auto
qed

lemma h_loop_refines:
  assumes build: "\<And>name spec sv h.
      repr_on {..<n} h spec sv \<Longrightarrow>
      (case f name sv of
         Inl e \<Rightarrow> g name spec h = (Inl e, h)
       | Inr tv \<Rightarrow> (\<exists>tool h'. g name spec h = (Inr tool, h') \<and> agree {} h h' \<and>
             repr_on ({..<n} \<union> {length h..}) h' tool tv))"
    and items: "repr_items {..<n} h items T"
    and nt: "n \<le> t"
    and m: "h_getitem h m ''tools'' = Inr t"
    and t: "obj_at h t = Some (OList ds)"
  shows "\<exists>res h' ds'. h_loop g items m h = (res, h') \<and> agree {t} h h' \<and>
           obj_at h' t = Some (OList (ds @ ds')) \<and>
           (case collect (map (\<lambda>(name, sv). f name sv) T) of
              Inl e \<Rightarrow> res = Inl e
            | Inr es \<Rightarrow> res = Inr () \<and> repr_list (- {t}) h' ds' es)"
  using items m t
proof (induction T arbitrary: items h ds)
  case Nil
  then have "items = []" by simp
  with Nil.prems(3) show ?case
    by (auto simp: agree_refl intro!: exI [of _ "[]"])
next
  case (Cons p T)
  obtain name sv where p: "p = (name, sv)" by (cases p)
  from Cons.prems(1) obtain spec items' where items: "items = (name, spec) # items'"
    and spec: "repr_on {..<n} h spec sv" and rest: "repr_items {..<n} h items' T"
    by (cases items) (auto simp: p)
  from h_getitem_dict [OF Cons.prems(2)] Cons.prems(3) have mt: "m \<noteq> t" by auto
  from obj_at_SomeD [OF Cons.prems(3)] have tb: "t < length h" .
  show ?case
  proof (cases "f name sv")
    case (Inl e)
    with build [OF spec, of name] have "g name spec h = (Inl e, h)" by simp
    with Inl Cons.prems(3) show ?thesis
      by (auto simp: items p agree_refl intro!: exI [of _ "[]"])
  next
    case (Inr tv)
    with build [OF spec, of name] obtain tool h1 where
      g: "g name spec h = (Inr tool, h1)" and a1: "agree {} h h1"
      and tool: "repr_on ({..<n} \<union> {length h..}) h1 tool tv"
      by auto
    let ?h2 = "h1[t := OList (ds @ [tool])]"
    have m1: "h_getitem h1 m ''tools'' = Inr t"
      by (rule h_getitem_agree [OF a1 Cons.prems(2)]) simp
    have t1: "obj_at h1 t = Some (OList ds)"
      by (rule agree_obj_at [OF a1 Cons.prems(3)]) simp
    have app: "h_tools_append m tool h1 = (Inr (), ?h2)"
      by (rule h_tools_append_list [OF m1 t1])
    have a12: "agree {t} h1 ?h2"
      by (rule agree_update) simp
    have a2: "agree {t} h ?h2"
      by (rule agree_trans [OF agree_mono [OF a1] a12]) simp
    have rest2: "repr_items {..<n} ?h2 items' T"
      by (rule repr_agree(3) [OF a2 _ subset_refl rest]) (use nt in auto)
    have m2: "h_getitem ?h2 m ''tools'' = Inr t"
      by (rule h_getitem_agree [OF a12 m1]) (use mt in simp)
    have t2: "obj_at ?h2 t = Some (OList (ds @ [tool]))"
      using obj_at_SomeD [OF t1] by (simp add: obj_at_update)
    from Cons.IH [OF rest2 m2 t2] obtain res h' ds' where
      run: "h_loop g items' m ?h2 = (res, h')" and a': "agree {t} ?h2 h'"
      and t': "obj_at h' t = Some (OList ((ds @ [tool]) @ ds'))"
      and res: "case collect (map (\<lambda>(name, sv). f name sv) T) of
              Inl e \<Rightarrow> res = Inl e
            | Inr es \<Rightarrow> res = Inr () \<and> repr_list (- {t}) h' ds' es"
      by blast
    have run': "h_loop g items m h = (res, h')"
      by (simp add: items g app run)
    have a: "agree {t} h h'"
      by (rule agree_trans [OF a2 a'])
    have tool': "repr_on (- {t}) h' tool tv"
      by (rule repr_agree(1) [OF agree_trans [OF a12 a'] _ _ tool]) (use nt tb in auto)
    show ?thesis
    proof (cases "collect (map (\<lambda>(name, sv). f name sv) T)")
      case (Inl e)
      with res run' a t' Inr show ?thesis
        by (auto simp: p intro!: exI [of _ "tool # ds'"])
    next
      case es: (Inr es)
      with res have "res = Inr ()" and "repr_list (- {t}) h' ds' es" by simp_all
      with tool' have "repr_list (- {t}) h' (tool # ds') (tv # es)" by simp
      with \<open>res = Inr ()\<close> run' a t' Inr es show ?thesis
        by (auto simp: p intro!: exI [of _ "tool # ds'"])
    qed
  qed
qed

lemma assemble:
  assumes "laid_out h lo (map snd rkvs) (map snd kvs)" and "map fst rkvs = map fst kvs"
    and "map_of rkvs k = Some t"
    and "agree {t} h h'"
    and "repr_on UNIV h' t v'"
  shows "repr_items UNIV h' rkvs (AList.update k v' kvs)"
  using assms(1,2,3)
proof (induction rkvs arbitrary: kvs lo)
  case Nil
  then show ?case by simp
next
  case (Cons q rkvs)
  obtain k1 r1 where q: "q = (k1, r1)" by (cases q)
  from Cons.prems(2) obtain v1 kvs' where kvs: "kvs = (k1, v1) # kvs'"
    and keys: "map fst rkvs = map fst kvs'"
    by (cases kvs) (auto simp: q)
  from Cons.prems(1) have lo: "lo \<le> r1" and r1: "repr_on {lo..r1} h r1 v1"
    and rest: "laid_out h (Suc r1) (map snd rkvs) (map snd kvs')"
    by (simp_all add: q kvs)
  show ?case
  proof (cases "k1 = k")
    case True
    with Cons.prems(3) have t: "t = r1" by (simp add: q)
    have "repr_list UNIV h' (map snd rkvs) (map snd kvs')"
      by (rule repr_agree(2) [OF assms(4) _ _ laid_out_repr_list [OF rest]]) (auto simp: t)
    with keys have "repr_items UNIV h' rkvs kvs'"
      by (simp add: repr_items_iff)
    with assms(5) True show ?thesis
      by (simp add: q kvs t)
  next
    case False
    with Cons.prems(3) have "map_of rkvs k = Some t" by (simp add: q)
    then have "t \<in> set (map snd rkvs)"
      by (auto dest: map_of_SomeD intro: rev_image_eqI)
    from laid_out_lower [OF rest this] have "Suc r1 \<le> t" .
    then have "repr_on UNIV h' r1 v1"
      by (intro repr_agree(1) [OF assms(4) _ _ r1]) auto
    moreover from Cons.IH [OF rest keys \<open>map_of rkvs k = Some t\<close>]
    have "repr_items UNIV h' rkvs (AList.update k v' kvs')" .
    ultimately show ?thesis using False
      by (simp add: q kvs)
  qed
qed

section \<open>The heap run follows the run on values\<close>

lemma agree_fresh:
  assumes "agree {} h h1" and "agree X h1 h2" and "\<And>a. a \<in> X \<Longrightarrow> length h \<le> a"
  shows "agree {} h h2"
  unfolding agree_def
proof (intro conjI allI impI)
  from assms(1,2) show "length h \<le> length h2"
    by (simp add: agree_def)
next
  fix a
  assume a: "a < length h"
  with assms(3) have "a \<notin> X" by fastforce
  with a assms(1,2) show "obj_at h2 a = obj_at h a"
    by (simp add: agree_def)
qed

lemma agree_take: "agree {} h h' \<Longrightarrow> take (length h) h' = h"
  by (rule nth_equalityI) (auto simp: agree_def obj_at_def split: if_splits)

lemma repr_dict_items:
  assumes "repr h r (PDict kvs)"
  shows "\<exists>rkvs. obj_at h r = Some (ODict rkvs) \<and> repr_items {..<length h} h rkvs kvs"
proof -
  from assms have "repr_on {..<length h} h r (PDict kvs)"
    unfolding repr_def by (rule repr_transfer(1) [rotated]) simp
  then show ?thesis
    by (auto split: option.splits obj.splits)
qed

lemma h_generate_manifest_refines:
  assumes lit: "map_of kvs ''tools'' = Some (PList [])"
    and T: "repr h tr (PDict T)" and A: "repr h ar (PDict A)"
  shows "\<exists>res h'. h_generate_manifest (PDict kvs) tr ar h = (res, h') \<and> agree {} h h' \<and>
     (case bind_err (add_active_tools T (PDict kvs)) (add_deprecated_aliases A) of
        Inl e \<Rightarrow> res = Inl e
      | Inr doc \<Rightarrow> (\<exists>r. res = Inr r \<and> repr h' r doc))"
proof -
  let ?n = "length h"
  obtain rkvs hs where si: "store_items kvs h = (rkvs, hs)" by (cases "store_items kvs h")
  let ?m = "length hs"
  let ?h1 = "hs @ [ODict rkvs]"
  have st: "store (PDict kvs) h = (?m, ?h1)"
    by (simp add: si alloc_def)
  from store_layout(3) [OF si] have as: "agree {} h hs" and keys: "map fst rkvs = map fst kvs"
    and lay: "laid_out hs ?n (map snd rkvs) (map snd kvs)"
    by simp_all
  have ri: "repr_items {?n..<length hs} hs rkvs kvs"
    using laid_out_repr_list [OF lay] keys by (simp add: repr_items_iff)
  from map_of_repr_items [OF ri, of "''tools''"] lit obtain t where
    mt: "map_of rkvs ''tools'' = Some t" and rt: "repr_on {?n..<length hs} hs t (PList [])"
    by auto
  from rt have tn: "?n \<le> t" and tb: "t < length hs" and ts: "obj_at hs t = Some (OList [])"
    by (auto split: option.splits obj.splits)
  have a1: "agree {} h ?h1"
    by (rule agree_trans [OF as agree_append])
  have m1: "h_getitem ?h1 ?m ''tools'' = Inr t"
    by (simp add: h_getitem_def obj_at_new mt)
  have mo1: "obj_at ?h1 ?m = Some (ODict rkvs)"
    by (rule obj_at_new)
  have t1: "obj_at ?h1 t = Some (OList [])"
    using ts tb by (simp add: obj_at_append)
  from repr_dict_items [OF T] obtain titems where
    to: "obj_at h tr = Some (ODict titems)" and ti: "repr_items {..<?n} h titems T"
    by blast
  from repr_dict_items [OF A] obtain aitems where
    ao: "obj_at h ar = Some (ODict aitems)" and ai: "repr_items {..<?n} h aitems A"
    by blast
  have it1: "h_items ?h1 tr = Inr titems"
    using agree_obj_at [OF a1 to] by (simp add: h_items_def)
  have ti1: "repr_items {..<?n} ?h1 titems T"
    by (rule repr_agree(3) [OF a1 _ subset_refl ti]) simp
  from h_loop_refines [where f = active_tool and g = h_active_tool and n = ?n,
      OF h_active_tool_refines ti1 tn m1 t1]
  obtain res2 h2 dsa where
    l1: "h_loop h_active_tool titems ?m ?h1 = (res2, h2)" and a2: "agree {t} ?h1 h2"
    and t2: "obj_at h2 t = Some (OList dsa)"
    and r2: "case collect (map (\<lambda>(n, s). active_tool n s) T) of
               Inl e \<Rightarrow> res2 = Inl e
             | Inr es \<Rightarrow> res2 = Inr () \<and> repr_list (- {t}) h2 dsa es"
    by auto
  have a02: "agree {} h h2"
    by (rule agree_fresh [OF a1 a2]) (use tn in simp)
  note pure = compile_eq [OF lit, of T A]
  show ?thesis
  proof (cases "collect (map (\<lambda>(n, s). active_tool n s) T)")
    case (Inl e)
    with r2 have "res2 = Inl e" by simp
    then have "h_generate_manifest (PDict kvs) tr ar h = (Inl e, h2)"
      by (simp add: h_generate_manifest_def st it1 h_add_active_tools_loop l1 del: store.simps)
    with a02 Inl show ?thesis
      by (simp add: pure)
  next
    case es: (Inr es)
    with r2 have res2: "res2 = Inr ()" and dsa: "repr_list (- {t}) h2 dsa es" by simp_all
    have it2: "h_items h2 ar = Inr aitems"
      using agree_obj_at [OF a02 ao] by (simp add: h_items_def)
    have ai2: "repr_items {..<?n} h2 aitems A"
      by (rule repr_agree(3) [OF a02 _ subset_refl ai]) simp
    have m2: "h_getitem h2 ?m ''tools'' = Inr t"
      by (rule h_getitem_agree [OF a2 m1]) (use tb in simp)
    from h_loop_refines [where f = alias_tool and g = h_alias_tool and n = ?n,
        OF h_alias_tool_refines ai2 tn m2 t2]
    obtain res3 h3 dsb where
      l2: "h_loop h_alias_tool aitems ?m h2 = (res3, h3)" and a3: "agree {t} h2 h3"
      and t3: "obj_at h3 t = Some (OList (dsa @ dsb))"
      and r3: "case collect (map (\<lambda>(n, s). alias_tool n s) A) of
                 Inl e \<Rightarrow> res3 = Inl e
               | Inr fs \<Rightarrow> res3 = Inr () \<and> repr_list (- {t}) h3 dsb fs"
      by auto
    have a03: "agree {} h h3"
      by (rule agree_fresh [OF a02 a3]) (use tn in simp)
    show ?thesis
    proof (cases "collect (map (\<lambda>(n, s). alias_tool n s) A)")
      case (Inl e)
      with r3 have "res3 = Inl e" by simp
      then have "h_generate_manifest (PDict kvs) tr ar h = (Inl e, h3)"
        by (simp add: h_generate_manifest_def st it1 h_add_active_tools_loop l1 res2 it2
            h_add_deprecated_aliases_loop l2 del: store.simps)
      with a03 Inl es show ?thesis
        by (simp add: pure)
    next
      case fs: (Inr fs)
      with r3 have res3: "res3 = Inr ()" and dsb: "repr_list (- {t}) h3 dsb fs" by simp_all
      have run: "h_generate_manifest (PDict kvs) tr ar h = (Inr ?m, h3)"
        by (simp add: h_generate_manifest_def st it1 h_add_active_tools_loop l1 res2 it2
            h_add_deprecated_aliases_loop l2 res3 del: store.simps)
      have a13: "agree {t} ?h1 h3"
        by (rule agree_trans [OF a2 a3])
      have mo3: "obj_at h3 ?m = Some (ODict rkvs)"
        by (rule agree_obj_at [OF a13 mo1]) (use tb in simp)
      have "repr_list (- {t}) h3 dsa es"
        by (rule repr_agree(2) [OF a3 _ subset_refl dsa]) simp
      from repr_list_append [OF this dsb] have "repr_list UNIV h3 (dsa @ dsb) (es @ fs)"
        by (rule repr_agree(2) [OF agree_refl [of "{}"], rotated 2]) simp_all
      with t3 have rt3: "repr_on UNIV h3 t (PList (es @ fs))"
        by simp
      have "agree {t} hs h3"
        by (rule agree_trans [OF agree_append a13])
      from assemble [OF lay keys mt this rt3] mo3
      have "repr h3 ?m (with_tools (PDict kvs) (es @ fs))"
        by (simp add: repr_def)
      with run a03 es fs show ?thesis
        by (simp add: pure)
    qed
  qed
qed

lemma repr_preserved: "agree {} h h' \<Longrightarrow> repr h r v \<Longrightarrow> repr h' r v"
  unfolding repr_def by (rule repr_agree(1) [where X = "{}"]) simp_all

lemma script_refines:
  assumes "script = (h_generate_manifest_v2, generate_manifest_v2) \<or>
      script = (h_generate_manifest_v2_approved, generate_manifest_v2_approved)"
    and "repr h tools (PDict T)" and "repr h aliases (PDict A)"
    and "fst script tools aliases h = (res, h')"
  shows "agree {} h h' \<and>
     (case snd script T A of
        Inl e \<Rightarrow> res = Inl e
      | Inr doc \<Rightarrow> (\<exists>r. res = Inr r \<and> repr h' r doc))"
  using assms(1)
proof
  assume s: "script = (h_generate_manifest_v2, generate_manifest_v2)"
  have "map_of [
    (''name'', PStr ''TheLoopGPT.ai''),
    (''description'', PStr ''A comprehensive AI-powered nutrition and wellness platform with adaptive feedback loops. TheLoopGPT.ai provides personalized meal planning, weight tracking, nutrition analysis, and delivery integration across 100+ languages and 25 countries.''),
    (''version'', PStr ''2.0.0''),
    (''schema_version'', PStr ''v1''),
    (''namespace'', PStr ''loopgpt''),
    (''contact_email'', PStr ''support@theloopgpt.ai''),
    (''api'', PDict [
      (''type'', PStr ''openai-mcp''),
      (''url'', PStr ''https://qmagnwxeijctkksqbcqz.supabase.co/functions/v1/mcp-server'')]),
    (''authentication'', PDict [(''type'', PStr ''none'')]),
    (''tools'', PList [])] ''tools'' = Some (PList [])"
    by simp
  from h_generate_manifest_refines [OF this assms(2,3)] assms(4) show ?thesis
    by (simp add: s h_generate_manifest_v2_def generate_manifest_v2_def manifest_v2_def
        del: map_of.simps)
next
  assume s: "script = (h_generate_manifest_v2_approved, generate_manifest_v2_approved)"
  have "map_of [
    (''name'', PStr ''TheLoopGPT.ai''),
    (''description'', PStr ''A comprehensive AI-powered nutrition and wellness platform with adaptive feedback loops. TheLoopGPT.ai provides personalized meal planning, weight tracking, nutrition analysis, and delivery integration across 100+ languages and 25 countries.''),
    (''version'', PStr ''2.0.0''),
    (''schema_version'', PStr ''v1''),
    (''namespace'', PStr ''loopgpt''),
    (''contact_email'', PStr ''support@theloopgpt.ai''),
    (''api'', PDict [
      (''type'', PStr ''openai-mcp''),
      (''url'', PStr ''https://qmagnwxeijctkksqbcqz.supabase.co/functions/v1/mcp-server'')]),
    (''authentication'', PDict [(''type'', PStr ''none'')]),
    (''tools'', PList [])] ''tools'' = Some (PList [])"
    by simp
  from h_generate_manifest_refines [OF this assms(2,3)] assms(4) show ?thesis
    by (simp add: s h_generate_manifest_v2_approved_def generate_manifest_v2_approved_def
        manifest_approved_def del: map_of.simps)
qed


lemma scenario_heap_repr:
  "repr scenario_heap scenario_tools_ref (PDict scenario_tools)"
  "repr scenario_heap scenario_aliases_ref (PDict scenario_aliases)"
proof -
  obtain r1 h1 where s1: "store (PDict scenario_tools) [] = (r1, h1)"
    by (cases "store (PDict scenario_tools) []")
  obtain r2 h2 where s2: "store (PDict scenario_aliases) h1 = (r2, h2)"
    by (cases "store (PDict scenario_aliases) h1")
  from store_layout(1) [OF s1] have "repr_on {length ([] :: heap)..r1} h1 r1 (PDict scenario_tools)"
    by simp
  then have "repr h1 r1 (PDict scenario_tools)"
    unfolding repr_def by (rule repr_agree(1) [OF agree_refl [of "{}"], rotated 2]) simp_all
  moreover from store_layout(1) [OF s2] have a: "agree {} h1 h2"
    and "repr_on {length h1..r2} h2 r2 (PDict scenario_aliases)"
    by simp_all
  ultimately have "repr h2 r1 (PDict scenario_tools)"
    by (simp add: repr_preserved)
  then show "repr scenario_heap scenario_tools_ref (PDict scenario_tools)"
    by (simp add: scenario_heap_def scenario_tools_ref_def s1 s2 del: store.simps)
  from \<open>repr_on {length h1..r2} h2 r2 (PDict scenario_aliases)\<close>
  have "repr h2 r2 (PDict scenario_aliases)"
    unfolding repr_def by (rule repr_agree(1) [OF agree_refl [of "{}"], rotated 2]) simp_all
  then show "repr scenario_heap scenario_aliases_ref (PDict scenario_aliases)"
    by (simp add: scenario_heap_def scenario_aliases_ref_def s1 s2 del: store.simps)
qed


section \<open>The laws of the compiled document\<close>

text \<open>
  C3 (count law). Whenever \<^verbatim>\<open>generate_manifest\<close> of either script returns a document for two
  registries, the list under \<^verbatim>\<open>"tools"\<close> has exactly as many entries as the two registries
  have together.
\<close>

theorem count_law:
  assumes "generate_manifest_v2 T A = Inr doc \<or> generate_manifest_v2_approved T A = Inr doc"
  shows "\<exists>ts. getitem doc ''tools'' = Inr (PList ts) \<and> length ts = length T + length A"
proof -
  from generate_manifest_InrD [OF assms] obtain es fs where
    es: "map (\<lambda>(n, s). active_tool n s) T = map Inr es" and
    fs: "map (\<lambda>(n, s). alias_tool n s) A = map Inr fs" and
    doc: "getitem doc ''tools'' = Inr (PList (es @ fs))"
    by blast
  from active_entries_shape(1) [OF es] alias_entries_shape(1) [OF fs] doc
  show ?thesis by simp
qed


text \<open>
  Both scripts on three tools and two aliases: each returns the document with these five
  entries.
\<close>

theorem count_law_witness:
  "generate_manifest_v2 ordered_tools ordered_aliases =
     Inr (with_tools manifest_v2 ordered_entries) \<and>
   generate_manifest_v2_approved ordered_tools ordered_aliases =
     Inr (with_tools manifest_approved ordered_entries) \<and>
   getitem (with_tools manifest_v2 ordered_entries) ''tools'' = Inr (PList ordered_entries) \<and>
   getitem (with_tools manifest_approved ordered_entries) ''tools'' = Inr (PList ordered_entries) \<and>
   length ordered_entries = length ordered_tools + length ordered_aliases \<and>
   length ordered_tools = 3 \<and> length ordered_aliases = 2"
proof -
  note v2 = ordered_run(1) and approved = ordered_run(2)
  note tools_v2 = tools_of_with_tools_v2 [of ordered_entries]
  note tools_approved = tools_of_with_tools_approved [of ordered_entries]
  from count_law [OF disjI1 [OF v2]] obtain ts where
    "getitem (with_tools manifest_v2 ordered_entries) ''tools'' = Inr (PList ts)"
    and n: "length ts = length ordered_tools + length ordered_aliases"
    by blast
  with tools_v2 have "ts = ordered_entries" by simp
  with n have a: "length ordered_entries = length ordered_tools + length ordered_aliases"
    by simp
  from count_law [OF disjI2 [OF approved]] obtain ts' where
    "getitem (with_tools manifest_approved ordered_entries) ''tools'' = Inr (PList ts')"
    and n': "length ts' = length ordered_tools + length ordered_aliases"
    by blast
  with tools_approved have "ts' = ordered_entries" by simp
  with n' have "length ordered_entries = length ordered_tools + length ordered_aliases"
    by simp
  moreover have "length ordered_tools = 3" "length ordered_aliases = 2"
    by (simp_all add: ordered_tools_def ordered_aliases_def)
  ultimately show ?thesis
    using v2 approved tools_v2 tools_approved by simp
qed

text \<open>
  C4 (ordering law). In a returned document the names of the entries are the keys of the
  active registry in insertion order followed by the keys of the alias registry in
  insertion order, and the deprecation flag is unset on the first group and set on the
  second: every active entry precedes every deprecated one.
\<close>

theorem ordering_law:
  assumes "generate_manifest_v2 T A = Inr doc \<or> generate_manifest_v2_approved T A = Inr doc"
  shows "\<exists>ts. getitem doc ''tools'' = Inr (PList ts) \<and>
           map entry_name ts = map (\<lambda>(n, s). Some n) T @ map (\<lambda>(n, s). Some n) A \<and>
           map is_deprecated ts = replicate (length T) False @ replicate (length A) True"
proof -
  from generate_manifest_InrD [OF assms] obtain es fs where
    es: "map (\<lambda>(n, s). active_tool n s) T = map Inr es" and
    fs: "map (\<lambda>(n, s). alias_tool n s) A = map Inr fs" and
    doc: "getitem doc ''tools'' = Inr (PList (es @ fs))"
    by blast
  from active_entries_shape(2,3) [OF es] alias_entries_shape(2,3) [OF fs] doc
  show ?thesis by simp
qed


text \<open>
  Both scripts on three tools and two aliases: each returns the document with these five
  entries, in the order of the two registries.
\<close>

theorem ordering_law_witness:
  "generate_manifest_v2 ordered_tools ordered_aliases =
     Inr (with_tools manifest_v2 ordered_entries) \<and>
   generate_manifest_v2_approved ordered_tools ordered_aliases =
     Inr (with_tools manifest_approved ordered_entries) \<and>
   getitem (with_tools manifest_v2 ordered_entries) ''tools'' = Inr (PList ordered_entries) \<and>
   getitem (with_tools manifest_approved ordered_entries) ''tools'' = Inr (PList ordered_entries) \<and>
   map entry_name ordered_entries =
     [Some ''b_lookup'', Some ''a_store'', Some ''c_status'', Some ''old_store'', Some ''find''] \<and>
   map is_deprecated ordered_entries = [False, False, False, True, True]"
proof -
  note v2 = ordered_run(1) and approved = ordered_run(2)
  note tools_v2 = tools_of_with_tools_v2 [of ordered_entries]
  note tools_approved = tools_of_with_tools_approved [of ordered_entries]
  have keys: "map (\<lambda>(n, s). Some n) ordered_tools @ map (\<lambda>(n, s). Some n) ordered_aliases =
      [Some ''b_lookup'', Some ''a_store'', Some ''c_status'', Some ''old_store'', Some ''find'']"
    by (simp add: ordered_tools_def ordered_aliases_def)
  have flags: "replicate (length ordered_tools) False @ replicate (length ordered_aliases) True =
      [False, False, False, True, True]"
    by (simp add: ordered_tools_def ordered_aliases_def)
  from ordering_law [OF disjI1 [OF v2]] obtain ts where
    "getitem (with_tools manifest_v2 ordered_entries) ''tools'' = Inr (PList ts)"
    and o: "map entry_name ts =
      map (\<lambda>(n, s). Some n) ordered_tools @ map (\<lambda>(n, s). Some n) ordered_aliases"
      "map is_deprecated ts =
      replicate (length ordered_tools) False @ replicate (length ordered_aliases) True"
    by blast
  with tools_v2 have "ts = ordered_entries" by simp
  with o keys flags have a: "map entry_name ordered_entries =
     [Some ''b_lookup'', Some ''a_store'', Some ''c_status'', Some ''old_store'', Some ''find'']"
    "map is_deprecated ordered_entries = [False, False, False, True, True]"
    by simp_all
  from ordering_law [OF disjI2 [OF approved]] obtain ts' where
    "getitem (with_tools manifest_approved ordered_entries) ''tools'' = Inr (PList ts')"
    and o': "map entry_name ts' =
      map (\<lambda>(n, s). Some n) ordered_tools @ map (\<lambda>(n, s). Some n) ordered_aliases"
      "map is_deprecated ts' =
      replicate (length ordered_tools) False @ replicate (length ordered_aliases) True"
    by blast
  with tools_approved have "ts' = ordered_entries" by simp
  with o' keys flags have "map entry_name ordered_entries =
     [Some ''b_lookup'', Some ''a_store'', Some ''c_status'', Some ''old_store'', Some ''find'']"
    "map is_deprecated ordered_entries = [False, False, False, True, True]"
    by simp_all
  with v2 approved tools_v2 tools_approved show ?thesis by simp
qed

section \<open>Validation errors\<close>

text \<open>
  C1 (duplicate names). The specification has the compile step fail with
  \<open>DuplicateNameError\<close> when a name is a key of both registries. The generators check no
  names: on the active tool \<^verbatim>\<open>"a"\<close> with an alias \<^verbatim>\<open>"a"\<close> they return a document with
  two entries of that name.
\<close>

theorem duplicate_name_counterexample:
  "''a'' \<in> fst ` set scenario_tools \<and> ''a'' \<in> fst ` set collision_aliases \<and>
   generate_manifest_v2 scenario_tools collision_aliases \<noteq> Inl DuplicateNameError \<and>
   generate_manifest_v2_approved scenario_tools collision_aliases \<noteq> Inl DuplicateNameError \<and>
   manifest_tools (generate_manifest_v2 scenario_tools collision_aliases) =
     Inr (PList [
       PDict [
         (''name'', PStr ''a''),
         (''category'', PStr ''Examples''),
         (''description'', PStr ''An active tool''),
         (''input_schema'', PDict [
           (''type'', PStr ''object''),
           (''properties'', PDict [(''q'', PDict [(''type'', PStr ''string'')])]),
           (''required'', PList [PStr ''q''])])],
       PDict [
         (''name'', PStr ''a''),
         (''category'', PStr ''Deprecated''),
         (''description'', PStr ''Same name as the tool''),
         (''redirect_to'', PStr ''a''),
         (''deprecated'', PBool True),
         (''input_schema'', PDict [(''type'', PStr ''object''), (''properties'', PDict [])])]])"
proof -
  have "''a'' \<in> fst ` set scenario_tools" "''a'' \<in> fst ` set collision_aliases"
    by (simp_all add: scenario_tools_def collision_aliases_def)
  moreover have "manifest_tools (generate_manifest_v2 scenario_tools collision_aliases) =
     Inr (PList [
       PDict [
         (''name'', PStr ''a''),
         (''category'', PStr ''Examples''),
         (''description'', PStr ''An active tool''),
         (''input_schema'', PDict [
           (''type'', PStr ''object''),
           (''properties'', PDict [(''q'', PDict [(''type'', PStr ''string'')])]),
           (''required'', PList [PStr ''q''])])],
       PDict [
         (''name'', PStr ''a''),
         (''category'', PStr ''Deprecated''),
         (''description'', PStr ''Same name as the tool''),
         (''redirect_to'', PStr ''a''),
         (''deprecated'', PBool True),
         (''input_schema'', PDict [(''type'', PStr ''object''), (''properties'', PDict [])])]])"
    by (simp add: collision_run manifest_tools_def tools_of_with_tools_v2 scenario_entries_def)
  ultimately show ?thesis
    by (simp add: collision_run)
qed

text \<open>
  C1 as the generators have it: a run never ends in \<open>DuplicateNameError\<close>, and a name
  that is a key of both registries does not stop it. When every entry carries the fields
  the loops read, both scripts return a document whose active entries carry the keys of
  the active registry and whose alias entries carry the keys of the alias registry, so
  that name stands among both; it stands exactly once in each group when the keys of the
  registry are distinct, as the keys of a Python dictionary are.
\<close>

theorem duplicate_names_tolerated:
  "generate_manifest_v2 T A \<noteq> Inl DuplicateNameError \<and>
   generate_manifest_v2_approved T A \<noteq> Inl DuplicateNameError \<and>
   (n \<in> fst ` set T \<and> n \<in> fst ` set A \<and>
    list_all (\<lambda>(n, s). \<not> isl (active_tool n s)) T \<and>
    list_all (\<lambda>(n, s). \<not> isl (alias_tool n s)) A \<longrightarrow>
    (\<exists>doc doc' es fs.
       generate_manifest_v2 T A = Inr doc \<and> generate_manifest_v2_approved T A = Inr doc' \<and>
       getitem doc ''tools'' = Inr (PList (es @ fs)) \<and>
       getitem doc' ''tools'' = Inr (PList (es @ fs)) \<and>
       length es = length T \<and> length fs = length A \<and>
       map entry_name es = map (\<lambda>(n, s). Some n) T \<and>
       map entry_name fs = map (\<lambda>(n, s). Some n) A \<and>
       Some n \<in> set (map entry_name es) \<and> Some n \<in> set (map entry_name fs) \<and>
       (distinct (map fst T) \<longrightarrow> count_list (map entry_name es) (Some n) = 1) \<and>
       (distinct (map fst A) \<longrightarrow> count_list (map entry_name fs) (Some n) = 1)))"
proof (intro conjI impI)
  show "generate_manifest_v2 T A \<noteq> Inl DuplicateNameError"
    by (rule generate_manifest_never) simp
  show "generate_manifest_v2_approved T A \<noteq> Inl DuplicateNameError"
    by (rule generate_manifest_never) simp
next
  assume h: "n \<in> fst ` set T \<and> n \<in> fst ` set A \<and>
    list_all (\<lambda>(n, s). \<not> isl (active_tool n s)) T \<and>
    list_all (\<lambda>(n, s). \<not> isl (alias_tool n s)) A"
  then obtain es fs where
    es: "map (\<lambda>(n, s). active_tool n s) T = map Inr es" and
    fs: "map (\<lambda>(n, s). alias_tool n s) A = map Inr fs" and
    r: "generate_manifest_v2 T A = Inr (with_tools manifest_v2 (es @ fs))" and
    r': "generate_manifest_v2_approved T A = Inr (with_tools manifest_approved (es @ fs))"
    using generate_manifest_succeeds [of T A] by blast
  note names_es = active_entries_shape(2) [OF es]
  note names_fs = alias_entries_shape(2) [OF fs]
  have nes: "Some n \<in> set (map entry_name es)"
    unfolding names_es using h by (force simp: split_def)
  have nfs: "Some n \<in> set (map entry_name fs)"
    unfolding names_fs using h by (force simp: split_def)
  have ces: "count_list (map entry_name es) (Some n) = 1" if "distinct (map fst T)"
    by (rule count_list_distinct [OF distinct_entry_names [OF names_es that] nes])
  have cfs: "count_list (map entry_name fs) (Some n) = 1" if "distinct (map fst A)"
    by (rule count_list_distinct [OF distinct_entry_names [OF names_fs that] nfs])
  have "generate_manifest_v2 T A = Inr (with_tools manifest_v2 (es @ fs)) \<and>
       generate_manifest_v2_approved T A = Inr (with_tools manifest_approved (es @ fs)) \<and>
       getitem (with_tools manifest_v2 (es @ fs)) ''tools'' = Inr (PList (es @ fs)) \<and>
       getitem (with_tools manifest_approved (es @ fs)) ''tools'' = Inr (PList (es @ fs)) \<and>
       length es = length T \<and> length fs = length A \<and>
       map entry_name es = map (\<lambda>(n, s). Some n) T \<and>
       map entry_name fs = map (\<lambda>(n, s). Some n) A \<and>
       Some n \<in> set (map entry_name es) \<and> Some n \<in> set (map entry_name fs) \<and>
       (distinct (map fst T) \<longrightarrow> count_list (map entry_name es) (Some n) = 1) \<and>
       (distinct (map fst A) \<longrightarrow> count_list (map entry_name fs) (Some n) = 1)"
    using r r' tools_of_with_tools_v2 [of "es @ fs"] tools_of_with_tools_approved [of "es @ fs"]
      active_entries_shape(1) [OF es] alias_entries_shape(1) [OF fs] names_es names_fs nes nfs
      ces cfs
    by (intro conjI impI)
  then show "\<exists>doc doc' es fs.
       generate_manifest_v2 T A = Inr doc \<and> generate_manifest_v2_approved T A = Inr doc' \<and>
       getitem doc ''tools'' = Inr (PList (es @ fs)) \<and>
       getitem doc' ''tools'' = Inr (PList (es @ fs)) \<and>
       length es = length T \<and> length fs = length A \<and>
       map entry_name es = map (\<lambda>(n, s). Some n) T \<and>
       map entry_name fs = map (\<lambda>(n, s). Some n) A \<and>
       Some n \<in> set (map entry_name es) \<and> Some n \<in> set (map entry_name fs) \<and>
       (distinct (map fst T) \<longrightarrow> count_list (map entry_name es) (Some n) = 1) \<and>
       (distinct (map fst A) \<longrightarrow> count_list (map entry_name fs) (Some n) = 1)"
    by blast
qed

text \<open>
  Three tools and two aliases, the second alias under the name of the second tool: both
  scripts return five entries, and that name stands once among the first three and once
  among the last two.
\<close>

theorem duplicate_names_tolerated_witness:
  "''a_store'' \<in> fst ` set ordered_tools \<and> ''a_store'' \<in> fst ` set clashing_aliases \<and>
   distinct (map fst ordered_tools) \<and> distinct (map fst clashing_aliases) \<and>
   list_all (\<lambda>(n, s). \<not> isl (active_tool n s)) ordered_tools \<and>
   list_all (\<lambda>(n, s). \<not> isl (alias_tool n s)) clashing_aliases \<and>
   (\<exists>doc doc' es fs.
       generate_manifest_v2 ordered_tools clashing_aliases = Inr doc \<and>
       generate_manifest_v2_approved ordered_tools clashing_aliases = Inr doc' \<and>
       getitem doc ''tools'' = Inr (PList (es @ fs)) \<and>
       getitem doc' ''tools'' = Inr (PList (es @ fs)) \<and>
       length es = 3 \<and> length fs = 2 \<and>
       map entry_name es = [Some ''b_lookup'', Some ''a_store'', Some ''c_status''] \<and>
       map entry_name fs = [Some ''find'', Some ''a_store''] \<and>
       count_list (map entry_name es) (Some ''a_store'') = 1 \<and>
       count_list (map entry_name fs) (Some ''a_store'') = 1 \<and>
       count_list (map entry_name (es @ fs)) (Some ''a_store'') = 2)"
proof -
  have h: "''a_store'' \<in> fst ` set ordered_tools \<and> ''a_store'' \<in> fst ` set clashing_aliases \<and>
   list_all (\<lambda>(n, s). \<not> isl (active_tool n s)) ordered_tools \<and>
   list_all (\<lambda>(n, s). \<not> isl (alias_tool n s)) clashing_aliases"
    using clashing_fields by (simp add: ordered_tools_def clashing_aliases_def)
  have d: "distinct (map fst ordered_tools)" "distinct (map fst clashing_aliases)"
    by (simp_all add: ordered_tools_def clashing_aliases_def)
  have n: "length ordered_tools = 3" "length clashing_aliases = 2"
    "map (\<lambda>(n, s). Some n) ordered_tools = [Some ''b_lookup'', Some ''a_store'', Some ''c_status'']"
    "map (\<lambda>(n, s). Some n) clashing_aliases = [Some ''find'', Some ''a_store'']"
    by (simp_all add: ordered_tools_def clashing_aliases_def)
  from duplicate_names_tolerated [of ordered_tools clashing_aliases "''a_store''"] h d
  obtain doc doc' es fs where
    "generate_manifest_v2 ordered_tools clashing_aliases = Inr doc"
    "generate_manifest_v2_approved ordered_tools clashing_aliases = Inr doc'"
    "getitem doc ''tools'' = Inr (PList (es @ fs))"
    "getitem doc' ''tools'' = Inr (PList (es @ fs))"
    "length es = length ordered_tools" "length fs = length clashing_aliases"
    "map entry_name es = map (\<lambda>(n, s). Some n) ordered_tools"
    "map entry_name fs = map (\<lambda>(n, s). Some n) clashing_aliases"
    "count_list (map entry_name es) (Some ''a_store'') = 1"
    "count_list (map entry_name fs) (Some ''a_store'') = 1"
    by blast
  then have found: "generate_manifest_v2 ordered_tools clashing_aliases = Inr doc \<and>
       generate_manifest_v2_approved ordered_tools clashing_aliases = Inr doc' \<and>
       getitem doc ''tools'' = Inr (PList (es @ fs)) \<and>
       getitem doc' ''tools'' = Inr (PList (es @ fs)) \<and>
       length es = 3 \<and> length fs = 2 \<and>
       map entry_name es = [Some ''b_lookup'', Some ''a_store'', Some ''c_status''] \<and>
       map entry_name fs = [Some ''find'', Some ''a_store''] \<and>
       count_list (map entry_name es) (Some ''a_store'') = 1 \<and>
       count_list (map entry_name fs) (Some ''a_store'') = 1 \<and>
       count_list (map entry_name (es @ fs)) (Some ''a_store'') = 2"
    using n by simp
  have "\<exists>doc doc' es fs.
       generate_manifest_v2 ordered_tools clashing_aliases = Inr doc \<and>
       generate_manifest_v2_approved ordered_tools clashing_aliases = Inr doc' \<and>
       getitem doc ''tools'' = Inr (PList (es @ fs)) \<and>
       getitem doc' ''tools'' = Inr (PList (es @ fs)) \<and>
       length es = 3 \<and> length fs = 2 \<and>
       map entry_name es = [Some ''b_lookup'', Some ''a_store'', Some ''c_status''] \<and>
       map entry_name fs = [Some ''find'', Some ''a_store''] \<and>
       count_list (map entry_name es) (Some ''a_store'') = 1 \<and>
       count_list (map entry_name fs) (Some ''a_store'') = 1 \<and>
       count_list (map entry_name (es @ fs)) (Some ''a_store'') = 2"
  proof (intro exI)
    show "generate_manifest_v2 ordered_tools clashing_aliases = Inr doc \<and>
       generate_manifest_v2_approved ordered_tools clashing_aliases = Inr doc' \<and>
       getitem doc ''tools'' = Inr (PList (es @ fs)) \<and>
       getitem doc' ''tools'' = Inr (PList (es @ fs)) \<and>
       length es = 3 \<and> length fs = 2 \<and>
       map entry_name es = [Some ''b_lookup'', Some ''a_store'', Some ''c_status''] \<and>
       map entry_name fs = [Some ''find'', Some ''a_store''] \<and>
       count_list (map entry_name es) (Some ''a_store'') = 1 \<and>
       count_list (map entry_name fs) (Some ''a_store'') = 1 \<and>
       count_list (map entry_name (es @ fs)) (Some ''a_store'') = 2"
      by (fact found)
  qed
  with h d show ?thesis by simp
qed

text \<open>
  C2 (dangling redirects). The specification has the compile step fail with
  \<open>DanglingRedirectError\<close> when the \<^verbatim>\<open>redirect_to\<close> of an alias is no key of the active
  registry. The generators never look a redirect target up: the alias \<^verbatim>\<open>"x"\<close> that
  redirects to \<^verbatim>\<open>"nonexistent"\<close> is compiled into an entry like any other.
\<close>

theorem dangling_redirect_counterexample:
  "''nonexistent'' \<notin> fst ` set scenario_tools \<and>
   map (\<lambda>(n, s). redirect_target s) dangling_aliases = [Some ''nonexistent''] \<and>
   generate_manifest_v2 scenario_tools dangling_aliases \<noteq> Inl DanglingRedirectError \<and>
   generate_manifest_v2_approved scenario_tools dangling_aliases \<noteq> Inl DanglingRedirectError \<and>
   manifest_tools (generate_manifest_v2 scenario_tools dangling_aliases) =
     Inr (PList [
       PDict [
         (''name'', PStr ''a''),
         (''category'', PStr ''Examples''),
         (''description'', PStr ''An active tool''),
         (''input_schema'', PDict [
           (''type'', PStr ''object''),
           (''properties'', PDict [(''q'', PDict [(''type'', PStr ''string'')])]),
           (''required'', PList [PStr ''q''])])],
       PDict [
         (''name'', PStr ''x''),
         (''category'', PStr ''Deprecated''),
         (''description'', PStr ''Points nowhere''),
         (''redirect_to'', PStr ''nonexistent''),
         (''deprecated'', PBool True),
         (''input_schema'', PDict [(''type'', PStr ''object''), (''properties'', PDict [])])]])"
proof -
  have "''nonexistent'' \<notin> fst ` set scenario_tools"
    by (simp add: scenario_tools_def)
  moreover have "map (\<lambda>(n, s). redirect_target s) dangling_aliases = [Some ''nonexistent'']"
    by (simp add: dangling_aliases_def redirect_target_def)
  moreover have "manifest_tools (generate_manifest_v2 scenario_tools dangling_aliases) =
     Inr (PList [
       PDict [
         (''name'', PStr ''a''),
         (''category'', PStr ''Examples''),
         (''description'', PStr ''An active tool''),
         (''input_schema'', PDict [
           (''type'', PStr ''object''),
           (''properties'', PDict [(''q'', PDict [(''type'', PStr ''string'')])]),
           (''required'', PList [PStr ''q''])])],
       PDict [
         (''name'', PStr ''x''),
         (''category'', PStr ''Deprecated''),
         (''description'', PStr ''Points nowhere''),
         (''redirect_to'', PStr ''nonexistent''),
         (''deprecated'', PBool True),
         (''input_schema'', PDict [(''type'', PStr ''object''), (''properties'', PDict [])])]])"
    by (simp add: dangling_run manifest_tools_def tools_of_with_tools_v2 scenario_entries_def)
  ultimately show ?thesis
    by (simp add: dangling_run)
qed

text \<open>
  C2 as the generators have it: a run never ends in \<open>DanglingRedirectError\<close>. When every
  entry carries the fields the loops read, both scripts return a document, and the
  redirect targets of its alias entries are those of the alias registry, in order,
  whether or not an active tool has that name.
\<close>

theorem dangling_redirects_tolerated:
  "generate_manifest_v2 T A \<noteq> Inl DanglingRedirectError \<and>
   generate_manifest_v2_approved T A \<noteq> Inl DanglingRedirectError \<and>
   (list_all (\<lambda>(n, s). \<not> isl (active_tool n s)) T \<and>
    list_all (\<lambda>(n, s). \<not> isl (alias_tool n s)) A \<longrightarrow>
    (\<exists>doc doc' es fs.
       generate_manifest_v2 T A = Inr doc \<and> generate_manifest_v2_approved T A = Inr doc' \<and>
       getitem doc ''tools'' = Inr (PList (es @ fs)) \<and>
       getitem doc' ''tools'' = Inr (PList (es @ fs)) \<and>
       length es = length T \<and>
       map redirect_target fs = map (\<lambda>(n, s). redirect_target s) A))"
proof (intro conjI impI)
  show "generate_manifest_v2 T A \<noteq> Inl DanglingRedirectError"
    by (rule generate_manifest_never) simp
  show "generate_manifest_v2_approved T A \<noteq> Inl DanglingRedirectError"
    by (rule generate_manifest_never) simp
next
  assume h: "list_all (\<lambda>(n, s). \<not> isl (active_tool n s)) T \<and>
    list_all (\<lambda>(n, s). \<not> isl (alias_tool n s)) A"
  then obtain es fs where
    es: "map (\<lambda>(n, s). active_tool n s) T = map Inr es" and
    fs: "map (\<lambda>(n, s). alias_tool n s) A = map Inr fs" and
    r: "generate_manifest_v2 T A = Inr (with_tools manifest_v2 (es @ fs))" and
    r': "generate_manifest_v2_approved T A = Inr (with_tools manifest_approved (es @ fs))"
    using generate_manifest_succeeds [of T A] by blast
  show "\<exists>doc doc' es fs.
       generate_manifest_v2 T A = Inr doc \<and> generate_manifest_v2_approved T A = Inr doc' \<and>
       getitem doc ''tools'' = Inr (PList (es @ fs)) \<and>
       getitem doc' ''tools'' = Inr (PList (es @ fs)) \<and>
       length es = length T \<and>
       map redirect_target fs = map (\<lambda>(n, s). redirect_target s) A"
    using r r' tools_of_with_tools_v2 [of "es @ fs"] tools_of_with_tools_approved [of "es @ fs"]
      active_entries_shape(1) [OF es] alias_redirects(2) [OF fs]
    by blast
qed

text \<open>The alias \<^verbatim>\<open>"x"\<close> with its missing target is such a registry.\<close>

theorem dangling_redirects_tolerated_witness:
  "list_all (\<lambda>(n, s). \<not> isl (active_tool n s)) scenario_tools \<and>
   list_all (\<lambda>(n, s). \<not> isl (alias_tool n s)) dangling_aliases \<and>
   (\<exists>doc doc' es fs.
       generate_manifest_v2 scenario_tools dangling_aliases = Inr doc \<and>
       generate_manifest_v2_approved scenario_tools dangling_aliases = Inr doc' \<and>
       getitem doc ''tools'' = Inr (PList (es @ fs)) \<and>
       getitem doc' ''tools'' = Inr (PList (es @ fs)) \<and>
       length es = length scenario_tools \<and>
       map redirect_target fs = map (\<lambda>(n, s). redirect_target s) dangling_aliases)"
proof -
  have h: "list_all (\<lambda>(n, s). \<not> isl (active_tool n s)) scenario_tools \<and>
   list_all (\<lambda>(n, s). \<not> isl (alias_tool n s)) dangling_aliases"
    using scenario_fields(1,4) by simp
  from dangling_redirects_tolerated [of scenario_tools dangling_aliases] h
  show ?thesis by blast
qed


section \<open>The fields of the entries\<close>

text \<open>
  C5 (fields of the entries). The specification has every alias entry carry a non-empty
  \<^verbatim>\<open>redirect_to\<close>. The generators copy the field as it is: an alias whose target is the
  empty string compiles, and its entry has the empty string as \<^verbatim>\<open>redirect_to\<close>.
\<close>

theorem empty_redirect_counterexample:
  "manifest_tools (generate_manifest_v2 scenario_tools blank_aliases) =
     Inr (PList [
       PDict [
         (''name'', PStr ''a''),
         (''category'', PStr ''Examples''),
         (''description'', PStr ''An active tool''),
         (''input_schema'', PDict [
           (''type'', PStr ''object''),
           (''properties'', PDict [(''q'', PDict [(''type'', PStr ''string'')])]),
           (''required'', PList [PStr ''q''])])],
       PDict [
         (''name'', PStr ''x''),
         (''category'', PStr ''Deprecated''),
         (''description'', PStr ''No target''),
         (''redirect_to'', PStr []),
         (''deprecated'', PBool True),
         (''input_schema'', PDict [(''type'', PStr ''object''), (''properties'', PDict [])])]]) \<and>
   manifest_tools (generate_manifest_v2_approved scenario_tools blank_aliases) =
     manifest_tools (generate_manifest_v2 scenario_tools blank_aliases)"
  by (simp add: blank_run manifest_tools_def tools_of_with_tools_v2 tools_of_with_tools_approved
      scenario_entries_def)

text \<open>
  C5 as the generators have it. In a returned document the entries split into those of
  the active registry and those of the alias registry. An active entry has the
  \<^verbatim>\<open>input_schema\<close> of its registry entry and no \<^verbatim>\<open>deprecated\<close> field. An alias entry has
  \<^verbatim>\<open>deprecated\<close> set to \<^verbatim>\<open>True\<close>, the \<^verbatim>\<open>redirect_to\<close> of its registry entry unchanged (so
  it is non-empty exactly when the registry's is), and the empty object schema.
\<close>

theorem entry_fields:
  assumes "generate_manifest_v2 T A = Inr doc \<or> generate_manifest_v2_approved T A = Inr doc"
  shows "\<exists>es fs. getitem doc ''tools'' = Inr (PList (es @ fs)) \<and>
           list_all2 (\<lambda>p t.
               getitem t ''input_schema'' = getitem (snd p) ''input_schema'' \<and>
               \<not> isl (getitem t ''input_schema'') \<and>
               getitem t ''deprecated'' = Inl (KeyError ''deprecated'')) T es \<and>
           list_all2 (\<lambda>p t.
               getitem t ''deprecated'' = Inr (PBool True) \<and>
               getitem t ''redirect_to'' = getitem (snd p) ''redirect_to'' \<and>
               \<not> isl (getitem t ''redirect_to'') \<and>
               getitem t ''input_schema'' =
                 Inr (PDict [(''type'', PStr ''object''), (''properties'', PDict [])])) A fs"
proof -
  from generate_manifest_InrD [OF assms] obtain es fs where
    es: "map (\<lambda>(n, s). active_tool n s) T = map Inr es" and
    fs: "map (\<lambda>(n, s). alias_tool n s) A = map Inr fs" and
    doc: "getitem doc ''tools'' = Inr (PList (es @ fs))"
    by blast
  from es have "list_all2 (\<lambda>p t. active_tool (fst p) (snd p) = Inr t) T es"
    by (simp add: map_eq_map_iff_list_all2 case_prod_beta)
  then have a: "list_all2 (\<lambda>p t.
               getitem t ''input_schema'' = getitem (snd p) ''input_schema'' \<and>
               \<not> isl (getitem t ''input_schema'') \<and>
               getitem t ''deprecated'' = Inl (KeyError ''deprecated'')) T es"
  proof (rule list_all2_mono)
    fix p t
    assume "active_tool (fst p) (snd p) = Inr t"
    from active_tool_InrD(3,4,5) [OF this]
    show "getitem t ''input_schema'' = getitem (snd p) ''input_schema'' \<and>
               \<not> isl (getitem t ''input_schema'') \<and>
               getitem t ''deprecated'' = Inl (KeyError ''deprecated'')"
      by simp
  qed
  from fs have "list_all2 (\<lambda>p t. alias_tool (fst p) (snd p) = Inr t) A fs"
    by (simp add: map_eq_map_iff_list_all2 case_prod_beta)
  then have b: "list_all2 (\<lambda>p t.
               getitem t ''deprecated'' = Inr (PBool True) \<and>
               getitem t ''redirect_to'' = getitem (snd p) ''redirect_to'' \<and>
               \<not> isl (getitem t ''redirect_to'') \<and>
               getitem t ''input_schema'' =
                 Inr (PDict [(''type'', PStr ''object''), (''properties'', PDict [])])) A fs"
  proof (rule list_all2_mono)
    fix p t
    assume "alias_tool (fst p) (snd p) = Inr t"
    from alias_tool_InrD(3,4,5,6) [OF this]
    show "getitem t ''deprecated'' = Inr (PBool True) \<and>
               getitem t ''redirect_to'' = getitem (snd p) ''redirect_to'' \<and>
               \<not> isl (getitem t ''redirect_to'') \<and>
               getitem t ''input_schema'' =
                 Inr (PDict [(''type'', PStr ''object''), (''properties'', PDict [])])"
      by simp
  qed
  from doc a b show ?thesis by blast
qed

text \<open>
  Both scripts on three tools and two aliases: each returns the document with these five
  entries.
\<close>

theorem entry_fields_witness:
  "generate_manifest_v2 ordered_tools ordered_aliases =
     Inr (with_tools manifest_v2 ordered_entries) \<and>
   generate_manifest_v2_approved ordered_tools ordered_aliases =
     Inr (with_tools manifest_approved ordered_entries) \<and>
   getitem (with_tools manifest_v2 ordered_entries) ''tools'' = Inr (PList ordered_entries) \<and>
   getitem (with_tools manifest_approved ordered_entries) ''tools'' = Inr (PList ordered_entries) \<and>
   list_all2 (\<lambda>p t.
        getitem t ''input_schema'' = getitem (snd p) ''input_schema'' \<and>
        \<not> isl (getitem t ''input_schema'') \<and>
        getitem t ''deprecated'' = Inl (KeyError ''deprecated'')) ordered_tools (take 3 ordered_entries) \<and>
   list_all2 (\<lambda>p t.
        getitem t ''deprecated'' = Inr (PBool True) \<and>
        getitem t ''redirect_to'' = getitem (snd p) ''redirect_to'' \<and>
        \<not> isl (getitem t ''redirect_to'') \<and>
        getitem t ''input_schema'' =
          Inr (PDict [(''type'', PStr ''object''), (''properties'', PDict [])])) ordered_aliases (drop 3 ordered_entries)"
proof -
  note v2 = ordered_run(1) and approved = ordered_run(2)
  note tools_v2 = tools_of_with_tools_v2 [of ordered_entries]
  note tools_approved = tools_of_with_tools_approved [of ordered_entries]
  have n: "length ordered_tools = 3"
    by (simp add: ordered_tools_def)
  from entry_fields [OF disjI1 [OF v2]] obtain es fs where
    "getitem (with_tools manifest_v2 ordered_entries) ''tools'' = Inr (PList (es @ fs))"
    and a: "list_all2 (\<lambda>p t.
        getitem t ''input_schema'' = getitem (snd p) ''input_schema'' \<and>
        \<not> isl (getitem t ''input_schema'') \<and>
        getitem t ''deprecated'' = Inl (KeyError ''deprecated'')) ordered_tools es"
    and b: "list_all2 (\<lambda>p t.
        getitem t ''deprecated'' = Inr (PBool True) \<and>
        getitem t ''redirect_to'' = getitem (snd p) ''redirect_to'' \<and>
        \<not> isl (getitem t ''redirect_to'') \<and>
        getitem t ''input_schema'' =
          Inr (PDict [(''type'', PStr ''object''), (''properties'', PDict [])])) ordered_aliases fs"
    by blast
  with tools_v2 have split: "es @ fs = ordered_entries" by simp
  from list_all2_lengthD [OF a] n have "length es = 3" by simp
  with split have "es = take 3 ordered_entries" "fs = drop 3 ordered_entries"
    by (simp_all add: append_eq_conv_conj)
  with a b have first: "list_all2 (\<lambda>p t.
        getitem t ''input_schema'' = getitem (snd p) ''input_schema'' \<and>
        \<not> isl (getitem t ''input_schema'') \<and>
        getitem t ''deprecated'' = Inl (KeyError ''deprecated'')) ordered_tools (take 3 ordered_entries)"
    "list_all2 (\<lambda>p t.
        getitem t ''deprecated'' = Inr (PBool True) \<and>
        getitem t ''redirect_to'' = getitem (snd p) ''redirect_to'' \<and>
        \<not> isl (getitem t ''redirect_to'') \<and>
        getitem t ''input_schema'' =
          Inr (PDict [(''type'', PStr ''object''), (''properties'', PDict [])])) ordered_aliases (drop 3 ordered_entries)"
    by simp_all
  from entry_fields [OF disjI2 [OF approved]] obtain es' fs' where
    "getitem (with_tools manifest_approved ordered_entries) ''tools'' = Inr (PList (es' @ fs'))"
    and a': "list_all2 (\<lambda>p t.
        getitem t ''input_schema'' = getitem (snd p) ''input_schema'' \<and>
        \<not> isl (getitem t ''input_schema'') \<and>
        getitem t ''deprecated'' = Inl (KeyError ''deprecated'')) ordered_tools es'"
    and b': "list_all2 (\<lambda>p t.
        getitem t ''deprecated'' = Inr (PBool True) \<and>
        getitem t ''redirect_to'' = getitem (snd p) ''redirect_to'' \<and>
        \<not> isl (getitem t ''redirect_to'') \<and>
        getitem t ''input_schema'' =
          Inr (PDict [(''type'', PStr ''object''), (''properties'', PDict [])])) ordered_aliases fs'"
    by blast
  with tools_approved have split': "es' @ fs' = ordered_entries" by simp
  from list_all2_lengthD [OF a'] n have "length es' = 3" by simp
  with split' have "es' = take 3 ordered_entries" "fs' = drop 3 ordered_entries"
    by (simp_all add: append_eq_conv_conj)
  with a' b' have "list_all2 (\<lambda>p t.
        getitem t ''input_schema'' = getitem (snd p) ''input_schema'' \<and>
        \<not> isl (getitem t ''input_schema'') \<and>
        getitem t ''deprecated'' = Inl (KeyError ''deprecated'')) ordered_tools (take 3 ordered_entries)"
    "list_all2 (\<lambda>p t.
        getitem t ''deprecated'' = Inr (PBool True) \<and>
        getitem t ''redirect_to'' = getitem (snd p) ''redirect_to'' \<and>
        \<not> isl (getitem t ''redirect_to'') \<and>
        getitem t ''input_schema'' =
          Inr (PDict [(''type'', PStr ''object''), (''properties'', PDict [])])) ordered_aliases (drop 3 ordered_entries)"
    by simp_all
  with v2 approved tools_v2 tools_approved show ?thesis by simp
qed

section \<open>The documents of the two scripts\<close>

text \<open>
  C6 (uniqueness). Each script, run on its built-in registries, returns a document; every
  entry of its \<^verbatim>\<open>tools\<close> list has a name, and these names are pairwise distinct as
  strings.
\<close>

theorem names_unique:
  "(\<exists>doc ts names. main_v2 = Inr doc \<and> getitem doc ''tools'' = Inr (PList ts) \<and>
       map entry_name ts = map Some names \<and> distinct names) \<and>
   (\<exists>doc ts names. main_approved = Inr doc \<and> getitem doc ''tools'' = Inr (PList ts) \<and>
       map entry_name ts = map Some names \<and> distinct names)"
proof
  obtain es fs where
    es: "map (\<lambda>(n, s). active_tool n s) TOOLS_v2 = map Inr es" and
    fs: "map (\<lambda>(n, s). alias_tool n s) DEPRECATED_ALIASES_v2 = map Inr fs" and
    run: "main_v2 = Inr (with_tools manifest_v2 (es @ fs))"
    by (rule main_runs)
  from run tools_of_with_tools_v2 [of "es @ fs"] entry_names_of_run [OF es fs] distinct_keys_v2
  show "\<exists>doc ts names. main_v2 = Inr doc \<and> getitem doc ''tools'' = Inr (PList ts) \<and>
       map entry_name ts = map Some names \<and> distinct names"
    by blast
next
  obtain es fs where
    es: "map (\<lambda>(n, s). active_tool n s) TOOLS_approved = map Inr es" and
    fs: "map (\<lambda>(n, s). alias_tool n s) DEPRECATED_ALIASES_approved = map Inr fs" and
    run: "main_approved = Inr (with_tools manifest_approved (es @ fs))"
    by (rule main_approved_runs)
  from run tools_of_with_tools_approved [of "es @ fs"] entry_names_of_run [OF es fs]
    distinct_keys_approved
  show "\<exists>doc ts names. main_approved = Inr doc \<and> getitem doc ''tools'' = Inr (PList ts) \<and>
       map entry_name ts = map Some names \<and> distinct names"
    by blast
qed


text \<open>
  C7 (redirect integrity). In the document of each script, every entry flagged as
  deprecated has a redirect target, and that target is the name of an entry of the same
  document that is not flagged as deprecated.
\<close>

theorem redirect_integrity:
  "(\<exists>doc ts. main_v2 = Inr doc \<and> getitem doc ''tools'' = Inr (PList ts) \<and>
       list_all (\<lambda>t. case redirect_target t of
             Some r \<Rightarrow> Some r \<in> set (map entry_name (filter (\<lambda>a. \<not> is_deprecated a) ts))
           | None \<Rightarrow> False) (filter is_deprecated ts)) \<and>
   (\<exists>doc ts. main_approved = Inr doc \<and> getitem doc ''tools'' = Inr (PList ts) \<and>
       list_all (\<lambda>t. case redirect_target t of
             Some r \<Rightarrow> Some r \<in> set (map entry_name (filter (\<lambda>a. \<not> is_deprecated a) ts))
           | None \<Rightarrow> False) (filter is_deprecated ts))"
proof
  obtain es fs where
    es: "map (\<lambda>(n, s). active_tool n s) TOOLS_v2 = map Inr es" and
    fs: "map (\<lambda>(n, s). alias_tool n s) DEPRECATED_ALIASES_v2 = map Inr fs" and
    run: "main_v2 = Inr (with_tools manifest_v2 (es @ fs))"
    by (rule main_runs)
  from run tools_of_with_tools_v2 [of "es @ fs"] redirects_of_run [OF es fs redirects_v2]
  show "\<exists>doc ts. main_v2 = Inr doc \<and> getitem doc ''tools'' = Inr (PList ts) \<and>
       list_all (\<lambda>t. case redirect_target t of
             Some r \<Rightarrow> Some r \<in> set (map entry_name (filter (\<lambda>a. \<not> is_deprecated a) ts))
           | None \<Rightarrow> False) (filter is_deprecated ts)"
    by blast
next
  obtain es fs where
    es: "map (\<lambda>(n, s). active_tool n s) TOOLS_approved = map Inr es" and
    fs: "map (\<lambda>(n, s). alias_tool n s) DEPRECATED_ALIASES_approved = map Inr fs" and
    run: "main_approved = Inr (with_tools manifest_approved (es @ fs))"
    by (rule main_approved_runs)
  from run tools_of_with_tools_approved [of "es @ fs"]
    redirects_of_run [OF es fs redirects_approved]
  show "\<exists>doc ts. main_approved = Inr doc \<and> getitem doc ''tools'' = Inr (PList ts) \<and>
       list_all (\<lambda>t. case redirect_target t of
             Some r \<Rightarrow> Some r \<in> set (map entry_name (filter (\<lambda>a. \<not> is_deprecated a) ts))
           | None \<Rightarrow> False) (filter is_deprecated ts)"
    by blast
qed


text \<open>
  C9 (metadata of the two scripts). The documents of the two scripts have the same keys in
  the same order and, \<^verbatim>\<open>tools\<close> apart, the same value under every key: name, description,
  version \<^verbatim>\<open>2.0.0\<close>, schema version \<^verbatim>\<open>v1\<close>, namespace \<^verbatim>\<open>loopgpt\<close>, contact address,
  API type and URL, and authentication type.
\<close>

theorem metadata_equal:
  "\<exists>d1 d2. main_v2 = Inr (PDict d1) \<and> main_approved = Inr (PDict d2) \<and>
     AList.delete ''tools'' d1 = AList.delete ''tools'' d2 \<and>
     map fst d1 = map fst d2 \<and>
     AList.delete ''tools'' d1 = [
       (''name'', PStr ''TheLoopGPT.ai''),
       (''description'', PStr ''A comprehensive AI-powered nutrition and wellness platform with adaptive feedback loops. TheLoopGPT.ai provides personalized meal planning, weight tracking, nutrition analysis, and delivery integration across 100+ languages and 25 countries.''),
       (''version'', PStr ''2.0.0''),
       (''schema_version'', PStr ''v1''),
       (''namespace'', PStr ''loopgpt''),
       (''contact_email'', PStr ''support@theloopgpt.ai''),
       (''api'', PDict [
         (''type'', PStr ''openai-mcp''),
         (''url'', PStr ''https://qmagnwxeijctkksqbcqz.supabase.co/functions/v1/mcp-server'')]),
       (''authentication'', PDict [(''type'', PStr ''none'')])]"
proof -
  obtain es fs where run: "main_v2 = Inr (with_tools manifest_v2 (es @ fs))"
    by (rule main_runs)
  obtain es' fs' where run': "main_approved = Inr (with_tools manifest_approved (es' @ fs'))"
    by (rule main_approved_runs)
  show ?thesis
    unfolding run run' with_tools_manifest_v2 with_tools_manifest_approved
    by (intro exI conjI, rule refl, rule refl) simp_all
qed

text \<open>
  C10 (schemas of the built-in tools). In \<^verbatim>\<open>TOOLS\<close> of each script, every tool has an
  \<^verbatim>\<open>input_schema\<close> whose \<^verbatim>\<open>required\<close> names are all keys of its \<^verbatim>\<open>properties\<close>.
\<close>

theorem required_names_declared:
  "list_all (\<lambda>(n, s). schema_ok s) TOOLS_v2 \<and> list_all (\<lambda>(n, s). schema_ok s) TOOLS_approved"
  by (simp add: TOOLS_v2_def TOOLS_approved_def schema_ok_def required_in_properties_def)

section \<open>Determinism and side effects\<close>

text \<open>
  C8 (determinism, no side effects). Take either script and two calls of its
  \<^verbatim>\<open>generate_manifest\<close>, each on a heap in which the two registries stand for the same
  values \<open>T\<close> and \<open>A\<close>: the same heap twice, the heap the first call leaves, or the heap
  of another process. Each call leaves every object that existed before it unchanged, so
  every value that could be read before can be read after. The two calls end alike: both
  raise the same error, or both return a document, and the two documents are the same
  value, the one the run on values gives for \<open>T\<close> and \<open>A\<close>.
\<close>

theorem generate_manifest_deterministic:
  assumes "script = (h_generate_manifest_v2, generate_manifest_v2) \<or>
      script = (h_generate_manifest_v2_approved, generate_manifest_v2_approved)"
    and "repr h tools (PDict T)" and "repr h aliases (PDict A)"
    and "fst script tools aliases h = (res, h')"
    and "repr g tools' (PDict T)" and "repr g aliases' (PDict A)"
    and "fst script tools' aliases' g = (res', g')"
  shows "take (length h) h' = h \<and> take (length g) g' = g \<and>
     (\<forall>r v. repr h r v \<longrightarrow> repr h' r v) \<and> (\<forall>r v. repr g r v \<longrightarrow> repr g' r v) \<and>
     (case snd script T A of
        Inl e \<Rightarrow> res = Inl e \<and> res' = Inl e
      | Inr doc \<Rightarrow> (\<exists>r r'. res = Inr r \<and> res' = Inr r' \<and> repr h' r doc \<and> repr g' r' doc))"
proof -
  from script_refines [OF assms(1,2,3,4)] have a: "agree {} h h'"
    and r: "case snd script T A of
        Inl e \<Rightarrow> res = Inl e
      | Inr doc \<Rightarrow> (\<exists>r. res = Inr r \<and> repr h' r doc)"
    by simp_all
  from script_refines [OF assms(1,5,6,7)] have a': "agree {} g g'"
    and r': "case snd script T A of
        Inl e \<Rightarrow> res' = Inl e
      | Inr doc \<Rightarrow> (\<exists>r. res' = Inr r \<and> repr g' r doc)"
    by simp_all
  from r r' have "case snd script T A of
        Inl e \<Rightarrow> res = Inl e \<and> res' = Inl e
      | Inr doc \<Rightarrow> (\<exists>r r'. res = Inr r \<and> res' = Inr r' \<and> repr h' r doc \<and> repr g' r' doc)"
    by (cases "snd script T A") auto
  with agree_take [OF a] agree_take [OF a'] repr_preserved [OF a] repr_preserved [OF a']
  show ?thesis by blast
qed

text \<open>
  Two calls in a row on the heap of the small registries: the second runs on the heap the
  first leaves, and both return the same document.
\<close>

theorem generate_manifest_deterministic_witness:
  "repr scenario_heap scenario_tools_ref (PDict scenario_tools) \<and>
   repr scenario_heap scenario_aliases_ref (PDict scenario_aliases) \<and>
   repr (snd scenario_first_run) scenario_tools_ref (PDict scenario_tools) \<and>
   repr (snd scenario_first_run) scenario_aliases_ref (PDict scenario_aliases) \<and>
   take (length scenario_heap) (snd scenario_first_run) = scenario_heap \<and>
   take (length (snd scenario_first_run)) (snd scenario_second_run) = snd scenario_first_run \<and>
   (\<exists>r r'. fst scenario_first_run = Inr r \<and> fst scenario_second_run = Inr r' \<and>
      repr (snd scenario_first_run) r (with_tools manifest_v2 scenario_entries) \<and>
      repr (snd scenario_second_run) r' (with_tools manifest_v2 scenario_entries))"
proof -
  let ?script = "(h_generate_manifest_v2, generate_manifest_v2)"
  have s: "?script = (h_generate_manifest_v2, generate_manifest_v2) \<or>
      ?script = (h_generate_manifest_v2_approved, generate_manifest_v2_approved)"
    by simp
  have run1: "fst ?script scenario_tools_ref scenario_aliases_ref scenario_heap =
      (fst scenario_first_run, snd scenario_first_run)"
    by (simp add: scenario_first_run_def)
  have run2: "fst ?script scenario_tools_ref scenario_aliases_ref (snd scenario_first_run) =
      (fst scenario_second_run, snd scenario_second_run)"
    by (simp add: scenario_second_run_def)
  note h = scenario_heap_repr
  from generate_manifest_deterministic [OF s h run1 h run1]
  have keep: "\<forall>r v. repr scenario_heap r v \<longrightarrow> repr (snd scenario_first_run) r v"
    by simp
  from keep h have h': "repr (snd scenario_first_run) scenario_tools_ref (PDict scenario_tools)"
    "repr (snd scenario_first_run) scenario_aliases_ref (PDict scenario_aliases)"
    by simp_all
  from generate_manifest_deterministic [OF s h run1 h' run2] h h'
  show ?thesis
    by (simp add: scenario_run)
qed

end
